theory Spec2Isabelle
  imports Main "HOL-Library.Word" "HOL-Library.Multiset"
begin

unbundle bit_operations_syntax

section \<open>Constants\<close>

text \<open>Bytes are \<^verbatim>\<open>uint8_t\<close>; every table of the source is a list of 256 bytes
  read at the index given by the byte.\<close>

type_synonym uint8_t = "8 word"

definition table2 :: "uint8_t list" where
  "table2 = [
  0, 2, 4, 6, 8, 10, 12, 14, 16, 18, 20, 22, 24, 26, 28, 30,
  32, 34, 36, 38, 40, 42, 44, 46, 48, 50, 52, 54, 56, 58, 60, 62,
  64, 66, 68, 70, 72, 74, 76, 78, 80, 82, 84, 86, 88, 90, 92, 94,
  96, 98, 100, 102, 104, 106, 108, 110, 112, 114, 116, 118, 120, 122, 124, 126,
  128, 130, 132, 134, 136, 138, 140, 142, 144, 146, 148, 150, 152, 154, 156, 158,
  160, 162, 164, 166, 168, 170, 172, 174, 176, 178, 180, 182, 184, 186, 188, 190,
  192, 194, 196, 198, 200, 202, 204, 206, 208, 210, 212, 214, 216, 218, 220, 222,
  224, 226, 228, 230, 232, 234, 236, 238, 240, 242, 244, 246, 248, 250, 252, 254,
  27, 25, 31, 29, 19, 17, 23, 21, 11, 9, 15, 13, 3, 1, 7, 5,
  59, 57, 63, 61, 51, 49, 55, 53, 43, 41, 47, 45, 35, 33, 39, 37,
  91, 89, 95, 93, 83, 81, 87, 85, 75, 73, 79, 77, 67, 65, 71, 69,
  123, 121, 127, 125, 115, 113, 119, 117, 107, 105, 111, 109, 99, 97, 103, 101,
  155, 153, 159, 157, 147, 145, 151, 149, 139, 137, 143, 141, 131, 129, 135, 133,
  187, 185, 191, 189, 179, 177, 183, 181, 171, 169, 175, 173, 163, 161, 167, 165,
  219, 217, 223, 221, 211, 209, 215, 213, 203, 201, 207, 205, 195, 193, 199, 197,
  251, 249, 255, 253, 243, 241, 247, 245, 235, 233, 239, 237, 227, 225, 231, 229]"

definition table3 :: "uint8_t list" where
  "table3 = [
  0, 3, 6, 5, 12, 15, 10, 9, 24, 27, 30, 29, 20, 23, 18, 17,
  48, 51, 54, 53, 60, 63, 58, 57, 40, 43, 46, 45, 36, 39, 34, 33,
  96, 99, 102, 101, 108, 111, 106, 105, 120, 123, 126, 125, 116, 119, 114, 113,
  80, 83, 86, 85, 92, 95, 90, 89, 72, 75, 78, 77, 68, 71, 66, 65,
  192, 195, 198, 197, 204, 207, 202, 201, 216, 219, 222, 221, 212, 215, 210, 209,
  240, 243, 246, 245, 252, 255, 250, 249, 232, 235, 238, 237, 228, 231, 226, 225,
  160, 163, 166, 165, 172, 175, 170, 169, 184, 187, 190, 189, 180, 183, 178, 177,
  144, 147, 150, 149, 156, 159, 154, 153, 136, 139, 142, 141, 132, 135, 130, 129,
  155, 152, 157, 158, 151, 148, 145, 146, 131, 128, 133, 134, 143, 140, 137, 138,
  171, 168, 173, 174, 167, 164, 161, 162, 179, 176, 181, 182, 191, 188, 185, 186,
  251, 248, 253, 254, 247, 244, 241, 242, 227, 224, 229, 230, 239, 236, 233, 234,
  203, 200, 205, 206, 199, 196, 193, 194, 211, 208, 213, 214, 223, 220, 217, 218,
  91, 88, 93, 94, 87, 84, 81, 82, 67, 64, 69, 70, 79, 76, 73, 74,
  107, 104, 109, 110, 103, 100, 97, 98, 115, 112, 117, 118, 127, 124, 121, 122,
  59, 56, 61, 62, 55, 52, 49, 50, 35, 32, 37, 38, 47, 44, 41, 42,
  11, 8, 13, 14, 7, 4, 1, 2, 19, 16, 21, 22, 31, 28, 25, 26]"

definition table7 :: "uint8_t list" where
  "table7 = [
  0, 7, 14, 9, 28, 27, 18, 21, 56, 63, 54, 49, 36, 35, 42, 45,
  112, 119, 126, 121, 108, 107, 98, 101, 72, 79, 70, 65, 84, 83, 90, 93,
  224, 231, 238, 233, 252, 251, 242, 245, 216, 223, 214, 209, 196, 195, 202, 205,
  144, 151, 158, 153, 140, 139, 130, 133, 168, 175, 166, 161, 180, 179, 186, 189,
  219, 220, 213, 210, 199, 192, 201, 206, 227, 228, 237, 234, 255, 248, 241, 246,
  171, 172, 165, 162, 183, 176, 185, 190, 147, 148, 157, 154, 143, 136, 129, 134,
  59, 60, 53, 50, 39, 32, 41, 46, 3, 4, 13, 10, 31, 24, 17, 22,
  75, 76, 69, 66, 87, 80, 89, 94, 115, 116, 125, 122, 111, 104, 97, 102,
  173, 170, 163, 164, 177, 182, 191, 184, 149, 146, 155, 156, 137, 142, 135, 128,
  221, 218, 211, 212, 193, 198, 207, 200, 229, 226, 235, 236, 249, 254, 247, 240,
  77, 74, 67, 68, 81, 86, 95, 88, 117, 114, 123, 124, 105, 110, 103, 96,
  61, 58, 51, 52, 33, 38, 47, 40, 5, 2, 11, 12, 25, 30, 23, 16,
  118, 113, 120, 127, 106, 109, 100, 99, 78, 73, 64, 71, 82, 85, 92, 91,
  6, 1, 8, 15, 26, 29, 20, 19, 62, 57, 48, 55, 34, 37, 44, 43,
  150, 145, 152, 159, 138, 141, 132, 131, 174, 169, 160, 167, 178, 181, 188, 187,
  230, 225, 232, 239, 250, 253, 244, 243, 222, 217, 208, 215, 194, 197, 204, 203]"

definition table13 :: "uint8_t list" where
  "table13 = [
  0, 13, 26, 23, 52, 57, 46, 35, 104, 101, 114, 127, 92, 81, 70, 75,
  208, 221, 202, 199, 228, 233, 254, 243, 184, 181, 162, 175, 140, 129, 150, 155,
  187, 182, 161, 172, 143, 130, 149, 152, 211, 222, 201, 196, 231, 234, 253, 240,
  107, 102, 113, 124, 95, 82, 69, 72, 3, 14, 25, 20, 55, 58, 45, 32,
  109, 96, 119, 122, 89, 84, 67, 78, 5, 8, 31, 18, 49, 60, 43, 38,
  189, 176, 167, 170, 137, 132, 147, 158, 213, 216, 207, 194, 225, 236, 251, 246,
  214, 219, 204, 193, 226, 239, 248, 245, 190, 179, 164, 169, 138, 135, 144, 157,
  6, 11, 28, 17, 50, 63, 40, 37, 110, 99, 116, 121, 90, 87, 64, 77,
  218, 215, 192, 205, 238, 227, 244, 249, 178, 191, 168, 165, 134, 139, 156, 145,
  10, 7, 16, 29, 62, 51, 36, 41, 98, 111, 120, 117, 86, 91, 76, 65,
  97, 108, 123, 118, 85, 88, 79, 66, 9, 4, 19, 30, 61, 48, 39, 42,
  177, 188, 171, 166, 133, 136, 159, 146, 217, 212, 195, 206, 237, 224, 247, 250,
  183, 186, 173, 160, 131, 142, 153, 148, 223, 210, 197, 200, 235, 230, 241, 252,
  103, 106, 125, 112, 83, 94, 73, 68, 15, 2, 21, 24, 59, 54, 33, 44,
  12, 1, 22, 27, 56, 53, 34, 47, 100, 105, 126, 115, 80, 93, 74, 71,
  220, 209, 198, 203, 232, 229, 242, 255, 180, 185, 174, 163, 128, 141, 154, 151]"

definition table9 :: "uint8_t list" where
  "table9 = [
  0, 9, 18, 27, 36, 45, 54, 63, 72, 65, 90, 83, 108, 101, 126, 119,
  144, 153, 130, 139, 180, 189, 166, 175, 216, 209, 202, 195, 252, 245, 238, 231,
  59, 50, 41, 32, 31, 22, 13, 4, 115, 122, 97, 104, 87, 94, 69, 76,
  171, 162, 185, 176, 143, 134, 157, 148, 227, 234, 241, 248, 199, 206, 213, 220,
  118, 127, 100, 109, 82, 91, 64, 73, 62, 55, 44, 37, 26, 19, 8, 1,
  230, 239, 244, 253, 194, 203, 208, 217, 174, 167, 188, 181, 138, 131, 152, 145,
  77, 68, 95, 86, 105, 96, 123, 114, 5, 12, 23, 30, 33, 40, 51, 58,
  221, 212, 207, 198, 249, 240, 235, 226, 149, 156, 135, 142, 177, 184, 163, 170,
  236, 229, 254, 247, 200, 193, 218, 211, 164, 173, 182, 191, 128, 137, 146, 155,
  124, 117, 110, 103, 88, 81, 74, 67, 52, 61, 38, 47, 16, 25, 2, 11,
  215, 222, 197, 204, 243, 250, 225, 232, 159, 150, 141, 132, 187, 178, 169, 160,
  71, 78, 85, 92, 99, 106, 113, 120, 15, 6, 29, 20, 43, 34, 57, 48,
  154, 147, 136, 129, 190, 183, 172, 165, 210, 219, 192, 201, 246, 255, 228, 237,
  10, 3, 24, 17, 46, 39, 60, 53, 66, 75, 80, 89, 102, 111, 116, 125,
  161, 168, 179, 186, 133, 140, 151, 158, 233, 224, 251, 242, 205, 196, 223, 214,
  49, 56, 35, 42, 21, 28, 7, 14, 121, 112, 107, 98, 93, 84, 79, 70]"

definition table11 :: "uint8_t list" where
  "table11 = [
  0, 11, 22, 29, 44, 39, 58, 49, 88, 83, 78, 69, 116, 127, 98, 105,
  176, 187, 166, 173, 156, 151, 138, 129, 232, 227, 254, 245, 196, 207, 210, 217,
  123, 112, 109, 102, 87, 92, 65, 74, 35, 40, 53, 62, 15, 4, 25, 18,
  203, 192, 221, 214, 231, 236, 241, 250, 147, 152, 133, 142, 191, 180, 169, 162,
  246, 253, 224, 235, 218, 209, 204, 199, 174, 165, 184, 179, 130, 137, 148, 159,
  70, 77, 80, 91, 106, 97, 124, 119, 30, 21, 8, 3, 50, 57, 36, 47,
  141, 134, 155, 144, 161, 170, 183, 188, 213, 222, 195, 200, 249, 242, 239, 228,
  61, 54, 43, 32, 17, 26, 7, 12, 101, 110, 115, 120, 73, 66, 95, 84,
  247, 252, 225, 234, 219, 208, 205, 198, 175, 164, 185, 178, 131, 136, 149, 158,
  71, 76, 81, 90, 107, 96, 125, 118, 31, 20, 9, 2, 51, 56, 37, 46,
  140, 135, 154, 145, 160, 171, 182, 189, 212, 223, 194, 201, 248, 243, 238, 229,
  60, 55, 42, 33, 16, 27, 6, 13, 100, 111, 114, 121, 72, 67, 94, 85,
  1, 10, 23, 28, 45, 38, 59, 48, 89, 82, 79, 68, 117, 126, 99, 104,
  177, 186, 167, 172, 157, 150, 139, 128, 233, 226, 255, 244, 197, 206, 211, 216,
  122, 113, 108, 103, 86, 93, 64, 75, 34, 41, 52, 63, 14, 5, 24, 19,
  202, 193, 220, 215, 230, 237, 240, 251, 146, 153, 132, 143, 190, 181, 168, 163]"

definition table14 :: "uint8_t list" where
  "table14 = [
  0, 14, 28, 18, 56, 54, 36, 42, 112, 126, 108, 98, 72, 70, 84, 90,
  224, 238, 252, 242, 216, 214, 196, 202, 144, 158, 140, 130, 168, 166, 180, 186,
  219, 213, 199, 201, 227, 237, 255, 241, 171, 165, 183, 185, 147, 157, 143, 129,
  59, 53, 39, 41, 3, 13, 31, 17, 75, 69, 87, 89, 115, 125, 111, 97,
  173, 163, 177, 191, 149, 155, 137, 135, 221, 211, 193, 207, 229, 235, 249, 247,
  77, 67, 81, 95, 117, 123, 105, 103, 61, 51, 33, 47, 5, 11, 25, 23,
  118, 120, 106, 100, 78, 64, 82, 92, 6, 8, 26, 20, 62, 48, 34, 44,
  150, 152, 138, 132, 174, 160, 178, 188, 230, 232, 250, 244, 222, 208, 194, 204,
  65, 79, 93, 83, 121, 119, 101, 107, 49, 63, 45, 35, 9, 7, 21, 27,
  161, 175, 189, 179, 153, 151, 133, 139, 209, 223, 205, 195, 233, 231, 245, 251,
  154, 148, 134, 136, 162, 172, 190, 176, 234, 228, 246, 248, 210, 220, 206, 192,
  122, 116, 102, 104, 66, 76, 94, 80, 10, 4, 22, 24, 50, 60, 46, 32,
  236, 226, 240, 254, 212, 218, 200, 198, 156, 146, 128, 142, 164, 170, 184, 182,
  12, 2, 16, 30, 52, 58, 40, 38, 124, 114, 96, 110, 68, 74, 88, 86,
  55, 57, 43, 37, 15, 1, 19, 29, 71, 73, 91, 85, 127, 113, 99, 109,
  215, 217, 203, 197, 239, 225, 243, 253, 167, 169, 187, 181, 159, 145, 131, 141]"

definition table68 :: "uint8_t list" where
  "table68 = [
  0, 68, 136, 204, 11, 79, 131, 199, 22, 82, 158, 218, 29, 89, 149, 209,
  44, 104, 164, 224, 39, 99, 175, 235, 58, 126, 178, 246, 49, 117, 185, 253,
  88, 28, 208, 148, 83, 23, 219, 159, 78, 10, 198, 130, 69, 1, 205, 137,
  116, 48, 252, 184, 127, 59, 247, 179, 98, 38, 234, 174, 105, 45, 225, 165,
  176, 244, 56, 124, 187, 255, 51, 119, 166, 226, 46, 106, 173, 233, 37, 97,
  156, 216, 20, 80, 151, 211, 31, 91, 138, 206, 2, 70, 129, 197, 9, 77,
  232, 172, 96, 36, 227, 167, 107, 47, 254, 186, 118, 50, 245, 177, 125, 57,
  196, 128, 76, 8, 207, 139, 71, 3, 210, 150, 90, 30, 217, 157, 81, 21,
  123, 63, 243, 183, 112, 52, 248, 188, 109, 41, 229, 161, 102, 34, 238, 170,
  87, 19, 223, 155, 92, 24, 212, 144, 65, 5, 201, 141, 74, 14, 194, 134,
  35, 103, 171, 239, 40, 108, 160, 228, 53, 113, 189, 249, 62, 122, 182, 242,
  15, 75, 135, 195, 4, 64, 140, 200, 25, 93, 145, 213, 18, 86, 154, 222,
  203, 143, 67, 7, 192, 132, 72, 12, 221, 153, 85, 17, 214, 146, 94, 26,
  231, 163, 111, 43, 236, 168, 100, 32, 241, 181, 121, 61, 250, 190, 114, 54,
  147, 215, 27, 95, 152, 220, 16, 84, 133, 193, 13, 73, 142, 202, 6, 66,
  191, 251, 55, 115, 180, 240, 60, 120, 169, 237, 33, 101, 162, 230, 42, 110]"

definition table71 :: "uint8_t list" where
  "table71 = [
  0, 71, 142, 201, 7, 64, 137, 206, 14, 73, 128, 199, 9, 78, 135, 192,
  28, 91, 146, 213, 27, 92, 149, 210, 18, 85, 156, 219, 21, 82, 155, 220,
  56, 127, 182, 241, 63, 120, 177, 246, 54, 113, 184, 255, 49, 118, 191, 248,
  36, 99, 170, 237, 35, 100, 173, 234, 42, 109, 164, 227, 45, 106, 163, 228,
  112, 55, 254, 185, 119, 48, 249, 190, 126, 57, 240, 183, 121, 62, 247, 176,
  108, 43, 226, 165, 107, 44, 229, 162, 98, 37, 236, 171, 101, 34, 235, 172,
  72, 15, 198, 129, 79, 8, 193, 134, 70, 1, 200, 143, 65, 6, 207, 136,
  84, 19, 218, 157, 83, 20, 221, 154, 90, 29, 212, 147, 93, 26, 211, 148,
  224, 167, 110, 41, 231, 160, 105, 46, 238, 169, 96, 39, 233, 174, 103, 32,
  252, 187, 114, 53, 251, 188, 117, 50, 242, 181, 124, 59, 245, 178, 123, 60,
  216, 159, 86, 17, 223, 152, 81, 22, 214, 145, 88, 31, 209, 150, 95, 24,
  196, 131, 74, 13, 195, 132, 77, 10, 202, 141, 68, 3, 205, 138, 67, 4,
  144, 215, 30, 89, 151, 208, 25, 94, 158, 217, 16, 87, 153, 222, 23, 80,
  140, 203, 2, 69, 139, 204, 5, 66, 130, 197, 12, 75, 133, 194, 11, 76,
  168, 239, 38, 97, 175, 232, 33, 102, 166, 225, 40, 111, 161, 230, 47, 104,
  180, 243, 58, 125, 179, 244, 61, 122, 186, 253, 52, 115, 189, 250, 51, 116]"

definition table201 :: "uint8_t list" where
  "table201 = [
  0, 201, 137, 64, 9, 192, 128, 73, 18, 219, 155, 82, 27, 210, 146, 91,
  36, 237, 173, 100, 45, 228, 164, 109, 54, 255, 191, 118, 63, 246, 182, 127,
  72, 129, 193, 8, 65, 136, 200, 1, 90, 147, 211, 26, 83, 154, 218, 19,
  108, 165, 229, 44, 101, 172, 236, 37, 126, 183, 247, 62, 119, 190, 254, 55,
  144, 89, 25, 208, 153, 80, 16, 217, 130, 75, 11, 194, 139, 66, 2, 203,
  180, 125, 61, 244, 189, 116, 52, 253, 166, 111, 47, 230, 175, 102, 38, 239,
  216, 17, 81, 152, 209, 24, 88, 145, 202, 3, 67, 138, 195, 10, 74, 131,
  252, 53, 117, 188, 245, 60, 124, 181, 238, 39, 103, 174, 231, 46, 110, 167,
  59, 242, 178, 123, 50, 251, 187, 114, 41, 224, 160, 105, 32, 233, 169, 96,
  31, 214, 150, 95, 22, 223, 159, 86, 13, 196, 132, 77, 4, 205, 141, 68,
  115, 186, 250, 51, 122, 179, 243, 58, 97, 168, 232, 33, 104, 161, 225, 40,
  87, 158, 222, 23, 94, 151, 215, 30, 69, 140, 204, 5, 76, 133, 197, 12,
  171, 98, 34, 235, 162, 107, 43, 226, 185, 112, 48, 249, 176, 121, 57, 240,
  143, 70, 6, 207, 134, 79, 15, 198, 157, 84, 20, 221, 148, 93, 29, 212,
  227, 42, 106, 163, 234, 35, 99, 170, 241, 56, 120, 177, 248, 49, 113, 184,
  199, 14, 78, 135, 206, 7, 71, 142, 213, 28, 92, 149, 220, 21, 85, 156]"

definition table203 :: "uint8_t list" where
  "table203 = [
  0, 203, 141, 70, 1, 202, 140, 71, 2, 201, 143, 68, 3, 200, 142, 69,
  4, 207, 137, 66, 5, 206, 136, 67, 6, 205, 139, 64, 7, 204, 138, 65,
  8, 195, 133, 78, 9, 194, 132, 79, 10, 193, 135, 76, 11, 192, 134, 77,
  12, 199, 129, 74, 13, 198, 128, 75, 14, 197, 131, 72, 15, 196, 130, 73,
  16, 219, 157, 86, 17, 218, 156, 87, 18, 217, 159, 84, 19, 216, 158, 85,
  20, 223, 153, 82, 21, 222, 152, 83, 22, 221, 155, 80, 23, 220, 154, 81,
  24, 211, 149, 94, 25, 210, 148, 95, 26, 209, 151, 92, 27, 208, 150, 93,
  28, 215, 145, 90, 29, 214, 144, 91, 30, 213, 147, 88, 31, 212, 146, 89,
  32, 235, 173, 102, 33, 234, 172, 103, 34, 233, 175, 100, 35, 232, 174, 101,
  36, 239, 169, 98, 37, 238, 168, 99, 38, 237, 171, 96, 39, 236, 170, 97,
  40, 227, 165, 110, 41, 226, 164, 111, 42, 225, 167, 108, 43, 224, 166, 109,
  44, 231, 161, 106, 45, 230, 160, 107, 46, 229, 163, 104, 47, 228, 162, 105,
  48, 251, 189, 118, 49, 250, 188, 119, 50, 249, 191, 116, 51, 248, 190, 117,
  52, 255, 185, 114, 53, 254, 184, 115, 54, 253, 187, 112, 55, 252, 186, 113,
  56, 243, 181, 126, 57, 242, 180, 127, 58, 241, 183, 124, 59, 240, 182, 125,
  60, 247, 177, 122, 61, 246, 176, 123, 62, 245, 179, 120, 63, 244, 178, 121]"

definition sbox_table :: "uint8_t list" where
  "sbox_table = [
  99, 124, 119, 123, 242, 107, 111, 197, 48, 1, 103, 43, 254, 215, 171, 118,
  202, 130, 201, 125, 250, 89, 71, 240, 173, 212, 162, 175, 156, 164, 114, 192,
  183, 253, 147, 38, 54, 63, 247, 204, 52, 165, 229, 241, 113, 216, 49, 21,
  4, 199, 35, 195, 24, 150, 5, 154, 7, 18, 128, 226, 235, 39, 178, 117,
  9, 131, 44, 26, 27, 110, 90, 160, 82, 59, 214, 179, 41, 227, 47, 132,
  83, 209, 0, 237, 32, 252, 177, 91, 106, 203, 190, 57, 74, 76, 88, 207,
  208, 239, 170, 251, 67, 77, 51, 133, 69, 249, 2, 127, 80, 60, 159, 168,
  81, 163, 64, 143, 146, 157, 56, 245, 188, 182, 218, 33, 16, 255, 243, 210,
  205, 12, 19, 236, 95, 151, 68, 23, 196, 167, 126, 61, 100, 93, 25, 115,
  96, 129, 79, 220, 34, 42, 144, 136, 70, 238, 184, 20, 222, 94, 11, 219,
  224, 50, 58, 10, 73, 6, 36, 92, 194, 211, 172, 98, 145, 149, 228, 121,
  231, 200, 55, 109, 141, 213, 78, 169, 108, 86, 244, 234, 101, 122, 174, 8,
  186, 120, 37, 46, 28, 166, 180, 198, 232, 221, 116, 31, 75, 189, 139, 138,
  112, 62, 181, 102, 72, 3, 246, 14, 97, 53, 87, 185, 134, 193, 29, 158,
  225, 248, 152, 17, 105, 217, 142, 148, 155, 30, 135, 233, 206, 85, 40, 223,
  140, 161, 137, 13, 191, 230, 66, 104, 65, 153, 45, 15, 176, 84, 187, 22]"

definition invsbox_table :: "uint8_t list" where
  "invsbox_table = [
  82, 9, 106, 213, 48, 54, 165, 56, 191, 64, 163, 158, 129, 243, 215, 251,
  124, 227, 57, 130, 155, 47, 255, 135, 52, 142, 67, 68, 196, 222, 233, 203,
  84, 123, 148, 50, 166, 194, 35, 61, 238, 76, 149, 11, 66, 250, 195, 78,
  8, 46, 161, 102, 40, 217, 36, 178, 118, 91, 162, 73, 109, 139, 209, 37,
  114, 248, 246, 100, 134, 104, 152, 22, 212, 164, 92, 204, 93, 101, 182, 146,
  108, 112, 72, 80, 253, 237, 185, 218, 94, 21, 70, 87, 167, 141, 157, 132,
  144, 216, 171, 0, 140, 188, 211, 10, 247, 228, 88, 5, 184, 179, 69, 6,
  208, 44, 30, 143, 202, 63, 15, 2, 193, 175, 189, 3, 1, 19, 138, 107,
  58, 145, 17, 65, 79, 103, 220, 234, 151, 242, 207, 206, 240, 180, 230, 115,
  150, 172, 116, 34, 231, 173, 53, 133, 226, 249, 55, 232, 28, 117, 223, 110,
  71, 241, 26, 113, 29, 41, 197, 137, 111, 183, 98, 14, 170, 24, 190, 27,
  252, 86, 62, 75, 198, 210, 121, 32, 154, 219, 192, 254, 120, 205, 90, 244,
  31, 221, 168, 51, 136, 7, 199, 49, 177, 18, 16, 89, 39, 128, 236, 95,
  96, 81, 127, 169, 25, 181, 74, 13, 45, 229, 122, 159, 147, 201, 156, 239,
  160, 224, 59, 77, 174, 42, 245, 176, 200, 235, 187, 60, 131, 83, 153, 97,
  23, 43, 4, 126, 186, 119, 214, 38, 225, 105, 20, 99, 85, 33, 12, 125]"

definition haraka_rcons_table :: "uint8_t list list" where
  "haraka_rcons_table = [
  [157, 123, 129, 117, 240, 254, 197, 178, 10, 192, 32, 230, 76, 112, 132, 6],
  [23, 247, 8, 47, 164, 107, 15, 100, 107, 160, 243, 136, 225, 180, 102, 139],
  [20, 145, 2, 159, 96, 157, 2, 207, 152, 132, 242, 83, 45, 222, 2, 52],
  [121, 79, 91, 253, 175, 188, 243, 187, 8, 79, 123, 46, 230, 234, 214, 14],
  [68, 112, 57, 190, 28, 205, 238, 121, 139, 68, 114, 72, 203, 176, 207, 203],
  [123, 5, 138, 43, 237, 53, 83, 141, 183, 50, 144, 110, 238, 205, 234, 126],
  [27, 239, 79, 218, 97, 39, 65, 226, 208, 124, 46, 94, 67, 143, 194, 103],
  [59, 11, 199, 31, 226, 253, 95, 103, 7, 204, 202, 175, 176, 217, 36, 41],
  [238, 101, 212, 185, 202, 143, 219, 236, 233, 127, 134, 230, 241, 99, 77, 171],
  [51, 126, 3, 173, 79, 64, 42, 91, 100, 205, 183, 212, 132, 191, 48, 28],
  [0, 152, 246, 141, 46, 139, 2, 105, 191, 35, 23, 148, 185, 11, 204, 178],
  [138, 45, 157, 92, 200, 158, 170, 74, 114, 85, 111, 222, 166, 120, 4, 250],
  [212, 159, 18, 41, 46, 79, 250, 14, 18, 42, 119, 107, 43, 159, 180, 223],
  [238, 18, 106, 187, 174, 17, 214, 50, 54, 162, 73, 244, 68, 3, 161, 30],
  [166, 236, 168, 156, 201, 0, 150, 95, 132, 0, 5, 75, 136, 73, 4, 175],
  [236, 147, 229, 39, 227, 199, 162, 120, 79, 156, 25, 157, 216, 94, 2, 33],
  [115, 1, 212, 130, 205, 46, 40, 185, 183, 201, 89, 167, 248, 170, 58, 191],
  [107, 125, 48, 16, 217, 239, 242, 55, 23, 176, 134, 97, 13, 112, 96, 98],
  [198, 154, 252, 246, 83, 145, 194, 129, 67, 4, 48, 33, 194, 69, 202, 90],
  [58, 148, 209, 54, 232, 146, 175, 44, 187, 104, 107, 34, 60, 151, 35, 146],
  [180, 113, 16, 229, 88, 185, 186, 108, 235, 134, 88, 34, 56, 146, 191, 211],
  [141, 18, 225, 36, 221, 253, 61, 147, 119, 198, 240, 174, 229, 60, 134, 219],
  [177, 18, 34, 203, 227, 141, 228, 131, 156, 160, 235, 255, 104, 98, 96, 187],
  [125, 247, 43, 199, 78, 26, 185, 45, 156, 209, 228, 226, 220, 211, 75, 115],
  [78, 146, 179, 44, 196, 21, 20, 75, 67, 27, 48, 97, 195, 71, 187, 67],
  [153, 104, 235, 22, 221, 49, 178, 3, 246, 239, 7, 231, 168, 117, 167, 219],
  [44, 71, 202, 126, 2, 35, 94, 142, 119, 89, 117, 60, 75, 97, 243, 109],
  [249, 23, 134, 184, 185, 229, 27, 109, 119, 125, 222, 214, 23, 90, 167, 205],
  [93, 238, 70, 169, 157, 6, 108, 157, 170, 233, 168, 107, 240, 67, 107, 236],
  [193, 39, 243, 59, 89, 17, 83, 162, 43, 51, 87, 249, 80, 105, 30, 203],
  [217, 208, 14, 96, 83, 3, 237, 228, 156, 97, 218, 0, 117, 12, 238, 44],
  [80, 163, 164, 99, 188, 186, 187, 128, 171, 12, 233, 150, 161, 165, 177, 240],
  [57, 202, 141, 147, 48, 222, 13, 171, 136, 41, 150, 94, 2, 177, 61, 174],
  [66, 180, 117, 46, 168, 243, 20, 136, 11, 164, 84, 213, 56, 143, 187, 23],
  [246, 22, 10, 54, 121, 183, 182, 174, 215, 127, 66, 95, 91, 138, 187, 52],
  [222, 175, 186, 255, 24, 89, 206, 67, 56, 84, 229, 203, 65, 82, 246, 38],
  [120, 201, 158, 131, 247, 156, 202, 162, 106, 2, 243, 185, 84, 154, 233, 76],
  [53, 18, 144, 34, 40, 110, 192, 64, 190, 247, 223, 27, 26, 165, 81, 174],
  [207, 89, 166, 72, 15, 188, 115, 193, 43, 210, 126, 186, 60, 97, 193, 160],
  [161, 157, 197, 233, 253, 189, 214, 74, 136, 130, 40, 2, 3, 204, 106, 117]]"

definition times2 :: "uint8_t \<Rightarrow> uint8_t" where
  "times2 b = table2 ! unat b"

definition times3 :: "uint8_t \<Rightarrow> uint8_t" where
  "times3 b = table3 ! unat b"

definition times7 :: "uint8_t \<Rightarrow> uint8_t" where
  "times7 b = table7 ! unat b"

definition times9 :: "uint8_t \<Rightarrow> uint8_t" where
  "times9 b = table9 ! unat b"

definition times11 :: "uint8_t \<Rightarrow> uint8_t" where
  "times11 b = table11 ! unat b"

definition times13 :: "uint8_t \<Rightarrow> uint8_t" where
  "times13 b = table13 ! unat b"

definition times14 :: "uint8_t \<Rightarrow> uint8_t" where
  "times14 b = table14 ! unat b"

definition times68 :: "uint8_t \<Rightarrow> uint8_t" where
  "times68 b = table68 ! unat b"

definition times71 :: "uint8_t \<Rightarrow> uint8_t" where
  "times71 b = table71 ! unat b"

definition times201 :: "uint8_t \<Rightarrow> uint8_t" where
  "times201 b = table201 ! unat b"

definition times203 :: "uint8_t \<Rightarrow> uint8_t" where
  "times203 b = table203 ! unat b"

definition sbox :: "uint8_t \<Rightarrow> uint8_t" where
  "sbox b = sbox_table ! unat b"

definition invsbox :: "uint8_t \<Rightarrow> uint8_t" where
  "invsbox b = invsbox_table ! unat b"

text \<open>\<^verbatim>\<open>rccon(r, i, b)\<close>: byte \<open>b\<close> of the round constant of substate \<open>i\<close> at round \<open>r\<close>.\<close>

definition rccon :: "nat \<Rightarrow> nat \<Rightarrow> nat \<Rightarrow> uint8_t" where
  "rccon r i b = haraka_rcons_table ! (4 * r + i) ! b"

section \<open>Operations\<close>

text \<open>An AES state is an array of 16 bytes, a Haraka state an array of 4 AES states.
  Arrays are lists; every index the source uses is a constant inside the array, so the
  lists are read and written only below their length.\<close>

type_synonym state_t = "uint8_t list"
type_synonym hkstate_t = "state_t list"

text \<open>\<^verbatim>\<open>(s)[j][k] = v\<close> on a Haraka state.\<close>

definition set_byte :: "hkstate_t \<Rightarrow> nat \<Rightarrow> nat \<Rightarrow> uint8_t \<Rightarrow> hkstate_t" where
  "set_byte s j k v = s[j := (s ! j)[k := v]]"

definition xor_rcons :: "state_t \<Rightarrow> nat \<Rightarrow> nat \<Rightarrow> state_t" where
  "xor_rcons state r j =
     fold (\<lambda>i st. st[i := st ! i XOR haraka_rcons_table ! (4 * r + j) ! i]) [0..<16] state"

definition subbytes :: "state_t \<Rightarrow> state_t" where
  "subbytes state = fold (\<lambda>i st. st[i := sbox (st ! i)]) [0..<16] state"

definition invsubbytes :: "state_t \<Rightarrow> state_t" where
  "invsubbytes state = fold (\<lambda>i st. st[i := invsbox (st ! i)]) [0..<16] state"

definition shiftrows :: "state_t \<Rightarrow> state_t" where
  "shiftrows state0 =
    (let tmp = state0 ! 1;
         state = state0[1 := state0 ! 5];
         state = state[5 := state ! 9];
         state = state[9 := state ! 13];
         state = state[13 := tmp];
         tmp = state ! 10;
         state = state[10 := state ! 2];
         state = state[2 := tmp];
         tmp = state ! 14;
         state = state[14 := state ! 6];
         state = state[6 := tmp];
         tmp = state ! 15;
         state = state[15 := state ! 11];
         state = state[11 := state ! 7];
         state = state[7 := state ! 3];
         state = state[3 := tmp]
     in state)"

definition sbsr :: "state_t \<Rightarrow> state_t" where
  "sbsr state0 =
    (let tmp = sbox (state0 ! 1);
         state = state0[1 := sbox (state0 ! 5)];
         state = state[5 := sbox (state ! 9)];
         state = state[9 := sbox (state ! 13)];
         state = state[13 := tmp];
         tmp = sbox (state ! 10);
         state = state[10 := sbox (state ! 2)];
         state = state[2 := tmp];
         tmp = sbox (state ! 14);
         state = state[14 := sbox (state ! 6)];
         state = state[6 := tmp];
         tmp = sbox (state ! 15);
         state = state[15 := sbox (state ! 11)];
         state = state[11 := sbox (state ! 7)];
         state = state[7 := sbox (state ! 3)];
         state = state[3 := tmp];
         state = state[0 := sbox (state ! 0)];
         state = state[4 := sbox (state ! 4)];
         state = state[8 := sbox (state ! 8)];
         state = state[12 := sbox (state ! 12)]
     in state)"

definition invshiftrows :: "state_t \<Rightarrow> state_t" where
  "invshiftrows state0 =
    (let tmp = state0 ! 1;
         state = state0[1 := state0 ! 13];
         state = state[13 := state ! 9];
         state = state[9 := state ! 5];
         state = state[5 := tmp];
         tmp = state ! 10;
         state = state[10 := state ! 2];
         state = state[2 := tmp];
         tmp = state ! 14;
         state = state[14 := state ! 6];
         state = state[6 := tmp];
         tmp = state ! 3;
         state = state[3 := state ! 7];
         state = state[7 := state ! 11];
         state = state[11 := state ! 15];
         state = state[15 := tmp]
     in state)"

definition invsbsr :: "state_t \<Rightarrow> state_t" where
  "invsbsr state0 =
    (let tmp = invsbox (state0 ! 1);
         state = state0[1 := invsbox (state0 ! 13)];
         state = state[13 := invsbox (state ! 9)];
         state = state[9 := invsbox (state ! 5)];
         state = state[5 := tmp];
         tmp = invsbox (state ! 10);
         state = state[10 := invsbox (state ! 2)];
         state = state[2 := tmp];
         tmp = invsbox (state ! 14);
         state = state[14 := invsbox (state ! 6)];
         state = state[6 := tmp];
         tmp = invsbox (state ! 3);
         state = state[3 := invsbox (state ! 7)];
         state = state[7 := invsbox (state ! 11)];
         state = state[11 := invsbox (state ! 15)];
         state = state[15 := tmp];
         state = state[0 := invsbox (state ! 0)];
         state = state[4 := invsbox (state ! 4)];
         state = state[8 := invsbox (state ! 8)];
         state = state[12 := invsbox (state ! 12)]
     in state)"

definition mixcolumns :: "state_t \<Rightarrow> state_t" where
  "mixcolumns state0 = fold (\<lambda>i state.
     (let a = state ! (0 + 4 * i);
          b = state ! (1 + 4 * i);
          c = state ! (2 + 4 * i);
          d = state ! (3 + 4 * i);
          state = state[0 + 4 * i := times2 a XOR times3 b XOR c XOR d];
          state = state[1 + 4 * i := a XOR times2 b XOR times3 c XOR d];
          state = state[2 + 4 * i := a XOR b XOR times2 c XOR times3 d];
          state = state[3 + 4 * i := times3 a XOR b XOR c XOR times2 d]
      in state)) [0..<4] state0"

definition mcrc :: "state_t \<Rightarrow> nat \<Rightarrow> nat \<Rightarrow> state_t" where
  "mcrc state0 r j = fold (\<lambda>i state.
     (let a = state ! (0 + 4 * i);
          b = state ! (1 + 4 * i);
          c = state ! (2 + 4 * i);
          d = state ! (3 + 4 * i);
          state = state[0 + 4 * i := times2 a XOR times3 b XOR c XOR d
                    XOR haraka_rcons_table ! (4 * r + j) ! (0 + 4 * i)];
          state = state[1 + 4 * i := a XOR times2 b XOR times3 c XOR d
                    XOR haraka_rcons_table ! (4 * r + j) ! (1 + 4 * i)];
          state = state[2 + 4 * i := a XOR b XOR times2 c XOR times3 d
                    XOR haraka_rcons_table ! (4 * r + j) ! (2 + 4 * i)];
          state = state[3 + 4 * i := times3 a XOR b XOR c XOR times2 d
                    XOR haraka_rcons_table ! (4 * r + j) ! (3 + 4 * i)]
      in state)) [0..<4] state0"

definition invmixcolumns :: "state_t \<Rightarrow> state_t" where
  "invmixcolumns state0 = fold (\<lambda>i state.
     (let a = state ! (0 + 4 * i);
          b = state ! (1 + 4 * i);
          c = state ! (2 + 4 * i);
          d = state ! (3 + 4 * i);
          state = state[0 + 4 * i := times14 a XOR times11 b XOR times13 c XOR times9 d];
          state = state[1 + 4 * i := times9 a XOR times14 b XOR times11 c XOR times13 d];
          state = state[2 + 4 * i := times13 a XOR times9 b XOR times14 c XOR times11 d];
          state = state[3 + 4 * i := times11 a XOR times13 b XOR times9 c XOR times14 d]
      in state)) [0..<4] state0"

definition invmcrc :: "state_t \<Rightarrow> nat \<Rightarrow> nat \<Rightarrow> state_t" where
  "invmcrc state0 r j = fold (\<lambda>i state.
     (let a = state ! (0 + 4 * i) XOR haraka_rcons_table ! (4 * r + j) ! (0 + 4 * i);
          b = state ! (1 + 4 * i) XOR haraka_rcons_table ! (4 * r + j) ! (1 + 4 * i);
          c = state ! (2 + 4 * i) XOR haraka_rcons_table ! (4 * r + j) ! (2 + 4 * i);
          d = state ! (3 + 4 * i) XOR haraka_rcons_table ! (4 * r + j) ! (3 + 4 * i);
          state = state[0 + 4 * i := times14 a XOR times11 b XOR times13 c XOR times9 d];
          state = state[1 + 4 * i := times9 a XOR times14 b XOR times11 c XOR times13 d];
          state = state[2 + 4 * i := times13 a XOR times9 b XOR times14 c XOR times11 d];
          state = state[3 + 4 * i := times11 a XOR times13 b XOR times9 c XOR times14 d]
      in state)) [0..<4] state0"

text \<open>One round of AES at round \<open>r\<close> and position \<open>j\<close> of the Haraka state, and its inverse.\<close>

definition aesenc :: "state_t \<Rightarrow> nat \<Rightarrow> nat \<Rightarrow> state_t" where
  "aesenc s r j = mcrc (sbsr s) r j"

definition invaesenc :: "state_t \<Rightarrow> nat \<Rightarrow> nat \<Rightarrow> state_t" where
  "invaesenc s r j = invsbsr (invmcrc s r j)"

definition mix512 :: "hkstate_t \<Rightarrow> hkstate_t" where
  "mix512 s0 = fold (\<lambda>i s.
     (let a = s ! 0 ! (4 + i);
          s = set_byte s 0 (4 + i) (s ! 2 ! (12 + i));
          s = set_byte s 2 (12 + i) (s ! 1 ! (4 + i));
          s = set_byte s 1 (4 + i) (s ! 0 ! (0 + i));
          s = set_byte s 0 (0 + i) (s ! 0 ! (12 + i));
          s = set_byte s 0 (12 + i) (s ! 3 ! (12 + i));
          s = set_byte s 3 (12 + i) (s ! 3 ! (8 + i));
          s = set_byte s 3 (8 + i) (s ! 1 ! (8 + i));
          s = set_byte s 1 (8 + i) (s ! 3 ! (0 + i));
          s = set_byte s 3 (0 + i) (s ! 0 ! (8 + i));
          s = set_byte s 0 (8 + i) (s ! 1 ! (12 + i));
          s = set_byte s 1 (12 + i) (s ! 1 ! (0 + i));
          s = set_byte s 1 (0 + i) (s ! 2 ! (0 + i));
          s = set_byte s 2 (0 + i) (s ! 2 ! (4 + i));
          s = set_byte s 2 (4 + i) a;
          a = s ! 2 ! (8 + i);
          s = set_byte s 2 (8 + i) (s ! 3 ! (4 + i));
          s = set_byte s 3 (4 + i) a
      in s)) [0..<4] s0"

definition invmix512 :: "hkstate_t \<Rightarrow> hkstate_t" where
  "invmix512 s0 = fold (\<lambda>i s.
     (let a = s ! 2 ! (8 + i);
          s = set_byte s 2 (8 + i) (s ! 3 ! (4 + i));
          s = set_byte s 3 (4 + i) a;
          a = s ! 0 ! (4 + i);
          s = set_byte s 0 (4 + i) (s ! 2 ! (4 + i));
          s = set_byte s 2 (4 + i) (s ! 2 ! (0 + i));
          s = set_byte s 2 (0 + i) (s ! 1 ! (0 + i));
          s = set_byte s 1 (0 + i) (s ! 1 ! (12 + i));
          s = set_byte s 1 (12 + i) (s ! 0 ! (8 + i));
          s = set_byte s 0 (8 + i) (s ! 3 ! (0 + i));
          s = set_byte s 3 (0 + i) (s ! 1 ! (8 + i));
          s = set_byte s 1 (8 + i) (s ! 3 ! (8 + i));
          s = set_byte s 3 (8 + i) (s ! 3 ! (12 + i));
          s = set_byte s 3 (12 + i) (s ! 0 ! (12 + i));
          s = set_byte s 0 (12 + i) (s ! 0 ! (0 + i));
          s = set_byte s 0 (0 + i) (s ! 1 ! (4 + i));
          s = set_byte s 1 (4 + i) (s ! 2 ! (12 + i));
          s = set_byte s 2 (12 + i) a
      in s)) [0..<4] s0"

text \<open>The loop \<^verbatim>\<open>for (int j = 0; j < 4; j++) aesenc(s[j], r, j)\<close> and its inverse twin,
  which the source writes out at each place.\<close>

definition aesenc_all :: "hkstate_t \<Rightarrow> nat \<Rightarrow> hkstate_t" where
  "aesenc_all s r = fold (\<lambda>j s. s[j := aesenc (s ! j) r j]) [0..<4] s"

definition invaesenc_all :: "hkstate_t \<Rightarrow> nat \<Rightarrow> hkstate_t" where
  "invaesenc_all s r = fold (\<lambda>j s. s[j := invaesenc (s ! j) r j]) [0..<4] s"

text \<open>The Haraka-512 permutation on byte arrays.\<close>

definition haraka512pi :: "hkstate_t \<Rightarrow> hkstate_t" where
  "haraka512pi hkstate0 = fold (\<lambda>r hkstate.
     (let hkstate = aesenc_all hkstate r
      in if r mod 2 = 1 then mix512 hkstate else hkstate)) [0..<10] hkstate0"

section \<open>The AES-NI instructions\<close>

text \<open>The accelerated permutation is written with compiler intrinsics, which the
  repository uses and does not define. They are modelled here from the instruction set
  reference: \<^verbatim>\<open>AESENC\<close> is ShiftRows, SubBytes, MixColumns of FIPS-197 followed by the
  exclusive or with the round key, and the two unpack instructions interleave 32-bit
  lanes. The S-box is the one FIPS-197 defines (the inverse in GF(2^8) followed by the
  affine map), not the table of the source.\<close>

type_synonym m128i = "128 word"

text \<open>Bytes as polynomials over GF(2), written as the natural numbers below 256 whose
  bits are the coefficients; \<open>283\<close> is the modulus \<open>x^8 + x^4 + x^3 + x + 1\<close>.\<close>

definition gf_xtime :: "nat \<Rightarrow> nat" where
  "gf_xtime b = (if 128 \<le> b then (2 * b) XOR 283 else 2 * b)"

fun gf_mult_loop :: "nat \<Rightarrow> nat \<Rightarrow> nat \<Rightarrow> nat" where
  "gf_mult_loop 0 a b = 0"
| "gf_mult_loop (Suc n) a b =
     (if odd b then a else 0) XOR gf_mult_loop n (gf_xtime a) (b div 2)"

definition gf_mult :: "nat \<Rightarrow> nat \<Rightarrow> nat" where
  "gf_mult a b = gf_mult_loop 8 a b"

definition gf_square :: "nat \<Rightarrow> nat" where
  "gf_square a = gf_mult a a"

text \<open>The inverse in GF(2^8) is the 254th power, which maps zero to zero.\<close>

definition gf_inverse :: "nat \<Rightarrow> nat" where
  "gf_inverse b =
     gf_square (gf_mult (gf_square (gf_mult (gf_square (gf_mult (gf_square (gf_mult
       (gf_square (gf_mult (gf_square (gf_mult (gf_square b) b)) b)) b)) b)) b)) b)"

definition rotl1 :: "nat \<Rightarrow> nat" where
  "rotl1 x = (2 * x) mod 256 + x div 128"

definition aes_affine :: "nat \<Rightarrow> nat" where
  "aes_affine x =
     x XOR rotl1 x XOR rotl1 (rotl1 x) XOR rotl1 (rotl1 (rotl1 x))
       XOR rotl1 (rotl1 (rotl1 (rotl1 x))) XOR 99"

definition aes_sbox_nat :: "nat \<Rightarrow> nat" where
  "aes_sbox_nat b = aes_affine (gf_inverse b)"

definition aes_sbox :: "uint8_t \<Rightarrow> uint8_t" where
  "aes_sbox b = of_nat (aes_sbox_nat (unat b))"

text \<open>The product of the constant \<open>k\<close> and a byte.\<close>

definition gf_times :: "nat \<Rightarrow> uint8_t \<Rightarrow> uint8_t" where
  "gf_times k b = of_nat (gf_mult k (unat b))"

text \<open>The state of FIPS-197 is a 4 by 4 matrix stored by columns: row \<open>r\<close> of column
  \<open>c\<close> is byte \<open>r + 4 * c\<close>.\<close>

definition aes_ShiftRows :: "state_t \<Rightarrow> state_t" where
  "aes_ShiftRows st = map (\<lambda>k. st ! (k mod 4 + 4 * ((k div 4 + k mod 4) mod 4))) [0..<16]"

definition aes_SubBytes :: "state_t \<Rightarrow> state_t" where
  "aes_SubBytes st = map aes_sbox st"

definition aes_MixColumns :: "state_t \<Rightarrow> state_t" where
  "aes_MixColumns st = concat (map (\<lambda>c.
     (let s0 = st ! (4 * c); s1 = st ! (4 * c + 1); s2 = st ! (4 * c + 2); s3 = st ! (4 * c + 3)
      in [gf_times 2 s0 XOR gf_times 3 s1 XOR s2 XOR s3,
          s0 XOR gf_times 2 s1 XOR gf_times 3 s2 XOR s3,
          s0 XOR s1 XOR gf_times 2 s2 XOR gf_times 3 s3,
          gf_times 3 s0 XOR s1 XOR s2 XOR gf_times 2 s3])) [0..<4])"

text \<open>\<^verbatim>\<open>_mm_loadu_si128\<close> and \<^verbatim>\<open>_mm_storeu_si128\<close> on a 16-byte array: byte \<open>k\<close> of the
  array is bits \<open>8 * k\<close> to \<open>8 * k + 7\<close> of the register (little endian).\<close>

definition state_to_value :: "state_t \<Rightarrow> m128i" where
  "state_to_value s = word_rcat (rev s)"

definition value_to_state :: "m128i \<Rightarrow> state_t" where
  "value_to_state v = map (\<lambda>k. ucast (drop_bit (8 * k) v)) [0..<16]"

text \<open>\<^verbatim>\<open>_mm_set_epi32(e3, e2, e1, e0)\<close>: \<open>e0\<close> is the lowest lane.\<close>

definition mm_set_epi32 :: "32 word \<Rightarrow> 32 word \<Rightarrow> 32 word \<Rightarrow> 32 word \<Rightarrow> m128i" where
  "mm_set_epi32 e3 e2 e1 e0 = word_rcat [e3, e2, e1, e0]"

definition mm_aesenc_si128 :: "m128i \<Rightarrow> m128i \<Rightarrow> m128i" where
  "mm_aesenc_si128 a RoundKey =
     state_to_value (aes_MixColumns (aes_SubBytes (aes_ShiftRows (value_to_state a))))
       XOR RoundKey"

text \<open>Lane \<open>k\<close> of a register, as a 32-bit word.\<close>

definition lane32 :: "m128i \<Rightarrow> nat \<Rightarrow> 32 word" where
  "lane32 a k = ucast (drop_bit (32 * k) a)"

definition mm_unpacklo_epi32 :: "m128i \<Rightarrow> m128i \<Rightarrow> m128i" where
  "mm_unpacklo_epi32 a b = mm_set_epi32 (lane32 b 1) (lane32 a 1) (lane32 b 0) (lane32 a 0)"

definition mm_unpackhi_epi32 :: "m128i \<Rightarrow> m128i \<Rightarrow> m128i" where
  "mm_unpackhi_epi32 a b = mm_set_epi32 (lane32 b 3) (lane32 a 3) (lane32 b 2) (lane32 a 2)"

text \<open>The Haraka-512 permutation with the AES-NI instructions; \<open>rc\<close> is the array of the
  40 round constants as registers.\<close>

definition haraka512pi_opt :: "m128i list \<Rightarrow> hkstate_t \<Rightarrow> hkstate_t" where
  "haraka512pi_opt rc hkstate =
    (let s = fold (\<lambda>i s. s[i := state_to_value (hkstate ! i)]) [0..<4] (replicate 4 0);
         s = fold (\<lambda>r s.
           (let s = s[0 := mm_aesenc_si128 (s ! 0) (rc ! (4 * r))];
                s = s[1 := mm_aesenc_si128 (s ! 1) (rc ! (4 * r + 1))];
                s = s[2 := mm_aesenc_si128 (s ! 2) (rc ! (4 * r + 2))];
                s = s[3 := mm_aesenc_si128 (s ! 3) (rc ! (4 * r + 3))]
            in if r mod 2 = 1 then
                 (let tmp = mm_unpacklo_epi32 (s ! 0) (s ! 1);
                      s = s[0 := mm_unpackhi_epi32 (s ! 0) (s ! 1)];
                      s = s[1 := mm_unpacklo_epi32 (s ! 2) (s ! 3)];
                      s = s[2 := mm_unpackhi_epi32 (s ! 2) (s ! 3)];
                      s = s[3 := mm_unpacklo_epi32 (s ! 0) (s ! 2)];
                      s = s[0 := mm_unpackhi_epi32 (s ! 0) (s ! 2)];
                      s = s[2 := mm_unpackhi_epi32 (s ! 1) tmp];
                      s = s[1 := mm_unpacklo_epi32 (s ! 1) tmp]
                  in s)
               else s)) [0..<10] s
     in fold (\<lambda>i hk. hk[i := value_to_state (s ! i)]) [0..<4] hkstate)"

section \<open>The attack, part 1: the two computation paths\<close>

text \<open>The guesses, the degrees of freedom and the result \<^verbatim>\<open>output_tuple\<close> are arrays of
  bytes, modelled as lists. Each function of the source writes into the state \<open>s\<close> it
  receives by reference; the model returns the state it leaves. \<^verbatim>\<open>output_tuple\<close> has four
  entries and all four are assigned, so the model returns it as a list of four bytes.\<close>

text \<open>Forward computation path, stopping at \<open>x5\<close>.\<close>

definition computefwd_x5 ::
  "hkstate_t \<Rightarrow> uint8_t list \<Rightarrow> uint8_t list \<Rightarrow> uint8_t list \<Rightarrow> uint8_t list
     \<Rightarrow> uint8_t list \<Rightarrow> hkstate_t" where
  "computefwd_x5 s0 round2_match_through_mc x3_guesses x4_guesses x5_guesses dof =
    (let w2a_1 = dof ! 0; w2a_6 = dof ! 1;
         w2a_11 = dof ! 2; w2a_12 = dof ! 3;
         s = set_byte s0 0 1 (w2a_1 XOR rccon 2 0 1);
         s = set_byte s 0 6 (w2a_6 XOR rccon 2 0 6);
         s = set_byte s 0 11 (w2a_11 XOR rccon 2 0 11);
         s = set_byte s 0 12 (w2a_12 XOR rccon 2 0 12);
         s = set_byte s 0 0 (times201 (round2_match_through_mc ! 0)
                XOR times68 (round2_match_through_mc ! 1)
                XOR times203 w2a_1 XOR rccon 2 0 0);
         s = set_byte s 0 2 (times68 (round2_match_through_mc ! 0)
                XOR times201 (round2_match_through_mc ! 1)
                XOR times71 w2a_1 XOR rccon 2 0 2);
         s = set_byte s 0 5 (times68 (round2_match_through_mc ! 2)
                XOR times201 (round2_match_through_mc ! 3) XOR times203 w2a_6 XOR rccon 2 0 5);
         s = set_byte s 0 7 (times201 (round2_match_through_mc ! 2)
                XOR times68 (round2_match_through_mc ! 3) XOR times71 w2a_6 XOR rccon 2 0 7);
         s = set_byte s 0 8 (times201 (round2_match_through_mc ! 4)
                XOR times68 (round2_match_through_mc ! 5) XOR times71 w2a_11 XOR rccon 2 0 8);
         s = set_byte s 0 10 (times68 (round2_match_through_mc ! 4)
                XOR times201 (round2_match_through_mc ! 5) XOR times203 w2a_11 XOR rccon 2 0 10);
         s = set_byte s 0 13 (times68 (round2_match_through_mc ! 6)
                XOR times201 (round2_match_through_mc ! 7) XOR times71 w2a_12 XOR rccon 2 0 13);
         s = set_byte s 0 15 (times201 (round2_match_through_mc ! 6)
                XOR times68 (round2_match_through_mc ! 7) XOR times203 w2a_12 XOR rccon 2 0 15);
         s = set_byte s 1 1 (x3_guesses ! 0);
         s = set_byte s 1 2 (x3_guesses ! 1);
         s = set_byte s 1 6 (x3_guesses ! 2);
         s = set_byte s 1 7 (x3_guesses ! 3);
         s = set_byte s 1 8 (x3_guesses ! 4);
         s = set_byte s 1 11 (x3_guesses ! 5);
         s = set_byte s 1 12 (x3_guesses ! 6);
         s = set_byte s 1 13 (x3_guesses ! 7);
         s = set_byte s 2 1 (x3_guesses ! 8);
         s = set_byte s 2 6 (x3_guesses ! 9);
         s = set_byte s 2 11 (x3_guesses ! 10);
         s = set_byte s 2 12 (x3_guesses ! 11);
         s = set_byte s 3 0 (x3_guesses ! 12);
         s = set_byte s 3 1 (x3_guesses ! 13);
         s = set_byte s 3 5 (x3_guesses ! 14);
         s = set_byte s 3 6 (x3_guesses ! 15);
         s = set_byte s 3 10 (x3_guesses ! 16);
         s = set_byte s 3 11 (x3_guesses ! 17);
         s = set_byte s 3 12 (x3_guesses ! 18);
         s = set_byte s 3 15 (x3_guesses ! 19);
         s = aesenc_all s 3;
         s = mix512 s;
         s = set_byte s 1 0 (x4_guesses ! 0);
         s = set_byte s 1 1 (x4_guesses ! 1);
         s = set_byte s 1 2 (x4_guesses ! 2);
         s = set_byte s 1 3 (x4_guesses ! 3);
         s = set_byte s 1 12 (x4_guesses ! 4);
         s = set_byte s 1 13 (x4_guesses ! 5);
         s = set_byte s 1 14 (x4_guesses ! 6);
         s = set_byte s 1 15 (x4_guesses ! 7);
         s = set_byte s 3 4 (x4_guesses ! 8);
         s = set_byte s 3 5 (x4_guesses ! 9);
         s = set_byte s 3 6 (x4_guesses ! 10);
         s = set_byte s 3 7 (x4_guesses ! 11);
         s = set_byte s 3 12 (x4_guesses ! 12);
         s = set_byte s 3 13 (x4_guesses ! 13);
         s = set_byte s 3 14 (x4_guesses ! 14);
         s = set_byte s 3 15 (x4_guesses ! 15);
         s = s[0 := aesenc (s ! 0) 4 0]; s = s[1 := aesenc (s ! 1) 4 1];
         s = s[3 := aesenc (s ! 3) 4 3];
         s = set_byte s 2 1 (x5_guesses ! 0);
         s = set_byte s 2 2 (x5_guesses ! 1);
         s = set_byte s 2 3 (x5_guesses ! 2);
         s = set_byte s 2 4 (x5_guesses ! 3);
         s = set_byte s 2 6 (x5_guesses ! 4);
         s = set_byte s 2 7 (x5_guesses ! 5);
         s = set_byte s 2 8 (x5_guesses ! 6);
         s = set_byte s 2 9 (x5_guesses ! 7);
         s = set_byte s 2 11 (x5_guesses ! 8);
         s = set_byte s 2 12 (x5_guesses ! 9);
         s = set_byte s 2 13 (x5_guesses ! 10);
         s = set_byte s 2 14 (x5_guesses ! 11)
     in s)"

text \<open>Forward computation path: the state left in \<open>s\<close> and the result \<^verbatim>\<open>output_tuple\<close>.\<close>

definition computefwd ::
  "hkstate_t \<Rightarrow> uint8_t list \<Rightarrow> uint8_t list \<Rightarrow> uint8_t list \<Rightarrow> uint8_t list
     \<Rightarrow> uint8_t list \<Rightarrow> hkstate_t \<times> uint8_t list" where
  "computefwd s0 round2_match_through_mc x3_guesses x4_guesses x5_guesses dof =
    (let s = computefwd_x5 s0 round2_match_through_mc x3_guesses x4_guesses x5_guesses dof;
         s = aesenc_all s 5;
         s = mix512 s;
         s = s[0 := aesenc (s ! 0) 6 0]; s = s[2 := aesenc (s ! 2) 6 2];
         s = s[3 := aesenc (s ! 3) 6 3];
         s = s[0 := aesenc (s ! 0) 7 0]; s = s[2 := aesenc (s ! 2) 7 2];
         s = s[3 := aesenc (s ! 3) 7 3];
         s = mix512 s;
         s = s[2 := subbytes (s ! 2)]; s = s[2 := shiftrows (s ! 2)]
     in (s,
         [times7 (s ! 2 ! 0) XOR s ! 2 ! 1 XOR times7 (s ! 2 ! 2),
          s ! 2 ! 4 XOR times2 (s ! 2 ! 5) XOR times3 (s ! 2 ! 7),
          times7 (s ! 2 ! 8) XOR times7 (s ! 2 ! 10) XOR s ! 2 ! 11,
          times3 (s ! 2 ! 13) XOR s ! 2 ! 14 XOR times2 (s ! 2 ! 15)]))"

text \<open>Backward computation path.\<close>

definition computebwd ::
  "hkstate_t \<Rightarrow> uint8_t list \<Rightarrow> uint8_t list \<Rightarrow> uint8_t list \<Rightarrow> uint8_t list
     \<Rightarrow> uint8_t list \<Rightarrow> hkstate_t \<times> uint8_t list" where
  "computebwd s0 round2_match_through_mc x3_guesses x4_guesses x5_guesses dof =
    (let s = set_byte s0 2 0 (dof ! 0); s = set_byte s 2 5 (dof ! 1);
         s = set_byte s 2 10 (dof ! 2); s = set_byte s 2 15 (dof ! 3);
         s = set_byte s 2 1 (x5_guesses ! 0);
         s = set_byte s 2 2 (x5_guesses ! 1);
         s = set_byte s 2 3 (x5_guesses ! 2);
         s = set_byte s 2 4 (x5_guesses ! 3);
         s = set_byte s 2 6 (x5_guesses ! 4);
         s = set_byte s 2 7 (x5_guesses ! 5);
         s = set_byte s 2 8 (x5_guesses ! 6);
         s = set_byte s 2 9 (x5_guesses ! 7);
         s = set_byte s 2 11 (x5_guesses ! 8);
         s = set_byte s 2 12 (x5_guesses ! 9);
         s = set_byte s 2 13 (x5_guesses ! 10);
         s = set_byte s 2 14 (x5_guesses ! 11);
         s = s[2 := invaesenc (s ! 2) 4 2];
         s = set_byte s 1 0 (x4_guesses ! 0);
         s = set_byte s 1 1 (x4_guesses ! 1);
         s = set_byte s 1 2 (x4_guesses ! 2);
         s = set_byte s 1 3 (x4_guesses ! 3);
         s = set_byte s 1 12 (x4_guesses ! 4);
         s = set_byte s 1 13 (x4_guesses ! 5);
         s = set_byte s 1 14 (x4_guesses ! 6);
         s = set_byte s 1 15 (x4_guesses ! 7);
         s = set_byte s 3 4 (x4_guesses ! 8);
         s = set_byte s 3 5 (x4_guesses ! 9);
         s = set_byte s 3 6 (x4_guesses ! 10);
         s = set_byte s 3 7 (x4_guesses ! 11);
         s = set_byte s 3 12 (x4_guesses ! 12);
         s = set_byte s 3 13 (x4_guesses ! 13);
         s = set_byte s 3 14 (x4_guesses ! 14);
         s = set_byte s 3 15 (x4_guesses ! 15);
         s = invmix512 s;
         s = invaesenc_all s 3;
         s = set_byte s 1 1 (x3_guesses ! 0);
         s = set_byte s 1 2 (x3_guesses ! 1);
         s = set_byte s 1 6 (x3_guesses ! 2);
         s = set_byte s 1 7 (x3_guesses ! 3);
         s = set_byte s 1 8 (x3_guesses ! 4);
         s = set_byte s 1 11 (x3_guesses ! 5);
         s = set_byte s 1 12 (x3_guesses ! 6);
         s = set_byte s 1 13 (x3_guesses ! 7);
         s = set_byte s 2 1 (x3_guesses ! 8);
         s = set_byte s 2 6 (x3_guesses ! 9);
         s = set_byte s 2 11 (x3_guesses ! 10);
         s = set_byte s 2 12 (x3_guesses ! 11);
         s = set_byte s 3 0 (x3_guesses ! 12);
         s = set_byte s 3 1 (x3_guesses ! 13);
         s = set_byte s 3 5 (x3_guesses ! 14);
         s = set_byte s 3 6 (x3_guesses ! 15);
         s = set_byte s 3 10 (x3_guesses ! 16);
         s = set_byte s 3 11 (x3_guesses ! 17);
         s = set_byte s 3 12 (x3_guesses ! 18);
         s = set_byte s 3 15 (x3_guesses ! 19);
         w2a_3 = s ! 0 ! 3 XOR rccon 2 0 3;
         w2a_4 = s ! 0 ! 4 XOR rccon 2 0 4;
         w2a_9 = s ! 0 ! 9 XOR rccon 2 0 9;
         w2a_14 = s ! 0 ! 14 XOR rccon 2 0 14;
         s = set_byte s 0 1 (round2_match_through_mc ! 0 XOR times13 w2a_3);
         s = set_byte s 0 3 (round2_match_through_mc ! 1 XOR times14 w2a_3);
         s = set_byte s 0 4 (round2_match_through_mc ! 2 XOR times14 w2a_4);
         s = set_byte s 0 6 (round2_match_through_mc ! 3 XOR times13 w2a_4);
         s = set_byte s 0 9 (round2_match_through_mc ! 4 XOR times14 w2a_9);
         s = set_byte s 0 11 (round2_match_through_mc ! 5 XOR times13 w2a_9);
         s = set_byte s 0 12 (round2_match_through_mc ! 6 XOR times13 w2a_14);
         s = set_byte s 0 14 (round2_match_through_mc ! 7 XOR times14 w2a_14);
         s = s[0 := invsbsr (s ! 0)];
         s = fold (\<lambda>j s. s[j := invaesenc (s ! j) 2 j]) [1..<4] s;
         s = invmix512 s;
         s = s[2 := invaesenc (s ! 2) 1 2]; s = s[3 := invaesenc (s ! 3) 1 3];
         s = s[2 := invaesenc (s ! 2) 0 2]; s = s[3 := invaesenc (s ! 3) 0 3];
         s = invmix512 s;
         s = s[2 := invaesenc (s ! 2) 9 2];
         s = s[2 := xor_rcons (s ! 2) 8 2]
     in (s,
         [times2 (s ! 2 ! 2) XOR times3 (s ! 2 ! 3),
          s ! 2 ! 4 XOR s ! 2 ! 7,
          times2 (s ! 2 ! 8) XOR times3 (s ! 2 ! 9),
          s ! 2 ! 13 XOR s ! 2 ! 14]))"

text \<open>From a pair of forward and backward choices that matched, recompute \<open>x0\<close> and its
  image: the result is \<open>x0\<close> (left in \<open>s\<close>) and \<open>pi(x0)\<close> (written to \<open>pix0\<close>, every
  lane of which is stored).\<close>

definition compute_x0_pix0_from_choices ::
  "m128i list \<Rightarrow> hkstate_t \<Rightarrow> hkstate_t \<Rightarrow> uint8_t list \<Rightarrow> uint8_t list \<Rightarrow> uint8_t list
     \<Rightarrow> uint8_t list \<Rightarrow> uint8_t list \<Rightarrow> uint8_t list \<Rightarrow> hkstate_t \<times> hkstate_t" where
  "compute_x0_pix0_from_choices rc s0' pix0 round2_match_through_mc x3_guesses x4_guesses
       x5_guesses fwddof bwddof =
    (let s = computefwd_x5 s0' round2_match_through_mc x3_guesses x4_guesses x5_guesses fwddof;
         s = set_byte s 2 0 (bwddof ! 0); s = set_byte s 2 5 (bwddof ! 1);
         s = set_byte s 2 10 (bwddof ! 2); s = set_byte s 2 15 (bwddof ! 3);
         s0 = state_to_value (s ! 0);
         s1 = state_to_value (s ! 1);
         s2 = state_to_value (s ! 2);
         s3 = state_to_value (s ! 3);
         s = invaesenc_all s 4;
         s = invmix512 s;
         s = invaesenc_all s 3;
         s = invaesenc_all s 2;
         s = invmix512 s;
         s = invaesenc_all s 1;
         s = invaesenc_all s 0;
         s0 = mm_aesenc_si128 s0 (rc ! (4 * 5)); s1 = mm_aesenc_si128 s1 (rc ! (4 * 5 + 1));
         s2 = mm_aesenc_si128 s2 (rc ! (4 * 5 + 2)); s3 = mm_aesenc_si128 s3 (rc ! (4 * 5 + 3));
         tmp = mm_unpacklo_epi32 s0 s1; s0 = mm_unpackhi_epi32 s0 s1;
         s1 = mm_unpacklo_epi32 s2 s3; s2 = mm_unpackhi_epi32 s2 s3;
         s3 = mm_unpacklo_epi32 s0 s2; s0 = mm_unpackhi_epi32 s0 s2;
         s2 = mm_unpackhi_epi32 s1 tmp; s1 = mm_unpacklo_epi32 s1 tmp;
         s0 = mm_aesenc_si128 s0 (rc ! (4 * 6)); s1 = mm_aesenc_si128 s1 (rc ! (4 * 6 + 1));
         s2 = mm_aesenc_si128 s2 (rc ! (4 * 6 + 2)); s3 = mm_aesenc_si128 s3 (rc ! (4 * 6 + 3));
         s0 = mm_aesenc_si128 s0 (rc ! (4 * 7)); s1 = mm_aesenc_si128 s1 (rc ! (4 * 7 + 1));
         s2 = mm_aesenc_si128 s2 (rc ! (4 * 7 + 2)); s3 = mm_aesenc_si128 s3 (rc ! (4 * 7 + 3));
         tmp = mm_unpacklo_epi32 s0 s1; s0 = mm_unpackhi_epi32 s0 s1;
         s1 = mm_unpacklo_epi32 s2 s3; s2 = mm_unpackhi_epi32 s2 s3;
         s3 = mm_unpacklo_epi32 s0 s2; s0 = mm_unpackhi_epi32 s0 s2;
         s2 = mm_unpackhi_epi32 s1 tmp; s1 = mm_unpacklo_epi32 s1 tmp;
         s0 = mm_aesenc_si128 s0 (rc ! (4 * 8)); s1 = mm_aesenc_si128 s1 (rc ! (4 * 8 + 1));
         s2 = mm_aesenc_si128 s2 (rc ! (4 * 8 + 2)); s3 = mm_aesenc_si128 s3 (rc ! (4 * 8 + 3));
         s0 = mm_aesenc_si128 s0 (rc ! (4 * 9)); s1 = mm_aesenc_si128 s1 (rc ! (4 * 9 + 1));
         s2 = mm_aesenc_si128 s2 (rc ! (4 * 9 + 2)); s3 = mm_aesenc_si128 s3 (rc ! (4 * 9 + 3));
         tmp = mm_unpacklo_epi32 s0 s1; s0 = mm_unpackhi_epi32 s0 s1;
         s1 = mm_unpacklo_epi32 s2 s3; s2 = mm_unpackhi_epi32 s2 s3;
         s3 = mm_unpacklo_epi32 s0 s2; s0 = mm_unpackhi_epi32 s0 s2;
         s2 = mm_unpackhi_epi32 s1 tmp; s1 = mm_unpacklo_epi32 s1 tmp;
         pix0 = pix0[0 := value_to_state s0];
         pix0 = pix0[1 := value_to_state s1];
         pix0 = pix0[2 := value_to_state s2];
         pix0 = pix0[3 := value_to_state s3]
     in (s, pix0))"

section \<open>The attack, part 2: the table and the search\<close>

text \<open>The table of forward results is a 256 x 256 x 256 array of vectors of 5-byte
  arrays, indexed by three bytes. It has static storage, so every vector starts empty.\<close>

type_synonym fwdvecs_t = "uint8_t \<Rightarrow> uint8_t \<Rightarrow> uint8_t \<Rightarrow> uint8_t list list"

definition empty_fwdvecs :: fwdvecs_t where
  "empty_fwdvecs = (\<lambda>m0 m1 m2. [])"

text \<open>\<^verbatim>\<open>fwdvecs[v[0]][v[1]][v[2]].push_back({v[3], v[4], v[5], v[6], v[7]})\<close>.\<close>

definition push_record :: "uint8_t list \<Rightarrow> fwdvecs_t \<Rightarrow> fwdvecs_t" where
  "push_record v fwdvecs =
     fwdvecs(v ! 0 := (fwdvecs (v ! 0))(v ! 1 := (fwdvecs (v ! 0) (v ! 1))(v ! 2 :=
       fwdvecs (v ! 0) (v ! 1) (v ! 2) @ [[v ! 3, v ! 4, v ! 5, v ! 6, v ! 7]])))"

text \<open>The four bytes of the degrees of freedom made from the loop index \<open>i\<close>, which is
  never negative: \<^verbatim>\<open>uint8_t(i & 0xFF)\<close>, \<^verbatim>\<open>uint8_t((i >> 8) & 0xFF)\<close>, and so on.\<close>

definition dof_of_index :: "nat \<Rightarrow> uint8_t list" where
  "dof_of_index i =
     [of_nat (i AND 0xFF), of_nat (drop_bit 8 i AND 0xFF),
      of_nat (drop_bit 16 i AND 0xFF), of_nat (drop_bit 24 i AND 0xFF)]"

text \<open>What one thread of \<^verbatim>\<open>populatetable\<close> holds: the shared table, its scratch state
  \<^verbatim>\<open>fwds\<close> (not initialised by the source), its buffer and the size of the buffer.
  \<open>fwd_calls\<close> is not a variable of the source: it records the degrees of freedom
  passed to \<^verbatim>\<open>computefwd\<close> so far, in order to state which values a thread processes.
  The progress lines printed every \<open>2^24\<close> iterations are left out.\<close>

record fwd_worker =
  fwdvecs :: fwdvecs_t
  fwds :: hkstate_t
  buffer :: "uint8_t list list"
  bufsize :: nat
  fwd_calls :: "uint8_t list list"

text \<open>The body of the loop of \<^verbatim>\<open>populatetable\<close> for the index \<open>i\<close>.\<close>

definition populatetable_body :: "nat \<Rightarrow> uint8_t \<Rightarrow> nat \<Rightarrow> fwd_worker \<Rightarrow> fwd_worker" where
  "populatetable_body ind seed i w =
    (if i mod 4 = ind then
       (let round2_match_through_mc = [0, 0, 0, 0, 0, 0, 0, seed];
            x3_guesses = [0, 0, 0, 0, 0, 0, 0, 0, 0, 0, 0, 0, 0, 0, 0, 0, 0, 0, 0, 0];
            x4_guesses = [0, 0, 0, 0, 0, 0, 0, 0, 0, 0, 0, 0, 0, 0, 0, 0];
            x5_guesses = [0, 0, 0, 0, 0, 0, 0, 0, 0, 0, 0, 0];
            fwddof = dof_of_index i;
            (fwds', res) = computefwd (fwds w) round2_match_through_mc
                             x3_guesses x4_guesses x5_guesses fwddof;
            buffer' = buffer w @ [[res ! 0, res ! 1, res ! 2, res ! 3,
                                   fwddof ! 0, fwddof ! 1, fwddof ! 2, fwddof ! 3]];
            bufsize' = bufsize w + 1;
            w = w\<lparr>fwds := fwds', fwd_calls := fwd_calls w @ [fwddof]\<rparr>
        in if bufsize' > 10000
           then w\<lparr>fwdvecs := fold push_record buffer' (fwdvecs w), buffer := [], bufsize := 0\<rparr>
           else w\<lparr>buffer := buffer', bufsize := bufsize'\<rparr>)
     else w)"

text \<open>\<^verbatim>\<open>populatetable(fwdvecs, ind, seed, size1)\<close>: the thread \<open>ind\<close> of the first step. The
  function ends with its loop: what is left in the buffer then is dropped with it.\<close>

definition populatetable :: "fwdvecs_t \<Rightarrow> hkstate_t \<Rightarrow> nat \<Rightarrow> uint8_t \<Rightarrow> nat \<Rightarrow> fwd_worker" where
  "populatetable table fwds0 ind seed size1 =
     fold (populatetable_body ind seed) [0..<size1]
       \<lparr>fwdvecs = table, fwds = fwds0, buffer = [], bufsize = 0, fwd_calls = []\<rparr>"

text \<open>Condition for printing a result, and condition for a full result.\<close>

definition printcond :: "hkstate_t \<Rightarrow> bool" where
  "printcond pix0 \<longleftrightarrow>
     pix0 ! 2 ! 4 = 0 \<and> pix0 ! 2 ! 7 = 0
     \<and> pix0 ! 2 ! 8 = 0 \<and> pix0 ! 2 ! 9 = 0
     \<and> pix0 ! 2 ! 13 = 0 \<and> pix0 ! 2 ! 14 = 0"

definition fullcond :: "hkstate_t \<Rightarrow> bool" where
  "fullcond pix0 \<longleftrightarrow>
     pix0 ! 2 ! 2 = 0 \<and> pix0 ! 2 ! 3 = 0 \<and> pix0 ! 2 ! 13 = 0 \<and> pix0 ! 2 ! 14 = 0
     \<and> pix0 ! 2 ! 4 = 0 \<and> pix0 ! 2 ! 7 = 0 \<and> pix0 ! 2 ! 8 = 0 \<and> pix0 ! 2 ! 9 = 0"






text \<open>The first step of \<^verbatim>\<open>search\<close>: four threads \<^verbatim>\<open>populatetable\<close> with \<open>ind\<close> from 0 to 3
  on the shared table, all joined before the second step starts. The threads touch the
  table only inside the lock, and only to append; \<open>populate_phase\<close> is the schedule
  in which each thread runs to its end before the next one starts. \<open>scratch\<close> gives each
  thread the initial content of its uninitialised scratch state.\<close>

definition populate_phase :: "(nat \<Rightarrow> hkstate_t) \<Rightarrow> uint8_t \<Rightarrow> nat \<Rightarrow> fwdvecs_t" where
  "populate_phase scratch seed size1 =
     fold (\<lambda>ind table. fwdvecs (populatetable table (scratch ind) ind seed size1))
       [0, 1, 2, 3] empty_fwdvecs"

text \<open>The sizes that \<^verbatim>\<open>search\<close> fixes: \<^verbatim>\<open>size1 = (1 << 29)\<close> and \<^verbatim>\<open>size2 = 4294967295\<close>.\<close>

definition size1 :: nat where
  "size1 = 2 ^ 29"


text \<open>The round constants as \<^verbatim>\<open>main\<close> builds them for the AES-NI instructions.\<close>

definition main_rc :: "m128i list" where
  "main_rc = [
     mm_set_epi32 0x0684704c 0xe620c00a 0xb2c5fef0 0x75817b9d,
     mm_set_epi32 0x8b66b4e1 0x88f3a06b 0x640f6ba4 0x2f08f717,
     mm_set_epi32 0x3402de2d 0x53f28498 0xcf029d60 0x9f029114,
     mm_set_epi32 0x0ed6eae6 0x2e7b4f08 0xbbf3bcaf 0xfd5b4f79,
     mm_set_epi32 0xcbcfb0cb 0x4872448b 0x79eecd1c 0xbe397044,
     mm_set_epi32 0x7eeacdee 0x6e9032b7 0x8d5335ed 0x2b8a057b,
     mm_set_epi32 0x67c28f43 0x5e2e7cd0 0xe2412761 0xda4fef1b,
     mm_set_epi32 0x2924d9b0 0xafcacc07 0x675ffde2 0x1fc70b3b,
     mm_set_epi32 0xab4d63f1 0xe6867fe9 0xecdb8fca 0xb9d465ee,
     mm_set_epi32 0x1c30bf84 0xd4b7cd64 0x5b2a404f 0xad037e33,
     mm_set_epi32 0xb2cc0bb9 0x941723bf 0x69028b2e 0x8df69800,
     mm_set_epi32 0xfa0478a6 0xde6f5572 0x4aaa9ec8 0x5c9d2d8a,
     mm_set_epi32 0xdfb49f2b 0x6b772a12 0x0efa4f2e 0x29129fd4,
     mm_set_epi32 0x1ea10344 0xf449a236 0x32d611ae 0xbb6a12ee,
     mm_set_epi32 0xaf044988 0x4b050084 0x5f9600c9 0x9ca8eca6,
     mm_set_epi32 0x21025ed8 0x9d199c4f 0x78a2c7e3 0x27e593ec,
     mm_set_epi32 0xbf3aaaf8 0xa759c9b7 0xb9282ecd 0x82d40173,
     mm_set_epi32 0x6260700d 0x6186b017 0x37f2efd9 0x10307d6b,
     mm_set_epi32 0x5aca45c2 0x21300443 0x81c29153 0xf6fc9ac6,
     mm_set_epi32 0x9223973c 0x226b68bb 0x2caf92e8 0x36d1943a,
     mm_set_epi32 0xd3bf9238 0x225886eb 0x6cbab958 0xe51071b4,
     mm_set_epi32 0xdb863ce5 0xaef0c677 0x933dfddd 0x24e1128d,
     mm_set_epi32 0xbb606268 0xffeba09c 0x83e48de3 0xcb2212b1,
     mm_set_epi32 0x734bd3dc 0xe2e4d19c 0x2db91a4e 0xc72bf77d,
     mm_set_epi32 0x43bb47c3 0x61301b43 0x4b1415c4 0x2cb3924e,
     mm_set_epi32 0xdba775a8 0xe707eff6 0x03b231dd 0x16eb6899,
     mm_set_epi32 0x6df3614b 0x3c755977 0x8e5e2302 0x7eca472c,
     mm_set_epi32 0xcda75a17 0xd6de7d77 0x6d1be5b9 0xb88617f9,
     mm_set_epi32 0xec6b43f0 0x6ba8e9aa 0x9d6c069d 0xa946ee5d,
     mm_set_epi32 0xcb1e6950 0xf957332b 0xa2531159 0x3bf327c1,
     mm_set_epi32 0x2cee0c75 0x00da619c 0xe4ed0353 0x600ed0d9,
     mm_set_epi32 0xf0b1a5a1 0x96e90cab 0x80bbbabc 0x63a4a350,
     mm_set_epi32 0xae3db102 0x5e962988 0xab0dde30 0x938dca39,
     mm_set_epi32 0x17bb8f38 0xd554a40b 0x8814f3a8 0x2e75b442,
     mm_set_epi32 0x34bb8a5b 0x5f427fd7 0xaeb6b779 0x360a16f6,
     mm_set_epi32 0x26f65241 0xcbe55438 0x43ce5918 0xffbaafde,
     mm_set_epi32 0x4ce99a54 0xb9f3026a 0xa2ca9cf7 0x839ec978,
     mm_set_epi32 0xae51a51a 0x1bdff7be 0x40c06e28 0x22901235,
     mm_set_epi32 0xa0c1613c 0xba7ed22b 0xc173bc0f 0x48a659cf,
     mm_set_epi32 0x756acc03 0x02288288 0x4ad6bdfd 0xe9c59da1]"

section \<open>Notions used to state and prove the properties\<close>

text \<open>A well-formed Haraka state: 4 AES states of 16 bytes each.\<close>

definition hkstate_ok :: "hkstate_t \<Rightarrow> bool" where
  "hkstate_ok s \<longleftrightarrow> length s = 4 \<and> list_all (\<lambda>l. length l = 16) s"

text \<open>Multiplication by \<open>x\<close> in GF(2^8) on bytes: the tables of the source are
  polynomials in it.\<close>

definition xtime :: "uint8_t \<Rightarrow> uint8_t" where
  "xtime b = push_bit 1 b XOR (if bit b 7 then 27 else 0)"

text \<open>The 256 bytes in order, to compare a table with a function: 16 rows, one for
  each high half of a byte, of the 16 low halves.\<close>

definition all_bytes :: "uint8_t list" where
  "all_bytes = concat (map (\<lambda>hi. map (\<lambda>lo. hi + lo)
      [0, 1, 2, 3, 4, 5, 6, 7, 8, 9, 10, 11, 12, 13, 14, 15])
      [0, 16, 32, 48, 64, 80, 96, 112, 128, 144, 160, 176, 192, 208, 224, 240])"

text \<open>Which bytes of a Haraka state are known. \<open>D ! j ! k\<close> says that byte \<open>k\<close> of the AES
  state \<open>j\<close> is known; two states agree on \<open>D\<close> when they have the same known bytes. The
  functions below say which bytes are known after an operation of the source, from the
  bytes that each byte of its result is computed from.\<close>

definition eqon :: "bool list list \<Rightarrow> hkstate_t \<Rightarrow> hkstate_t \<Rightarrow> bool" where
  "eqon D s s' \<longleftrightarrow> hkstate_ok s \<and> hkstate_ok s' \<and> length D = 4
     \<and> (\<forall>j<4. \<forall>k<16. D ! j ! k \<longrightarrow> s ! j ! k = s' ! j ! k)"

definition D_none :: "bool list list" where
  "D_none = replicate 4 (replicate 16 False)"

definition D_set :: "bool list list \<Rightarrow> nat \<Rightarrow> nat \<Rightarrow> bool list list" where
  "D_set D j k = D[j := (D ! j)[k := True]]"

definition D_clear :: "bool list list \<Rightarrow> nat \<Rightarrow> bool list list" where
  "D_clear D j = D[j := replicate 16 False]"

definition D_lane :: "bool list list \<Rightarrow> nat \<Rightarrow> (nat \<Rightarrow> nat list) \<Rightarrow> bool list list" where
  "D_lane D j deps = D[j := map (\<lambda>k. list_all (\<lambda>p. p < 16 \<and> D ! j ! p) (deps k)) [0..<16]]"

definition D_perm :: "bool list list \<Rightarrow> (nat \<Rightarrow> nat \<Rightarrow> nat \<times> nat) \<Rightarrow> bool list list" where
  "D_perm D src =
     map (\<lambda>j. map (\<lambda>k. D ! fst (src j k) ! snd (src j k)) [0..<16]) [0..<4]"

text \<open>A function \<open>g\<close> on AES states computes byte \<open>k\<close> of its result from the bytes
  \<open>deps k\<close> of its argument; a function \<open>op\<close> on Haraka states moves the byte at \<open>src j k\<close>
  to byte \<open>k\<close> of the AES state \<open>j\<close>.\<close>

definition lane_dep :: "(state_t \<Rightarrow> state_t) \<Rightarrow> (nat \<Rightarrow> nat list) \<Rightarrow> bool" where
  "lane_dep g deps \<longleftrightarrow> (\<forall>l l'. length l = 16 \<longrightarrow> length l' = 16 \<longrightarrow>
     length (g l) = 16 \<and>
     (\<forall>k<16. (\<forall>p\<in>set (deps k). p < 16 \<longrightarrow> l ! p = l' ! p) \<longrightarrow> g l ! k = g l' ! k))"

definition perm_dep :: "(hkstate_t \<Rightarrow> hkstate_t) \<Rightarrow> (nat \<Rightarrow> nat \<Rightarrow> nat \<times> nat) \<Rightarrow> bool" where
  "perm_dep op src \<longleftrightarrow> (\<forall>s. hkstate_ok s \<longrightarrow> hkstate_ok (op s) \<and>
     (\<forall>j<4. \<forall>k<16. fst (src j k) < 4 \<and> snd (src j k) < 16
        \<and> op s ! j ! k = s ! fst (src j k) ! snd (src j k)))"

text \<open>Byte \<open>k\<close> after SB, SR, MC comes from the four bytes that SR moves into its column;
  byte \<open>k\<close> after the inverse round comes from the column of the byte that the inverse
  of SR moves to \<open>k\<close>.\<close>

definition aes_deps :: "nat \<Rightarrow> nat list" where
  "aes_deps k = map (\<lambda>i. (4 * (k div 4) + 5 * i) mod 16) [0, 1, 2, 3]"

definition invaes_deps :: "nat \<Rightarrow> nat list" where
  "invaes_deps k = map (\<lambda>i. 4 * ((13 * k) mod 16 div 4) + i) [0, 1, 2, 3]"

definition same_deps :: "nat \<Rightarrow> nat list" where
  "same_deps k = [k]"

definition sr_deps :: "nat \<Rightarrow> nat list" where
  "sr_deps k = [(5 * k) mod 16]"

definition invsr_deps :: "nat \<Rightarrow> nat list" where
  "invsr_deps k = [(13 * k) mod 16]"

definition mix_src :: "nat \<Rightarrow> nat \<Rightarrow> nat \<times> nat" where
  "mix_src j k = ([[0, 2, 1, 3], [2, 0, 3, 1], [2, 0, 3, 1], [0, 2, 1, 3]] ! j ! (k div 4),
                  4 * ([3, 0, 1, 2] ! j) + k mod 4)"

definition invmix_src :: "nat \<Rightarrow> nat \<Rightarrow> nat \<times> nat" where
  "invmix_src j k = ([1, 2, 3, 0] ! (k div 4),
     4 * ([[1, 1, 0, 0], [3, 3, 2, 2], [0, 0, 1, 1], [2, 2, 3, 3]] ! j ! (k div 4)) + k mod 4)"

definition x5_fwd_known :: "bool list list" where
  "x5_fwd_known =
    [[True,True,True,True,True,True,True,True,True,True,True,True,True,True,True,True],
     [True,True,True,True,True,True,True,True,True,True,True,True,True,True,True,True],
     [False,True,True,True,True,False,True,True,True,True,False,True,True,True,True,False],
     [True,True,True,True,True,True,True,True,True,True,True,True,True,True,True,True]]"

text \<open>What holds of a thread of \<^verbatim>\<open>populatetable\<close> before its iteration \<open>n\<close>, for the table
  \<open>t0\<close> it started from: the arrays of its buffer and the arrays it has added to the
  table carry the degrees of freedom of indices below \<open>n\<close> that are its own.\<close>

definition fwd_inv :: "fwdvecs_t \<Rightarrow> nat \<Rightarrow> nat \<Rightarrow> fwd_worker \<Rightarrow> bool" where
  "fwd_inv t0 ind n w \<longleftrightarrow>
     (\<forall>v\<in>set (buffer w). \<exists>i<n. i mod 4 = ind \<and> [v ! 4, v ! 5, v ! 6, v ! 7] = dof_of_index i)
   \<and> (\<forall>m0 m1 m2. \<forall>v\<in>set (fwdvecs w m0 m1 m2).
         v \<in> set (t0 m0 m1 m2) \<or> (\<exists>i<n. i mod 4 = ind \<and> tl v = dof_of_index i))"

text \<open>The four bytes that \<^verbatim>\<open>computefwd\<close> and \<^verbatim>\<open>computebwd\<close> write to \<^verbatim>\<open>output_tuple\<close>, as
  functions of the AES state \<open>s[2]\<close> they read them from. \<open>output_fingerprint\<close> is the end of
  \<^verbatim>\<open>computebwd\<close>, from the state that it takes for the output of the permutation: the
  inverse of MIX, the inverse of round 9 on the AES state 2, the round constant of round 8
  removed, and the four bytes.\<close>

definition fwd_tuple :: "state_t \<Rightarrow> uint8_t list" where
  "fwd_tuple w =
     [times7 (w ! 0) XOR w ! 1 XOR times7 (w ! 2),
      w ! 4 XOR times2 (w ! 5) XOR times3 (w ! 7),
      times7 (w ! 8) XOR times7 (w ! 10) XOR w ! 11,
      times3 (w ! 13) XOR w ! 14 XOR times2 (w ! 15)]"

definition bwd_tuple :: "state_t \<Rightarrow> uint8_t list" where
  "bwd_tuple w =
     [times2 (w ! 2) XOR times3 (w ! 3),
      w ! 4 XOR w ! 7,
      times2 (w ! 8) XOR times3 (w ! 9),
      w ! 13 XOR w ! 14]"

definition output_fingerprint :: "hkstate_t \<Rightarrow> uint8_t list" where
  "output_fingerprint pix =
    (let s = invmix512 pix;
         s = s[2 := invaesenc (s ! 2) 9 2];
         s = s[2 := xor_rcons (s ! 2) 8 2]
     in bwd_tuple (s ! 2))"

section \<open>The tables\<close>

lemma upt16: "[0..<16] = [0,1,2,3,4,5,6,7,8,9,10,11,12,13,14,15]"
  by code_simp

lemma upt4: "[0..<4] = [0,1,2,3]"
  by code_simp

lemma upd_num: "(x # xs)[numeral k := y] = x # xs[pred_numeral k := y]"
  by (simp add: numeral_eq_Suc)

lemma len16:
  assumes "length (s::'a list) = 16"
  shows "s = [s!0,s!1,s!2,s!3,s!4,s!5,s!6,s!7,s!8,s!9,s!10,s!11,s!12,s!13,s!14,s!15]"
proof -
  have "s = map (\<lambda>i. s ! i) [0..<16]"
    using assms map_nth[of s] by simp
  then show ?thesis
    unfolding upt16 by simp
qed

lemma len16E:
  assumes "length (s::'a list) = 16"
  obtains a0 a1 a2 a3 a4 a5 a6 a7 a8 a9 a10 a11 a12 a13 a14 a15
  where "s = [a0,a1,a2,a3,a4,a5,a6,a7,a8,a9,a10,a11,a12,a13,a14,a15]"
  using len16[OF assms] by blast

lemma len4E:
  assumes "length (s::'a list) = 4"
  obtains l0 l1 l2 l3 where "s = [l0,l1,l2,l3]"
proof -
  have "s = map (\<lambda>i. s ! i) [0..<4]"
    using assms map_nth[of s] by simp
  then have "s = [s!0,s!1,s!2,s!3]"
    unfolding upt4 by simp
  then show ?thesis
    using that by blast
qed

lemma hkstate_okE:
  assumes "hkstate_ok s"
  obtains l0 l1 l2 l3 where "s = [l0,l1,l2,l3]"
    and "length l0 = 16" and "length l1 = 16" and "length l2 = 16" and "length l3 = 16"
proof -
  from assms have "length s = 4"
    by (simp add: hkstate_ok_def)
  then obtain l0 l1 l2 l3 where s: "s = [l0,l1,l2,l3]"
    by (rule len4E)
  with assms show ?thesis
    using that by (simp add: hkstate_ok_def)
qed

text \<open>A table is read at \<open>unat b\<close>; the lists compared below are read there too.\<close>

lemma all_bytes_eq: "all_bytes = map of_nat [0..<256]"
  unfolding all_bytes_def by code_simp

lemma unat_byte_less: "unat (b::uint8_t) < 256"
  using unsigned_less[of b, where 'a=nat] by simp

lemma nth_all_bytes: "all_bytes ! unat (b::uint8_t) = b"
  using unat_byte_less[of b] by (simp add: all_bytes_eq del: upt_Suc)

lemma length_all_bytes: "length all_bytes = 256"
  by (simp add: all_bytes_eq)

lemma length_tables:
  "length table2 = 256" "length table3 = 256" "length table7 = 256" "length table9 = 256"
  "length table11 = 256" "length table13 = 256" "length table14 = 256"
  by (simp_all add: table2_def table3_def table7_def table9_def table11_def table13_def
      table14_def)

lemma nth_map2:
  "n < length xs \<Longrightarrow> n < length ys \<Longrightarrow> map2 f xs ys ! n = f (xs ! n) (ys ! n)"
  by simp

lemma xtime_xor: "xtime (a XOR b) = xtime a XOR xtime b"
  by (simp add: xtime_def bit_xor_iff xor.assoc xor.left_commute)

text \<open>The tables as lists: \<open>table2\<close> lists \<open>xtime\<close>, and the others are sums of it and of
  its iterates, since 3 = 2 + 1, 4 = 13 + 9, 7 = 4 + 3, 8 = 9 + 1, 11 = 9 + 2 and
  14 = 13 + 3 in GF(2^8).\<close>

lemma table2_list: "table2 = map xtime all_bytes"
  unfolding table2_def all_bytes_def by (simp add: xtime_def)

lemma table3_list: "table3 = map2 (XOR) table2 all_bytes"
  unfolding table2_def table3_def all_bytes_def by simp

lemma table4_list: "map2 (XOR) table13 table9 = map xtime table2"
  unfolding table2_def table13_def table9_def by (simp add: xtime_def)

lemma table8_list: "map2 (XOR) table9 all_bytes = map xtime (map2 (XOR) table13 table9)"
  unfolding table13_def table9_def all_bytes_def by (simp add: xtime_def)

lemma table7_list: "table7 = map2 (XOR) (map2 (XOR) table13 table9) table3"
  unfolding table7_def table3_def table13_def table9_def by simp

lemma table11_list: "table11 = map2 (XOR) table9 table2"
  unfolding table11_def table9_def table2_def by simp

lemma table14_list: "table14 = map2 (XOR) table13 table3"
  unfolding table14_def table13_def table3_def by simp

lemma times2_xtime: "times2 b = xtime b"
  using unat_byte_less[of b]
  by (simp add: times2_def table2_list length_all_bytes nth_all_bytes)

lemma times3_xtime: "times3 b = xtime b XOR b"
proof -
  have "times3 b = times2 b XOR b"
    using unat_byte_less[of b]
    by (simp add: times3_def times2_def table3_list length_all_bytes length_tables
        nth_all_bytes)
  then show ?thesis
    by (simp add: times2_xtime)
qed

lemma times4_xtime: "times13 b XOR times9 b = xtime (xtime b)"
proof -
  have "map2 (XOR) table13 table9 ! unat b = map xtime table2 ! unat b"
    by (simp only: table4_list)
  then have "times13 b XOR times9 b = xtime (times2 b)"
    using unat_byte_less[of b]
    by (simp add: times13_def times9_def times2_def length_tables)
  then show ?thesis
    by (simp add: times2_xtime)
qed

lemma times8_xtime: "times9 b XOR b = xtime (xtime (xtime b))"
proof -
  have "map2 (XOR) table9 all_bytes ! unat b = map xtime (map2 (XOR) table13 table9) ! unat b"
    by (simp only: table8_list)
  then have "times9 b XOR b = xtime (times13 b XOR times9 b)"
    using unat_byte_less[of b]
    by (simp add: times13_def times9_def length_tables length_all_bytes nth_all_bytes)
  then show ?thesis
    by (simp add: times4_xtime)
qed

lemma xor_cancel_byte: "a XOR (a XOR b) = (b::uint8_t)"
  by (simp add: xor.assoc[symmetric])

lemma xor_swap: "a XOR b = c \<Longrightarrow> a = c XOR (b::uint8_t)"
  by (auto simp: xor.assoc)

lemma times9_xtime: "times9 b = xtime (xtime (xtime b)) XOR b"
  by (rule xor_swap) (rule times8_xtime)

lemma times13_xtime: "times13 b = xtime (xtime (xtime b)) XOR xtime (xtime b) XOR b"
  using xor_swap[OF times4_xtime[of b]]
  by (simp add: times9_xtime xor.assoc xor.commute xor.left_commute)

lemma times7_xtime: "times7 b = xtime (xtime b) XOR xtime b XOR b"
proof -
  have "times7 b = (times13 b XOR times9 b) XOR times3 b"
    using unat_byte_less[of b]
    by (simp add: times7_def times13_def times9_def times3_def table7_list length_tables)
  then show ?thesis
    by (simp add: times4_xtime times3_xtime xor.assoc)
qed

lemma times11_xtime: "times11 b = xtime (xtime (xtime b)) XOR xtime b XOR b"
proof -
  have "times11 b = times9 b XOR times2 b"
    using unat_byte_less[of b]
    by (simp add: times11_def times9_def times2_def table11_list length_tables)
  then show ?thesis
    by (simp add: times9_xtime times2_xtime xor.assoc xor.commute xor.left_commute)
qed

lemma times14_xtime: "times14 b = xtime (xtime (xtime b)) XOR xtime (xtime b) XOR xtime b"
proof -
  have "times14 b = times13 b XOR times3 b"
    using unat_byte_less[of b]
    by (simp add: times14_def times13_def times3_def table14_list length_tables)
  then show ?thesis
    by (simp add: times13_xtime times3_xtime xor.assoc xor.commute xor.left_commute xor_cancel_byte)
qed

text \<open>The two S-box tables are inverse to each other: one direction by reading the
  tables, the other because a byte has finitely many values.\<close>

lemma invsbox_sbox: "invsbox (sbox b) = b"
proof -
  have "map (\<lambda>n. invsbox_table ! unat (sbox_table ! n)) [0..<256] = map of_nat [0..<256]"
    unfolding sbox_table_def invsbox_table_def by code_simp
  then have "map (\<lambda>n. invsbox_table ! unat (sbox_table ! n)) [0..<256] ! unat b
      = map of_nat [0..<256] ! unat b"
    by (simp only:)
  then show ?thesis
    using unat_byte_less[of b] by (simp add: sbox_def invsbox_def del: upt_Suc)
qed

lemma sbox_invsbox: "sbox (invsbox b) = b"
proof -
  have "inj sbox"
    by (rule inj_on_inverseI[where g = invsbox]) (rule invsbox_sbox)
  then have "surj sbox"
    by (rule finite_UNIV_inj_surj[OF finite])
  then obtain a where "b = sbox a"
    by (auto simp: surj_def)
  then show ?thesis
    by (simp add: invsbox_sbox)
qed

lemmas gf_simps = times2_xtime times3_xtime times7_xtime times9_xtime times11_xtime
  times13_xtime times14_xtime xtime_xor xor.assoc xor.commute xor.left_commute xor_cancel_byte

section \<open>The diffusion layer and its inverse\<close>

lemma invmc_col0:
  "times14 (times2 a XOR times3 b XOR c XOR d) XOR times11 (a XOR times2 b XOR times3 c XOR d)
   XOR times13 (a XOR b XOR times2 c XOR times3 d) XOR times9 (times3 a XOR b XOR c XOR times2 d) = a"
  by (simp add: gf_simps)

lemma invmc_col1:
  "times9 (times2 a XOR times3 b XOR c XOR d) XOR times14 (a XOR times2 b XOR times3 c XOR d)
   XOR times11 (a XOR b XOR times2 c XOR times3 d) XOR times13 (times3 a XOR b XOR c XOR times2 d) = b"
  by (simp add: gf_simps)

lemma invmc_col2:
  "times13 (times2 a XOR times3 b XOR c XOR d) XOR times9 (a XOR times2 b XOR times3 c XOR d)
   XOR times14 (a XOR b XOR times2 c XOR times3 d) XOR times11 (times3 a XOR b XOR c XOR times2 d) = c"
  by (simp add: gf_simps)

lemma invmc_col3:
  "times11 (times2 a XOR times3 b XOR c XOR d) XOR times13 (a XOR times2 b XOR times3 c XOR d)
   XOR times9 (a XOR b XOR times2 c XOR times3 d) XOR times14 (times3 a XOR b XOR c XOR times2 d) = d"
  by (simp add: gf_simps)

lemmas invmc_col = invmc_col0 invmc_col1 invmc_col2 invmc_col3

text \<open>The functions of the source are run on explicit lists by rewriting, the value bound
  by a \<open>let\<close> and the state of a loop being computed before the body is entered.\<close>

lemma fold_weak_cong: "xs = ys \<Longrightarrow> a = b \<Longrightarrow> fold f xs a = fold f ys b"
  by simp

lemmas exec_simps = Let_def upt4 upt16 upd_num set_byte_def

lemma mixcolumns_explicit:
  "mixcolumns [a0,a1,a2,a3,a4,a5,a6,a7,a8,a9,a10,a11,a12,a13,a14,a15] =
   [times2 a0 XOR times3 a1 XOR a2 XOR a3,
    a0 XOR times2 a1 XOR times3 a2 XOR a3,
    a0 XOR a1 XOR times2 a2 XOR times3 a3,
    times3 a0 XOR a1 XOR a2 XOR times2 a3,
    times2 a4 XOR times3 a5 XOR a6 XOR a7,
    a4 XOR times2 a5 XOR times3 a6 XOR a7,
    a4 XOR a5 XOR times2 a6 XOR times3 a7,
    times3 a4 XOR a5 XOR a6 XOR times2 a7,
    times2 a8 XOR times3 a9 XOR a10 XOR a11,
    a8 XOR times2 a9 XOR times3 a10 XOR a11,
    a8 XOR a9 XOR times2 a10 XOR times3 a11,
    times3 a8 XOR a9 XOR a10 XOR times2 a11,
    times2 a12 XOR times3 a13 XOR a14 XOR a15,
    a12 XOR times2 a13 XOR times3 a14 XOR a15,
    a12 XOR a13 XOR times2 a14 XOR times3 a15,
    times3 a12 XOR a13 XOR a14 XOR times2 a15]"
  by (simp add: mixcolumns_def exec_simps fold_simps del: fold.simps cong: let_weak_cong fold_weak_cong)

lemma invmixcolumns_explicit:
  "invmixcolumns [a0,a1,a2,a3,a4,a5,a6,a7,a8,a9,a10,a11,a12,a13,a14,a15] =
   [times14 a0 XOR times11 a1 XOR times13 a2 XOR times9 a3,
    times9 a0 XOR times14 a1 XOR times11 a2 XOR times13 a3,
    times13 a0 XOR times9 a1 XOR times14 a2 XOR times11 a3,
    times11 a0 XOR times13 a1 XOR times9 a2 XOR times14 a3,
    times14 a4 XOR times11 a5 XOR times13 a6 XOR times9 a7,
    times9 a4 XOR times14 a5 XOR times11 a6 XOR times13 a7,
    times13 a4 XOR times9 a5 XOR times14 a6 XOR times11 a7,
    times11 a4 XOR times13 a5 XOR times9 a6 XOR times14 a7,
    times14 a8 XOR times11 a9 XOR times13 a10 XOR times9 a11,
    times9 a8 XOR times14 a9 XOR times11 a10 XOR times13 a11,
    times13 a8 XOR times9 a9 XOR times14 a10 XOR times11 a11,
    times11 a8 XOR times13 a9 XOR times9 a10 XOR times14 a11,
    times14 a12 XOR times11 a13 XOR times13 a14 XOR times9 a15,
    times9 a12 XOR times14 a13 XOR times11 a14 XOR times13 a15,
    times13 a12 XOR times9 a13 XOR times14 a14 XOR times11 a15,
    times11 a12 XOR times13 a13 XOR times9 a14 XOR times14 a15]"
  by (simp add: invmixcolumns_def exec_simps fold_simps del: fold.simps cong: let_weak_cong fold_weak_cong)

lemma invmixcolumns_mixcolumns_lane:
  assumes "length s = 16"
  shows "invmixcolumns (mixcolumns s) = s"
proof -
  from assms obtain a0 a1 a2 a3 a4 a5 a6 a7 a8 a9 a10 a11 a12 a13 a14 a15
    where s: "s = [a0,a1,a2,a3,a4,a5,a6,a7,a8,a9,a10,a11,a12,a13,a14,a15]"
    by (rule len16E)
  show ?thesis
    unfolding s mixcolumns_explicit invmixcolumns_explicit
    by (simp add: invmc_col)
qed

text \<open>Claim C6. For every AES state of 16 bytes, \<open>invmixcolumns\<close> (the tables of the
  multiplications by 9, 11, 13 and 14) after \<open>mixcolumns\<close> (the tables of the
  multiplications by 2 and 3) gives the state back.\<close>

theorem invmixcolumns_mixcolumns:
  "length s = 16 \<Longrightarrow> invmixcolumns (mixcolumns s) = s"
  by (rule invmixcolumns_mixcolumns_lane)

theorem invmixcolumns_mixcolumns_witness:
  "invmixcolumns (mixcolumns [1,2,3,4,5,6,7,8,9,10,11,12,13,14,15,16])
     = [1,2,3,4,5,6,7,8,9,10,11,12,13,14,15,16]"
  using invmixcolumns_mixcolumns[of "[1,2,3,4,5,6,7,8,9,10,11,12,13,14,15,16]"]
  by simp

section \<open>One round and its inverse\<close>

lemma sbsr_explicit:
  "sbsr [a0,a1,a2,a3,a4,a5,a6,a7,a8,a9,a10,a11,a12,a13,a14,a15] =
   [sbox a0, sbox a5, sbox a10, sbox a15, sbox a4, sbox a9, sbox a14, sbox a3,
    sbox a8, sbox a13, sbox a2, sbox a7, sbox a12, sbox a1, sbox a6, sbox a11]"
  by (simp add: sbsr_def exec_simps cong: let_weak_cong)

lemma invsbsr_explicit:
  "invsbsr [a0,a1,a2,a3,a4,a5,a6,a7,a8,a9,a10,a11,a12,a13,a14,a15] =
   [invsbox a0, invsbox a13, invsbox a10, invsbox a7, invsbox a4, invsbox a1, invsbox a14,
    invsbox a11, invsbox a8, invsbox a5, invsbox a2, invsbox a15, invsbox a12, invsbox a9,
    invsbox a6, invsbox a3]"
  by (simp add: invsbsr_def exec_simps cong: let_weak_cong)

lemma mcrc_explicit:
  "mcrc [a0,a1,a2,a3,a4,a5,a6,a7,a8,a9,a10,a11,a12,a13,a14,a15] r j =
   [times2 a0 XOR times3 a1 XOR a2 XOR a3 XOR haraka_rcons_table ! (4 * r + j) ! 0,
    a0 XOR times2 a1 XOR times3 a2 XOR a3 XOR haraka_rcons_table ! (4 * r + j) ! 1,
    a0 XOR a1 XOR times2 a2 XOR times3 a3 XOR haraka_rcons_table ! (4 * r + j) ! 2,
    times3 a0 XOR a1 XOR a2 XOR times2 a3 XOR haraka_rcons_table ! (4 * r + j) ! 3,
    times2 a4 XOR times3 a5 XOR a6 XOR a7 XOR haraka_rcons_table ! (4 * r + j) ! 4,
    a4 XOR times2 a5 XOR times3 a6 XOR a7 XOR haraka_rcons_table ! (4 * r + j) ! 5,
    a4 XOR a5 XOR times2 a6 XOR times3 a7 XOR haraka_rcons_table ! (4 * r + j) ! 6,
    times3 a4 XOR a5 XOR a6 XOR times2 a7 XOR haraka_rcons_table ! (4 * r + j) ! 7,
    times2 a8 XOR times3 a9 XOR a10 XOR a11 XOR haraka_rcons_table ! (4 * r + j) ! 8,
    a8 XOR times2 a9 XOR times3 a10 XOR a11 XOR haraka_rcons_table ! (4 * r + j) ! 9,
    a8 XOR a9 XOR times2 a10 XOR times3 a11 XOR haraka_rcons_table ! (4 * r + j) ! 10,
    times3 a8 XOR a9 XOR a10 XOR times2 a11 XOR haraka_rcons_table ! (4 * r + j) ! 11,
    times2 a12 XOR times3 a13 XOR a14 XOR a15 XOR haraka_rcons_table ! (4 * r + j) ! 12,
    a12 XOR times2 a13 XOR times3 a14 XOR a15 XOR haraka_rcons_table ! (4 * r + j) ! 13,
    a12 XOR a13 XOR times2 a14 XOR times3 a15 XOR haraka_rcons_table ! (4 * r + j) ! 14,
    times3 a12 XOR a13 XOR a14 XOR times2 a15 XOR haraka_rcons_table ! (4 * r + j) ! 15]"
  by (simp add: mcrc_def exec_simps fold_simps del: fold.simps cong: let_weak_cong fold_weak_cong)

lemma xor_rcons_explicit:
  "xor_rcons [a0,a1,a2,a3,a4,a5,a6,a7,a8,a9,a10,a11,a12,a13,a14,a15] r j =
   [a0 XOR haraka_rcons_table ! (4 * r + j) ! 0, a1 XOR haraka_rcons_table ! (4 * r + j) ! 1,
    a2 XOR haraka_rcons_table ! (4 * r + j) ! 2, a3 XOR haraka_rcons_table ! (4 * r + j) ! 3,
    a4 XOR haraka_rcons_table ! (4 * r + j) ! 4, a5 XOR haraka_rcons_table ! (4 * r + j) ! 5,
    a6 XOR haraka_rcons_table ! (4 * r + j) ! 6, a7 XOR haraka_rcons_table ! (4 * r + j) ! 7,
    a8 XOR haraka_rcons_table ! (4 * r + j) ! 8, a9 XOR haraka_rcons_table ! (4 * r + j) ! 9,
    a10 XOR haraka_rcons_table ! (4 * r + j) ! 10, a11 XOR haraka_rcons_table ! (4 * r + j) ! 11,
    a12 XOR haraka_rcons_table ! (4 * r + j) ! 12, a13 XOR haraka_rcons_table ! (4 * r + j) ! 13,
    a14 XOR haraka_rcons_table ! (4 * r + j) ! 14, a15 XOR haraka_rcons_table ! (4 * r + j) ! 15]"
  by (simp add: xor_rcons_def exec_simps fold_simps del: fold.simps cong: fold_weak_cong)

text \<open>With the round constant added and removed, the two diffusion steps are
  \<open>mixcolumns\<close> and \<open>invmixcolumns\<close>.\<close>

lemma mcrc_eq:
  assumes "length s = 16"
  shows "mcrc s r j = xor_rcons (mixcolumns s) r j"
proof -
  from assms obtain a0 a1 a2 a3 a4 a5 a6 a7 a8 a9 a10 a11 a12 a13 a14 a15
    where s: "s = [a0,a1,a2,a3,a4,a5,a6,a7,a8,a9,a10,a11,a12,a13,a14,a15]"
    by (rule len16E)
  show ?thesis
    unfolding s mcrc_explicit mixcolumns_explicit xor_rcons_explicit by (simp add: xor.assoc)
qed

lemma invmcrc_eq:
  assumes "length s = 16"
  shows "invmcrc s r j = invmixcolumns (xor_rcons s r j)"
proof -
  from assms obtain a0 a1 a2 a3 a4 a5 a6 a7 a8 a9 a10 a11 a12 a13 a14 a15
    where s: "s = [a0,a1,a2,a3,a4,a5,a6,a7,a8,a9,a10,a11,a12,a13,a14,a15]"
    by (rule len16E)
  show ?thesis
    unfolding s xor_rcons_explicit invmixcolumns_explicit
    by (simp add: invmcrc_def exec_simps fold_simps del: fold.simps cong: let_weak_cong fold_weak_cong)
qed

lemma length_sbsr: "length s = 16 \<Longrightarrow> length (sbsr s) = 16"
  by (simp add: sbsr_def Let_def)

lemma length_invsbsr: "length s = 16 \<Longrightarrow> length (invsbsr s) = 16"
  by (simp add: invsbsr_def Let_def)

lemma length_mixcolumns: "length s = 16 \<Longrightarrow> length (mixcolumns s) = 16"
  by (erule len16E) (simp add: mixcolumns_explicit)

lemma length_invmixcolumns: "length s = 16 \<Longrightarrow> length (invmixcolumns s) = 16"
  by (erule len16E) (simp add: invmixcolumns_explicit)

lemma length_xor_rcons: "length s = 16 \<Longrightarrow> length (xor_rcons s r j) = 16"
  by (erule len16E) (simp add: xor_rcons_explicit)

lemma length_aesenc: "length s = 16 \<Longrightarrow> length (aesenc s r j) = 16"
  by (simp add: aesenc_def mcrc_eq length_sbsr length_mixcolumns length_xor_rcons)

lemma length_invaesenc: "length s = 16 \<Longrightarrow> length (invaesenc s r j) = 16"
  by (simp add: invaesenc_def invmcrc_eq length_invsbsr length_invmixcolumns length_xor_rcons)

lemma xor_rcons_twice:
  assumes "length s = 16"
  shows "xor_rcons (xor_rcons s r j) r j = s"
proof -
  from assms obtain a0 a1 a2 a3 a4 a5 a6 a7 a8 a9 a10 a11 a12 a13 a14 a15
    where s: "s = [a0,a1,a2,a3,a4,a5,a6,a7,a8,a9,a10,a11,a12,a13,a14,a15]"
    by (rule len16E)
  show ?thesis
    unfolding s xor_rcons_explicit by (simp add: xor.assoc)
qed

lemma invsbsr_sbsr:
  assumes "length s = 16"
  shows "invsbsr (sbsr s) = s"
proof -
  from assms obtain a0 a1 a2 a3 a4 a5 a6 a7 a8 a9 a10 a11 a12 a13 a14 a15
    where s: "s = [a0,a1,a2,a3,a4,a5,a6,a7,a8,a9,a10,a11,a12,a13,a14,a15]"
    by (rule len16E)
  show ?thesis
    unfolding s sbsr_explicit invsbsr_explicit by (simp add: invsbox_sbox)
qed

lemma invaesenc_aesenc:
  assumes "length s = 16"
  shows "invaesenc (aesenc s r j) r j = s"
proof -
  have l: "length (sbsr s) = 16"
    using assms by (rule length_sbsr)
  have "invaesenc (aesenc s r j) r j
      = invsbsr (invmixcolumns (xor_rcons (xor_rcons (mixcolumns (sbsr s)) r j) r j))"
    by (simp add: aesenc_def invaesenc_def mcrc_eq[OF l] invmcrc_eq length_xor_rcons
        length_mixcolumns l)
  also have "\<dots> = invsbsr (invmixcolumns (mixcolumns (sbsr s)))"
    by (simp add: xor_rcons_twice length_mixcolumns l)
  also have "\<dots> = s"
    by (simp add: invmixcolumns_mixcolumns_lane l invsbsr_sbsr assms)
  finally show ?thesis .
qed

section \<open>MIX and its inverse\<close>

lemma mix512_explicit:
  "mix512 [[a0,a1,a2,a3,a4,a5,a6,a7,a8,a9,a10,a11,a12,a13,a14,a15],
           [b0,b1,b2,b3,b4,b5,b6,b7,b8,b9,b10,b11,b12,b13,b14,b15],
           [c0,c1,c2,c3,c4,c5,c6,c7,c8,c9,c10,c11,c12,c13,c14,c15],
           [d0,d1,d2,d3,d4,d5,d6,d7,d8,d9,d10,d11,d12,d13,d14,d15]] =
   [[a12,a13,a14,a15, c12,c13,c14,c15, b12,b13,b14,b15, d12,d13,d14,d15],
    [c0,c1,c2,c3, a0,a1,a2,a3, d0,d1,d2,d3, b0,b1,b2,b3],
    [c4,c5,c6,c7, a4,a5,a6,a7, d4,d5,d6,d7, b4,b5,b6,b7],
    [a8,a9,a10,a11, c8,c9,c10,c11, b8,b9,b10,b11, d8,d9,d10,d11]]"
  by (simp add: mix512_def exec_simps fold_simps del: fold.simps cong: let_weak_cong fold_weak_cong)

lemma invmix512_explicit:
  "invmix512 [[a0,a1,a2,a3,a4,a5,a6,a7,a8,a9,a10,a11,a12,a13,a14,a15],
           [b0,b1,b2,b3,b4,b5,b6,b7,b8,b9,b10,b11,b12,b13,b14,b15],
           [c0,c1,c2,c3,c4,c5,c6,c7,c8,c9,c10,c11,c12,c13,c14,c15],
           [d0,d1,d2,d3,d4,d5,d6,d7,d8,d9,d10,d11,d12,d13,d14,d15]] =
   [[b4,b5,b6,b7, c4,c5,c6,c7, d0,d1,d2,d3, a0,a1,a2,a3],
    [b12,b13,b14,b15, c12,c13,c14,c15, d8,d9,d10,d11, a8,a9,a10,a11],
    [b0,b1,b2,b3, c0,c1,c2,c3, d4,d5,d6,d7, a4,a5,a6,a7],
    [b8,b9,b10,b11, c8,c9,c10,c11, d12,d13,d14,d15, a12,a13,a14,a15]]"
  by (simp add: invmix512_def exec_simps fold_simps del: fold.simps cong: let_weak_cong fold_weak_cong)


lemma length_mix512: "hkstate_ok s \<Longrightarrow> hkstate_ok (mix512 s)"
  by (erule hkstate_okE, (erule len16E)+) (simp add: mix512_explicit hkstate_ok_def)

lemma length_invmix512: "hkstate_ok s \<Longrightarrow> hkstate_ok (invmix512 s)"
  by (erule hkstate_okE, (erule len16E)+) (simp add: invmix512_explicit hkstate_ok_def)

lemma invmix512_mix512_lemma:
  assumes "hkstate_ok s"
  shows "invmix512 (mix512 s) = s"
  using assms
  by (elim hkstate_okE len16E) (simp add: mix512_explicit invmix512_explicit)

lemma mix512_invmix512_lemma:
  assumes "hkstate_ok s"
  shows "mix512 (invmix512 s) = s"
  using assms
  by (elim hkstate_okE len16E) (simp add: mix512_explicit invmix512_explicit)

text \<open>Claim C5. For every AES state of 16 bytes, every round \<open>r\<close> from 0 to 9 and every
  position \<open>j\<close> from 0 to 3, \<open>invaesenc\<close> after \<open>aesenc\<close> with the same \<open>r\<close> and \<open>j\<close>
  gives the state back; and for every Haraka state of 4 AES states, \<open>invmix512\<close> after
  \<open>mix512\<close> gives the state back.\<close>

theorem round_and_mix_invertible:
  "(length b = 16 \<and> r < 10 \<and> j < 4 \<longrightarrow> invaesenc (aesenc b r j) r j = b)
   \<and> (hkstate_ok s \<longrightarrow> invmix512 (mix512 s) = s)"
  by (simp add: invaesenc_aesenc invmix512_mix512_lemma)

theorem round_and_mix_invertible_witness:
  "invaesenc (aesenc [0,1,2,3,4,5,6,7,8,9,10,11,12,13,14,15] 9 3) 9 3
     = [0,1,2,3,4,5,6,7,8,9,10,11,12,13,14,15]
   \<and> invmix512 (mix512 [[0,1,2,3,4,5,6,7,8,9,10,11,12,13,14,15],
        [16,17,18,19,20,21,22,23,24,25,26,27,28,29,30,31],
        [32,33,34,35,36,37,38,39,40,41,42,43,44,45,46,47],
        [48,49,50,51,52,53,54,55,56,57,58,59,60,61,62,63]])
     = [[0,1,2,3,4,5,6,7,8,9,10,11,12,13,14,15],
        [16,17,18,19,20,21,22,23,24,25,26,27,28,29,30,31],
        [32,33,34,35,36,37,38,39,40,41,42,43,44,45,46,47],
        [48,49,50,51,52,53,54,55,56,57,58,59,60,61,62,63]]"
  using round_and_mix_invertible[of "[0,1,2,3,4,5,6,7,8,9,10,11,12,13,14,15]" 9 3
    "[[0,1,2,3,4,5,6,7,8,9,10,11,12,13,14,15],
        [16,17,18,19,20,21,22,23,24,25,26,27,28,29,30,31],
        [32,33,34,35,36,37,38,39,40,41,42,43,44,45,46,47],
        [48,49,50,51,52,53,54,55,56,57,58,59,60,61,62,63]]"]
  by (simp add: hkstate_ok_def)

section \<open>The two conditions on a candidate\<close>

text \<open>Claim C9. \<open>printcond\<close> holds exactly when the 6 bytes 4, 7, 8, 9, 13 and 14 of
  the AES state \<open>pix0[2]\<close> are zero, \<open>fullcond\<close> holds exactly when the 8 bytes 2, 3, 4, 7,
  8, 9, 13 and 14 of it are zero, and \<open>fullcond\<close> implies \<open>printcond\<close>.\<close>

theorem fullcond_implies_printcond:
  "(printcond pix0 \<longleftrightarrow> (\<forall>k \<in> {4, 7, 8, 9, 13, 14}. pix0 ! 2 ! k = 0))
   \<and> card {4, 7, 8, 9, 13, 14 :: nat} = 6
   \<and> (fullcond pix0 \<longleftrightarrow> (\<forall>k \<in> {2, 3, 4, 7, 8, 9, 13, 14}. pix0 ! 2 ! k = 0))
   \<and> card {2, 3, 4, 7, 8, 9, 13, 14 :: nat} = 8
   \<and> (fullcond pix0 \<longrightarrow> printcond pix0)"
  by (auto simp: printcond_def fullcond_def)

theorem fullcond_implies_printcond_witness:
  "fullcond [[], [], [1, 2, 0, 0, 0, 5, 6, 0, 0, 0, 10, 11, 12, 0, 0, 15], []]
   \<and> printcond [[], [], [1, 2, 0, 0, 0, 5, 6, 0, 0, 0, 10, 11, 12, 0, 0, 15], []]"
proof -
  have f: "fullcond [[], [], [1, 2, 0, 0, 0, 5, 6, 0, 0, 0, 10, 11, 12, 0, 0, 15], []]"
    by (simp add: fullcond_def)
  with fullcond_implies_printcond
    [of "[[], [], [1, 2, 0, 0, 0, 5, 6, 0, 0, 0, 10, 11, 12, 0, 0, 15], []]"]
  show ?thesis
    by blast
qed

section \<open>The indices each thread processes\<close>









text \<open>The four bytes determine an index below \<open>2^32\<close>.\<close>

lemma byte_of_index:
  "unat (of_nat (drop_bit k i AND 0xFF) :: uint8_t) = take_bit 8 (drop_bit k i)"
proof -
  have "drop_bit k i AND 0xFF = take_bit 8 (drop_bit k i)"
    using take_bit_eq_mask[of 8 "drop_bit k i"] by (simp add: mask_eq_exp_minus_1)
  then show ?thesis
    by (simp add: unsigned_of_nat take_bit_nat_eq_self)
qed

lemma dof_of_index_inj:
  assumes "dof_of_index i = dof_of_index j" and "i < 2 ^ 32" and "j < 2 ^ 32"
  shows "i = j"
proof (rule bit_eqI)
  fix n
  have b0: "take_bit 8 (drop_bit 0 i) = take_bit 8 (drop_bit 0 j)"
    and b1: "take_bit 8 (drop_bit 8 i) = take_bit 8 (drop_bit 8 j)"
    and b2: "take_bit 8 (drop_bit 16 i) = take_bit 8 (drop_bit 16 j)"
    and b3: "take_bit 8 (drop_bit 24 i) = take_bit 8 (drop_bit 24 j)"
    using assms(1) byte_of_index[of 0 i] byte_of_index[of 0 j]
      byte_of_index[of 8 i] byte_of_index[of 8 j]
      byte_of_index[of 16 i] byte_of_index[of 16 j]
      byte_of_index[of 24 i] byte_of_index[of 24 j]
    by (simp_all add: dof_of_index_def)
  have hi: "32 \<le> n \<Longrightarrow> \<not> bit i n \<and> \<not> bit j n"
  proof -
    assume "32 \<le> n"
    then have "(2::nat) ^ 32 \<le> 2 ^ n"
      by (rule power_increasing) simp
    with assms(2,3) have "i < 2 ^ n" "j < 2 ^ n"
      by simp_all
    then show ?thesis
      by (simp add: bit_iff_odd)
  qed
  have lo: "bit i (k + m) = bit j (k + m)"
    if "take_bit 8 (drop_bit k i) = take_bit 8 (drop_bit k j)" and "m < 8" for k m
  proof -
    have "bit (take_bit 8 (drop_bit k i)) m = bit (take_bit 8 (drop_bit k j)) m"
      using that(1) by simp
    then show ?thesis
      using that(2) by (simp add: bit_take_bit_iff bit_drop_bit_eq)
  qed
  consider "n < 8" | "8 \<le> n" "n < 16" | "16 \<le> n" "n < 24" | "24 \<le> n" "n < 32" | "32 \<le> n"
    by linarith
  then show "bit i n = bit j n"
  proof cases
    case 1
    then show ?thesis using lo[OF b0, of n] by simp
  next
    case 2
    then show ?thesis using lo[OF b1, of "n - 8"] by simp
  next
    case 3
    then show ?thesis using lo[OF b2, of "n - 16"] by simp
  next
    case 4
    then show ?thesis using lo[OF b3, of "n - 24"] by simp
  next
    case 5
    then show ?thesis using hi by simp
  qed
qed













section \<open>Registers and byte arrays\<close>

lemma bit_word_rcat:
  fixes ws :: "'a::len word list"
  shows "bit (word_rcat ws :: 'b::len word) n \<longleftrightarrow>
    n < LENGTH('b) \<and> n div LENGTH('a) < length ws
      \<and> bit (rev ws ! (n div LENGTH('a))) (n mod LENGTH('a))"
  by (simp add: word_rcat_def bit_word_of_int_iff bit_horner_sum_uint_exp_iff)

lemma byte_of_state_to_value:
  assumes "length s = 16" and "k < 16"
  shows "ucast (drop_bit (8 * k) (state_to_value s)) = (s ! k :: uint8_t)"
proof (rule bit_eqI)
  fix n
  assume "possible_bit TYPE(uint8_t) n"
  then have n: "n < 8"
    by (simp add: possible_bit_word)
  then have "(8 * k + n) div 8 = k" "(8 * k + n) mod 8 = n" "8 * k + n < 128"
    using assms(2) by simp_all
  with n assms show "bit (ucast (drop_bit (8 * k) (state_to_value s)) :: uint8_t) n = bit (s ! k) n"
    by (simp add: state_to_value_def bit_ucast_iff bit_drop_bit_eq bit_word_rcat)
qed

lemma length_value_to_state: "length (value_to_state v) = 16"
  by (simp add: value_to_state_def)

lemma value_to_state_state_to_value:
  assumes "length s = 16"
  shows "value_to_state (state_to_value s) = s"
proof (rule nth_equalityI)
  show "length (value_to_state (state_to_value s)) = length s"
    using assms by (simp add: length_value_to_state)
next
  fix k
  assume "k < length (value_to_state (state_to_value s))"
  then have k: "k < 16"
    by (simp add: length_value_to_state)
  then show "value_to_state (state_to_value s) ! k = s ! k"
    using byte_of_state_to_value[OF assms k] by (simp add: value_to_state_def del: upt_Suc)
qed

lemma state_to_value_value_to_state: "state_to_value (value_to_state v) = v"
proof (rule bit_eqI)
  fix n
  assume "possible_bit TYPE(m128i) n"
  then have n: "n < 128"
    by (simp add: possible_bit_word)
  then have d: "n div 8 < 16"
    by simp
  have "8 * (n div 8) + n mod 8 = n"
    by simp
  with n d show "bit (state_to_value (value_to_state v)) n = bit v n"
    by (simp add: state_to_value_def value_to_state_def bit_word_rcat bit_ucast_iff
        bit_drop_bit_eq div_less_iff_less_mult del: upt_Suc)
qed

lemma value_to_state_xor:
  "value_to_state (a XOR b) = map2 (XOR) (value_to_state a) (value_to_state b)"
  by (simp add: value_to_state_def upt16 unsigned_xor_eq)

text \<open>The bytes of a register made of four 32-bit lanes.\<close>

lemma byte_of_lanes:
  assumes "k < 16"
  shows "ucast (drop_bit (8 * k) (mm_set_epi32 e3 e2 e1 e0))
      = (ucast (drop_bit (8 * (k mod 4)) ([e0, e1, e2, e3] ! (k div 4))) :: uint8_t)"
proof (rule bit_eqI)
  fix n
  assume "possible_bit TYPE(uint8_t) n"
  then have n: "n < 8"
    by (simp add: possible_bit_word)
  have r: "k mod 4 < 4"
    by simp
  have m: "8 * (k mod 4) + n < 32"
    using n r by linarith
  have "k = 4 * (k div 4) + k mod 4"
    by simp
  then have e: "8 * k + n = 32 * (k div 4) + (8 * (k mod 4) + n)"
    by linarith
  have b: "8 * k + n < 128" "k div 4 < 4"
    using n assms by simp_all
  have a: "(8 * k + n) div 32 = k div 4" "(8 * k + n) mod 32 = 8 * (k mod 4) + n"
    using m by (simp_all add: e)
  show "bit (ucast (drop_bit (8 * k) (mm_set_epi32 e3 e2 e1 e0)) :: uint8_t) n
      = bit (ucast (drop_bit (8 * (k mod 4)) ([e0, e1, e2, e3] ! (k div 4))) :: uint8_t) n"
    using n a b
    by (simp add: mm_set_epi32_def bit_ucast_iff bit_drop_bit_eq bit_word_rcat)
qed

lemma value_to_state_mm_set_epi32:
  "value_to_state (mm_set_epi32 e3 e2 e1 e0) =
    [ucast e0, ucast (drop_bit 8 e0), ucast (drop_bit 16 e0), ucast (drop_bit 24 e0),
     ucast e1, ucast (drop_bit 8 e1), ucast (drop_bit 16 e1), ucast (drop_bit 24 e1),
     ucast e2, ucast (drop_bit 8 e2), ucast (drop_bit 16 e2), ucast (drop_bit 24 e2),
     ucast e3, ucast (drop_bit 8 e3), ucast (drop_bit 16 e3), ucast (drop_bit 24 e3)]"
  using byte_of_lanes[of 0 e3 e2 e1 e0] byte_of_lanes[of 1 e3 e2 e1 e0]
    byte_of_lanes[of 2 e3 e2 e1 e0] byte_of_lanes[of 3 e3 e2 e1 e0]
    byte_of_lanes[of 4 e3 e2 e1 e0] byte_of_lanes[of 5 e3 e2 e1 e0]
    byte_of_lanes[of 6 e3 e2 e1 e0] byte_of_lanes[of 7 e3 e2 e1 e0]
    byte_of_lanes[of 8 e3 e2 e1 e0] byte_of_lanes[of 9 e3 e2 e1 e0]
    byte_of_lanes[of 10 e3 e2 e1 e0] byte_of_lanes[of 11 e3 e2 e1 e0]
    byte_of_lanes[of 12 e3 e2 e1 e0] byte_of_lanes[of 13 e3 e2 e1 e0]
    byte_of_lanes[of 14 e3 e2 e1 e0] byte_of_lanes[of 15 e3 e2 e1 e0]
  by (simp add: value_to_state_def upt16)

text \<open>The round constants of \<open>main\<close>, read as byte arrays, are the table of round
  constants of the byte-oriented code.\<close>

lemma main_rc_bytes: "map value_to_state main_rc = haraka_rcons_table"
  unfolding main_rc_def haraka_rcons_table_def
  by (simp add: value_to_state_mm_set_epi32)

lemma length_main_rc: "length main_rc = 40"
  by (simp add: main_rc_def)

lemma length_haraka_rcons_table: "length haraka_rcons_table = 40"
  by (simp add: haraka_rcons_table_def)

text \<open>Claim C8. For every entry \<open>k\<close> from 0 to 39 and every byte position \<open>b\<close> from 0 to
  15, byte \<open>b\<close> of the register \<open>rc[k]\<close> built in \<open>main\<close> is \<open>haraka_rcons_table[k][b]\<close>.\<close>

theorem round_constants_agree:
  "k < 40 \<Longrightarrow> b < 16 \<Longrightarrow> value_to_state (main_rc ! k) ! b = haraka_rcons_table ! k ! b"
proof -
  assume "k < 40"
  then have "map value_to_state main_rc ! k = value_to_state (main_rc ! k)"
    by (simp add: length_main_rc)
  then show ?thesis
    by (simp add: main_rc_bytes)
qed

theorem round_constants_agree_witness:
  "value_to_state (main_rc ! 39) ! 15 = haraka_rcons_table ! 39 ! 15"
  using round_constants_agree[of 39 15] by simp

section \<open>Known bytes\<close>

lemma less_16_cases:
  "k < 16 \<longleftrightarrow> k = 0 \<or> k = 1 \<or> k = 2 \<or> k = 3 \<or> k = 4 \<or> k = 5 \<or> k = 6 \<or> k = 7 \<or> k = 8
     \<or> k = 9 \<or> k = 10 \<or> k = 11 \<or> k = 12 \<or> k = 13 \<or> k = 14 \<or> k = (15::nat)"
  by arith

lemma less_4_cases: "j < 4 \<longleftrightarrow> j = 0 \<or> j = 1 \<or> j = 2 \<or> j = (3::nat)"
  by arith

lemma all_less_16:
  "(\<forall>k<16. P k) \<longleftrightarrow> P 0 \<and> P 1 \<and> P 2 \<and> P 3 \<and> P 4 \<and> P 5 \<and> P 6 \<and> P 7 \<and> P 8 \<and> P 9
     \<and> P 10 \<and> P 11 \<and> P 12 \<and> P 13 \<and> P 14 \<and> P (15::nat)"
  unfolding less_16_cases by blast

lemma all_less_4: "(\<forall>j<4. P j) \<longleftrightarrow> P 0 \<and> P 1 \<and> P 2 \<and> P (3::nat)"
  unfolding less_4_cases by blast

lemma hkstate_ok_lane: "hkstate_ok s \<Longrightarrow> j < 4 \<Longrightarrow> length (s ! j) = 16"
  by (simp add: hkstate_ok_def list_all_length)

lemma hkstate_ok_update:
  "hkstate_ok s \<Longrightarrow> length l = 16 \<Longrightarrow> hkstate_ok (s[j := l])"
  by (cases "j < length s") (auto simp: hkstate_ok_def list_all_length nth_list_update)

lemma eqon_refl_none: "hkstate_ok s \<Longrightarrow> hkstate_ok s' \<Longrightarrow> eqon D_none s s'"
  by (simp add: eqon_def D_none_def)

lemma eqon_read: "eqon D s s' \<Longrightarrow> j < 4 \<Longrightarrow> k < 16 \<Longrightarrow> D ! j ! k \<Longrightarrow> s ! j ! k = s' ! j ! k"
  by (simp add: eqon_def)

lemma eqon_ok: "eqon D s s' \<Longrightarrow> hkstate_ok s \<and> hkstate_ok s'"
  by (simp add: eqon_def)

lemma eqon_set_byte:
  assumes "eqon D s s'" and "j < 4" and "k < 16"
  shows "eqon (D_set D j k) (set_byte s j k v) (set_byte s' j k v)"
proof -
  from assms(1) have ok: "hkstate_ok s" "hkstate_ok s'" and len: "length D = 4"
    and eq: "\<And>j k. j < 4 \<Longrightarrow> k < 16 \<Longrightarrow> D ! j ! k \<Longrightarrow> s ! j ! k = s' ! j ! k"
    by (simp_all add: eqon_def)
  have l: "length (s ! j) = 16" "length (s' ! j) = 16" "length s = 4" "length s' = 4"
    using ok assms(2) by (simp_all add: hkstate_ok_lane) (simp_all add: hkstate_ok_def)
  have "hkstate_ok (set_byte s j k v)" "hkstate_ok (set_byte s' j k v)"
    using ok l by (simp_all add: set_byte_def hkstate_ok_update)
  moreover have "length (D_set D j k) = 4"
    using len by (simp add: D_set_def)
  moreover have "set_byte s j k v ! a ! b = set_byte s' j k v ! a ! b"
    if "a < 4" "b < 16" "D_set D j k ! a ! b" for a b
  proof (cases "a = j")
    case True
    show ?thesis
    proof (cases "b = k")
      case True
      with \<open>a = j\<close> l assms(2,3) show ?thesis
        by (simp add: set_byte_def)
    next
      case False
      with \<open>a = j\<close> that len assms(2) have "D ! j ! b"
        by (simp add: D_set_def nth_list_update split: if_splits)
      with eq[of j b] that \<open>a = j\<close> False l assms(2) show ?thesis
        by (simp add: set_byte_def)
    qed
  next
    case False
    with that len have "D ! a ! b"
      by (simp add: D_set_def)
    with eq[of a b] that False l show ?thesis
      by (simp add: set_byte_def)
  qed
  ultimately show ?thesis
    by (simp add: eqon_def)
qed

lemma eqon_lane:
  assumes "eqon D s s'" and "j < 4" and "lane_dep g deps"
  shows "eqon (D_lane D j deps) (s[j := g (s ! j)]) (s'[j := g (s' ! j)])"
proof -
  from assms(1) have ok: "hkstate_ok s" "hkstate_ok s'" and len: "length D = 4"
    and eq: "\<And>j k. j < 4 \<Longrightarrow> k < 16 \<Longrightarrow> D ! j ! k \<Longrightarrow> s ! j ! k = s' ! j ! k"
    by (simp_all add: eqon_def)
  have l: "length (s ! j) = 16" "length (s' ! j) = 16" "length s = 4" "length s' = 4"
    using ok assms(2) by (simp_all add: hkstate_ok_lane) (simp_all add: hkstate_ok_def)
  from assms(3) l have gl: "length (g (s ! j)) = 16" "length (g (s' ! j)) = 16"
    and dep: "\<And>k. k < 16 \<Longrightarrow> (\<forall>p\<in>set (deps k). p < 16 \<longrightarrow> s ! j ! p = s' ! j ! p)
      \<Longrightarrow> g (s ! j) ! k = g (s' ! j) ! k"
    unfolding lane_dep_def by blast+
  have "hkstate_ok (s[j := g (s ! j)])" "hkstate_ok (s'[j := g (s' ! j)])"
    using ok gl by (simp_all add: hkstate_ok_update)
  moreover have "length (D_lane D j deps) = 4"
    using len by (simp add: D_lane_def)
  moreover have "s[j := g (s ! j)] ! a ! b = s'[j := g (s' ! j)] ! a ! b"
    if "a < 4" "b < 16" "D_lane D j deps ! a ! b" for a b
  proof (cases "a = j")
    case True
    with that len assms(2) have "list_all (\<lambda>p. p < 16 \<and> D ! j ! p) (deps b)"
      by (simp add: D_lane_def del: upt_Suc)
    then have "\<forall>p\<in>set (deps b). p < 16 \<longrightarrow> s ! j ! p = s' ! j ! p"
      using eq[of j] assms(2) by (auto simp: list_all_iff)
    with dep[OF that(2)] True l assms(2) show ?thesis
      by simp
  next
    case False
    with that len have "D ! a ! b"
      by (simp add: D_lane_def)
    with eq[of a b] that False show ?thesis
      by simp
  qed
  ultimately show ?thesis
    by (simp add: eqon_def)
qed

lemma eqon_perm:
  assumes "eqon D s s'" and "perm_dep op src"
  shows "eqon (D_perm D src) (op s) (op s')"
proof -
  from assms(1) have ok: "hkstate_ok s" "hkstate_ok s'" and len: "length D = 4"
    and eq: "\<And>j k. j < 4 \<Longrightarrow> k < 16 \<Longrightarrow> D ! j ! k \<Longrightarrow> s ! j ! k = s' ! j ! k"
    by (simp_all add: eqon_def)
  from assms(2) ok have ok': "hkstate_ok (op s)" "hkstate_ok (op s')"
    and src: "\<And>j k. j < 4 \<Longrightarrow> k < 16 \<Longrightarrow> fst (src j k) < 4 \<and> snd (src j k) < 16
        \<and> op s ! j ! k = s ! fst (src j k) ! snd (src j k)
        \<and> op s' ! j ! k = s' ! fst (src j k) ! snd (src j k)"
    unfolding perm_dep_def by blast+
  have "op s ! a ! b = op s' ! a ! b" if "a < 4" "b < 16" "D_perm D src ! a ! b" for a b
  proof -
    from that have "D ! fst (src a b) ! snd (src a b)"
      by (simp add: D_perm_def del: upt_Suc)
    with src[OF that(1,2)] eq[of "fst (src a b)" "snd (src a b)"] show ?thesis
      by simp
  qed
  moreover have "length (D_perm D src) = 4"
    by (simp add: D_perm_def)
  ultimately show ?thesis
    using ok' by (simp add: eqon_def)
qed

lemma eqon_skip:
  assumes "eqon D s s'" and "j < 4" and "length l = 16"
  shows "eqon (D_clear D j) s (s'[j := l])"
  using assms
  by (auto simp: eqon_def D_clear_def hkstate_ok_update nth_list_update)

text \<open>The operations of the source and the bytes they read.\<close>

lemma aesenc_explicit:
  "aesenc [a0,a1,a2,a3,a4,a5,a6,a7,a8,a9,a10,a11,a12,a13,a14,a15] r j =
     mcrc [sbox a0, sbox a5, sbox a10, sbox a15, sbox a4, sbox a9, sbox a14, sbox a3,
       sbox a8, sbox a13, sbox a2, sbox a7, sbox a12, sbox a1, sbox a6, sbox a11] r j"
  by (simp add: aesenc_def sbsr_explicit)

lemma lane_dep_aesenc: "lane_dep (\<lambda>l. aesenc l r j) aes_deps"
  unfolding lane_dep_def
proof (intro allI impI)
  fix l l' :: state_t
  assume "length l = 16" "length l' = 16"
  then obtain a0 a1 a2 a3 a4 a5 a6 a7 a8 a9 a10 a11 a12 a13 a14 a15
    b0 b1 b2 b3 b4 b5 b6 b7 b8 b9 b10 b11 b12 b13 b14 b15
    where l: "l = [a0,a1,a2,a3,a4,a5,a6,a7,a8,a9,a10,a11,a12,a13,a14,a15]"
      and l': "l' = [b0,b1,b2,b3,b4,b5,b6,b7,b8,b9,b10,b11,b12,b13,b14,b15]"
    by (elim len16E)
  show "length (aesenc l r j) = 16 \<and>
    (\<forall>k<16. (\<forall>p\<in>set (aes_deps k). p < 16 \<longrightarrow> l ! p = l' ! p) \<longrightarrow> aesenc l r j ! k = aesenc l' r j ! k)"
    unfolding l l' aesenc_explicit mcrc_explicit all_less_16
    by (simp add: aes_deps_def)
qed

lemma invaesenc_explicit:
  "invaesenc [a0,a1,a2,a3,a4,a5,a6,a7,a8,a9,a10,a11,a12,a13,a14,a15] r j =
     invsbsr (invmixcolumns (xor_rcons [a0,a1,a2,a3,a4,a5,a6,a7,a8,a9,a10,a11,a12,a13,a14,a15] r j))"
  by (simp add: invaesenc_def invmcrc_eq)

lemma lane_dep_invaesenc: "lane_dep (\<lambda>l. invaesenc l r j) invaes_deps"
  unfolding lane_dep_def
proof (intro allI impI)
  fix l l' :: state_t
  assume "length l = 16" "length l' = 16"
  then obtain a0 a1 a2 a3 a4 a5 a6 a7 a8 a9 a10 a11 a12 a13 a14 a15
    b0 b1 b2 b3 b4 b5 b6 b7 b8 b9 b10 b11 b12 b13 b14 b15
    where l: "l = [a0,a1,a2,a3,a4,a5,a6,a7,a8,a9,a10,a11,a12,a13,a14,a15]"
      and l': "l' = [b0,b1,b2,b3,b4,b5,b6,b7,b8,b9,b10,b11,b12,b13,b14,b15]"
    by (elim len16E)
  show "length (invaesenc l r j) = 16 \<and>
    (\<forall>k<16. (\<forall>p\<in>set (invaes_deps k). p < 16 \<longrightarrow> l ! p = l' ! p)
       \<longrightarrow> invaesenc l r j ! k = invaesenc l' r j ! k)"
    unfolding l l' invaesenc_explicit xor_rcons_explicit invmixcolumns_explicit invsbsr_explicit
      all_less_16
    by (simp add: invaes_deps_def)
qed

lemma subbytes_explicit:
  "subbytes [a0,a1,a2,a3,a4,a5,a6,a7,a8,a9,a10,a11,a12,a13,a14,a15] =
     [sbox a0, sbox a1, sbox a2, sbox a3, sbox a4, sbox a5, sbox a6, sbox a7,
      sbox a8, sbox a9, sbox a10, sbox a11, sbox a12, sbox a13, sbox a14, sbox a15]"
  by (simp add: subbytes_def exec_simps fold_simps del: fold.simps cong: fold_weak_cong)

lemma shiftrows_explicit:
  "shiftrows [a0,a1,a2,a3,a4,a5,a6,a7,a8,a9,a10,a11,a12,a13,a14,a15] =
   [a0, a5, a10, a15, a4, a9, a14, a3, a8, a13, a2, a7, a12, a1, a6, a11]"
  by (simp add: shiftrows_def exec_simps cong: let_weak_cong)

lemma invshiftrows_explicit:
  "invshiftrows [a0,a1,a2,a3,a4,a5,a6,a7,a8,a9,a10,a11,a12,a13,a14,a15] =
   [a0, a13, a10, a7, a4, a1, a14, a11, a8, a5, a2, a15, a12, a9, a6, a3]"
  by (simp add: invshiftrows_def exec_simps cong: let_weak_cong)

lemma lane_dep_subbytes: "lane_dep subbytes same_deps"
  unfolding lane_dep_def
proof (intro allI impI)
  fix l l' :: state_t
  assume "length l = 16" "length l' = 16"
  then obtain a0 a1 a2 a3 a4 a5 a6 a7 a8 a9 a10 a11 a12 a13 a14 a15
    b0 b1 b2 b3 b4 b5 b6 b7 b8 b9 b10 b11 b12 b13 b14 b15
    where l: "l = [a0,a1,a2,a3,a4,a5,a6,a7,a8,a9,a10,a11,a12,a13,a14,a15]"
      and l': "l' = [b0,b1,b2,b3,b4,b5,b6,b7,b8,b9,b10,b11,b12,b13,b14,b15]"
    by (elim len16E)
  show "length (subbytes l) = 16 \<and>
    (\<forall>k<16. (\<forall>p\<in>set (same_deps k). p < 16 \<longrightarrow> l ! p = l' ! p) \<longrightarrow> subbytes l ! k = subbytes l' ! k)"
    unfolding l l' subbytes_explicit all_less_16
    by (simp add: same_deps_def)
qed

lemma lane_dep_xor_rcons: "lane_dep (\<lambda>l. xor_rcons l r j) same_deps"
  unfolding lane_dep_def
proof (intro allI impI)
  fix l l' :: state_t
  assume "length l = 16" "length l' = 16"
  then obtain a0 a1 a2 a3 a4 a5 a6 a7 a8 a9 a10 a11 a12 a13 a14 a15
    b0 b1 b2 b3 b4 b5 b6 b7 b8 b9 b10 b11 b12 b13 b14 b15
    where l: "l = [a0,a1,a2,a3,a4,a5,a6,a7,a8,a9,a10,a11,a12,a13,a14,a15]"
      and l': "l' = [b0,b1,b2,b3,b4,b5,b6,b7,b8,b9,b10,b11,b12,b13,b14,b15]"
    by (elim len16E)
  show "length (xor_rcons l r j) = 16 \<and>
    (\<forall>k<16. (\<forall>p\<in>set (same_deps k). p < 16 \<longrightarrow> l ! p = l' ! p)
       \<longrightarrow> xor_rcons l r j ! k = xor_rcons l' r j ! k)"
    unfolding l l' xor_rcons_explicit all_less_16
    by (simp add: same_deps_def)
qed

lemma lane_dep_shiftrows: "lane_dep shiftrows sr_deps"
  unfolding lane_dep_def
proof (intro allI impI)
  fix l l' :: state_t
  assume "length l = 16" "length l' = 16"
  then obtain a0 a1 a2 a3 a4 a5 a6 a7 a8 a9 a10 a11 a12 a13 a14 a15
    b0 b1 b2 b3 b4 b5 b6 b7 b8 b9 b10 b11 b12 b13 b14 b15
    where l: "l = [a0,a1,a2,a3,a4,a5,a6,a7,a8,a9,a10,a11,a12,a13,a14,a15]"
      and l': "l' = [b0,b1,b2,b3,b4,b5,b6,b7,b8,b9,b10,b11,b12,b13,b14,b15]"
    by (elim len16E)
  show "length (shiftrows l) = 16 \<and>
    (\<forall>k<16. (\<forall>p\<in>set (sr_deps k). p < 16 \<longrightarrow> l ! p = l' ! p) \<longrightarrow> shiftrows l ! k = shiftrows l' ! k)"
    unfolding l l' shiftrows_explicit all_less_16
    by (simp add: sr_deps_def)
qed

lemma lane_dep_invsbsr: "lane_dep invsbsr invsr_deps"
  unfolding lane_dep_def
proof (intro allI impI)
  fix l l' :: state_t
  assume "length l = 16" "length l' = 16"
  then obtain a0 a1 a2 a3 a4 a5 a6 a7 a8 a9 a10 a11 a12 a13 a14 a15
    b0 b1 b2 b3 b4 b5 b6 b7 b8 b9 b10 b11 b12 b13 b14 b15
    where l: "l = [a0,a1,a2,a3,a4,a5,a6,a7,a8,a9,a10,a11,a12,a13,a14,a15]"
      and l': "l' = [b0,b1,b2,b3,b4,b5,b6,b7,b8,b9,b10,b11,b12,b13,b14,b15]"
    by (elim len16E)
  show "length (invsbsr l) = 16 \<and>
    (\<forall>k<16. (\<forall>p\<in>set (invsr_deps k). p < 16 \<longrightarrow> l ! p = l' ! p) \<longrightarrow> invsbsr l ! k = invsbsr l' ! k)"
    unfolding l l' invsbsr_explicit all_less_16
    by (simp add: invsr_deps_def)
qed

lemma perm_dep_mix512: "perm_dep mix512 mix_src"
  unfolding perm_dep_def
proof (intro allI impI)
  fix s :: hkstate_t
  assume ok: "hkstate_ok s"
  then have "hkstate_ok (mix512 s)"
    by (rule length_mix512)
  moreover from ok have "\<forall>j<4. \<forall>k<16. fst (mix_src j k) < 4 \<and> snd (mix_src j k) < 16
        \<and> mix512 s ! j ! k = s ! fst (mix_src j k) ! snd (mix_src j k)"
    by (elim hkstate_okE len16E)
      (simp add: mix512_explicit all_less_4 all_less_16 mix_src_def)
  ultimately show "hkstate_ok (mix512 s) \<and> (\<forall>j<4. \<forall>k<16. fst (mix_src j k) < 4
        \<and> snd (mix_src j k) < 16 \<and> mix512 s ! j ! k = s ! fst (mix_src j k) ! snd (mix_src j k))"
    by simp
qed

lemma perm_dep_invmix512: "perm_dep invmix512 invmix_src"
  unfolding perm_dep_def
proof (intro allI impI)
  fix s :: hkstate_t
  assume ok: "hkstate_ok s"
  then have "hkstate_ok (invmix512 s)"
    by (rule length_invmix512)
  moreover from ok have "\<forall>j<4. \<forall>k<16. fst (invmix_src j k) < 4 \<and> snd (invmix_src j k) < 16
        \<and> invmix512 s ! j ! k = s ! fst (invmix_src j k) ! snd (invmix_src j k)"
    by (elim hkstate_okE len16E)
      (simp add: invmix512_explicit all_less_4 all_less_16 invmix_src_def)
  ultimately show "hkstate_ok (invmix512 s) \<and> (\<forall>j<4. \<forall>k<16. fst (invmix_src j k) < 4
        \<and> snd (invmix_src j k) < 16
        \<and> invmix512 s ! j ! k = s ! fst (invmix_src j k) ! snd (invmix_src j k))"
    by simp
qed

section \<open>The two computation paths do not read the scratch state\<close>

lemma D_none_explicit:
  "D_none = [[False,False,False,False,False,False,False,False,False,False,False,False,False,False,False,False],
    [False,False,False,False,False,False,False,False,False,False,False,False,False,False,False,False],
    [False,False,False,False,False,False,False,False,False,False,False,False,False,False,False,False],
    [False,False,False,False,False,False,False,False,False,False,False,False,False,False,False,False]]"
  by (simp add: D_none_def numeral_eq_Suc)

lemmas D_eval = D_none_explicit D_set_def D_lane_def D_perm_def D_clear_def aes_deps_def
  invaes_deps_def same_deps_def sr_deps_def invsr_deps_def mix_src_def invmix_src_def
  upt16 upt4 upd_num

lemma eqon_cong: "eqon D s s' \<Longrightarrow> D = D' \<Longrightarrow> eqon D' s s'"
  by simp

lemma eqon_reads:
  assumes "eqon D s s'" and "j < 4" and "list_all (\<lambda>k. k < 16 \<and> D ! j ! k) ks"
  shows "list_all (\<lambda>k. s ! j ! k = s' ! j ! k) ks"
  using assms by (auto simp: list_all_iff eqon_def)

lemma eqon_aesenc_all:
  assumes "eqon D s s'"
  shows "eqon (D_lane (D_lane (D_lane (D_lane D 0 aes_deps) 1 aes_deps) 2 aes_deps) 3 aes_deps)
    (aesenc_all s r) (aesenc_all s' r)"
  unfolding aesenc_all_def upt4 fold_simps
  by (intro eqon_lane[OF _ _ lane_dep_aesenc] assms) simp_all

lemma eqon_invaesenc_all:
  assumes "eqon D s s'"
  shows "eqon (D_lane (D_lane (D_lane (D_lane D 0 invaes_deps) 1 invaes_deps) 2 invaes_deps) 3
      invaes_deps) (invaesenc_all s r) (invaesenc_all s' r)"
  unfolding invaesenc_all_def upt4 fold_simps
  by (intro eqon_lane[OF _ _ lane_dep_invaesenc] assms) simp_all

lemma upt_1_4: "[1..<4] = [1, 2, 3]"
  by code_simp

lemma eqon_invaesenc_123:
  assumes "eqon D s s'"
  shows "eqon (D_lane (D_lane (D_lane D 1 invaes_deps) 2 invaes_deps) 3 invaes_deps)
    (fold (\<lambda>j s. s[j := invaesenc (s ! j) r j]) [1..<4] s)
    (fold (\<lambda>j s. s[j := invaesenc (s ! j) r j]) [1..<4] s')"
  unfolding upt_1_4 fold_simps
  by (intro eqon_lane[OF _ _ lane_dep_invaesenc] assms) simp_all

text \<open>One rule for each kind of statement of the two paths: two runs of the statement,
  from states that agree on \<open>D\<close>, leave states that agree on the bytes known after it.\<close>

lemma Let_val:
  assumes "\<And>x. R (f x) (f' x)"
  shows "R (Let a f) (Let a f')"
  unfolding Let_def by (rule assms)

lemma Let_read:
  assumes "eqon D s s'" and "j < 4" and "k < 16" and "D ! j ! k"
    and "\<And>x. eqon D s s' \<Longrightarrow> R (f x) (f' x)"
  shows "R (Let (s ! j ! k XOR c) f) (Let (s' ! j ! k XOR c) f')"
  unfolding Let_def eqon_read[OF assms(1-4)] by (rule assms(5)) fact

lemma Let_set_byte:
  assumes "eqon D s s'" and "j < 4" and "k < 16"
    and "\<And>x x'. eqon (D_set D j k) x x' \<Longrightarrow> R (f x) (f' x')"
  shows "R (Let (set_byte s j k v) f) (Let (set_byte s' j k v) f')"
  unfolding Let_def by (rule assms(4), rule eqon_set_byte) fact+

lemma Let_aesenc:
  assumes "eqon D s s'" and "j < 4"
    and "\<And>x x'. eqon (D_lane D j aes_deps) x x' \<Longrightarrow> R (f x) (f' x')"
  shows "R (Let (s[j := aesenc (s ! j) r j]) f) (Let (s'[j := aesenc (s' ! j) r j]) f')"
  unfolding Let_def by (rule assms(3), rule eqon_lane[OF _ _ lane_dep_aesenc]) fact+

lemma Let_invaesenc:
  assumes "eqon D s s'" and "j < 4"
    and "\<And>x x'. eqon (D_lane D j invaes_deps) x x' \<Longrightarrow> R (f x) (f' x')"
  shows "R (Let (s[j := invaesenc (s ! j) r j]) f) (Let (s'[j := invaesenc (s' ! j) r j]) f')"
  unfolding Let_def by (rule assms(3), rule eqon_lane[OF _ _ lane_dep_invaesenc]) fact+

lemma Let_subbytes:
  assumes "eqon D s s'" and "j < 4"
    and "\<And>x x'. eqon (D_lane D j same_deps) x x' \<Longrightarrow> R (f x) (f' x')"
  shows "R (Let (s[j := subbytes (s ! j)]) f) (Let (s'[j := subbytes (s' ! j)]) f')"
  unfolding Let_def by (rule assms(3), rule eqon_lane[OF _ _ lane_dep_subbytes]) fact+

lemma Let_shiftrows:
  assumes "eqon D s s'" and "j < 4"
    and "\<And>x x'. eqon (D_lane D j sr_deps) x x' \<Longrightarrow> R (f x) (f' x')"
  shows "R (Let (s[j := shiftrows (s ! j)]) f) (Let (s'[j := shiftrows (s' ! j)]) f')"
  unfolding Let_def by (rule assms(3), rule eqon_lane[OF _ _ lane_dep_shiftrows]) fact+

lemma Let_invsbsr:
  assumes "eqon D s s'" and "j < 4"
    and "\<And>x x'. eqon (D_lane D j invsr_deps) x x' \<Longrightarrow> R (f x) (f' x')"
  shows "R (Let (s[j := invsbsr (s ! j)]) f) (Let (s'[j := invsbsr (s' ! j)]) f')"
  unfolding Let_def by (rule assms(3), rule eqon_lane[OF _ _ lane_dep_invsbsr]) fact+

lemma Let_xor_rcons:
  assumes "eqon D s s'" and "j < 4"
    and "\<And>x x'. eqon (D_lane D j same_deps) x x' \<Longrightarrow> R (f x) (f' x')"
  shows "R (Let (s[j := xor_rcons (s ! j) r j]) f) (Let (s'[j := xor_rcons (s' ! j) r j]) f')"
  unfolding Let_def by (rule assms(3), rule eqon_lane[OF _ _ lane_dep_xor_rcons]) fact+

lemma Let_aesenc_all:
  assumes "eqon D s s'"
    and "\<And>x x'. eqon (D_lane (D_lane (D_lane (D_lane D 0 aes_deps) 1 aes_deps) 2 aes_deps) 3
        aes_deps) x x' \<Longrightarrow> R (f x) (f' x')"
  shows "R (Let (aesenc_all s r) f) (Let (aesenc_all s' r) f')"
  unfolding Let_def by (rule assms(2), rule eqon_aesenc_all) fact

lemma Let_invaesenc_all:
  assumes "eqon D s s'"
    and "\<And>x x'. eqon (D_lane (D_lane (D_lane (D_lane D 0 invaes_deps) 1 invaes_deps) 2
        invaes_deps) 3 invaes_deps) x x' \<Longrightarrow> R (f x) (f' x')"
  shows "R (Let (invaesenc_all s r) f) (Let (invaesenc_all s' r) f')"
  unfolding Let_def by (rule assms(2), rule eqon_invaesenc_all) fact

lemma Let_invaesenc_123:
  assumes "eqon D s s'"
    and "\<And>x x'. eqon (D_lane (D_lane (D_lane D 1 invaes_deps) 2 invaes_deps) 3 invaes_deps) x x'
       \<Longrightarrow> R (f x) (f' x')"
  shows "R (Let (fold (\<lambda>j s. s[j := invaesenc (s ! j) r j]) [1..<4] s) f)
           (Let (fold (\<lambda>j s. s[j := invaesenc (s ! j) r j]) [1..<4] s') f')"
  unfolding Let_def by (rule assms(2), rule eqon_invaesenc_123) fact

lemma Let_mix512:
  assumes "eqon D s s'"
    and "\<And>x x'. eqon (D_perm D mix_src) x x' \<Longrightarrow> R (f x) (f' x')"
  shows "R (Let (mix512 s) f) (Let (mix512 s') f')"
  unfolding Let_def by (rule assms(2), rule eqon_perm[OF _ perm_dep_mix512]) fact

lemma Let_invmix512:
  assumes "eqon D s s'"
    and "\<And>x x'. eqon (D_perm D invmix_src) x x' \<Longrightarrow> R (f x) (f' x')"
  shows "R (Let (invmix512 s) f) (Let (invmix512 s') f')"
  unfolding Let_def by (rule assms(2), rule eqon_perm[OF _ perm_dep_invmix512]) fact

lemma computefwd_x5_eqon:
  assumes "hkstate_ok s0" and "hkstate_ok s0'"
  shows "eqon x5_fwd_known
    (computefwd_x5 s0 round2_match_through_mc x3_guesses x4_guesses x5_guesses dof)
    (computefwd_x5 s0' round2_match_through_mc x3_guesses x4_guesses x5_guesses dof)"
  unfolding computefwd_x5_def
  apply (insert eqon_refl_none[OF assms])
  apply (rule Let_val[where R="eqon x5_fwd_known"])
  apply (rule Let_val[where R="eqon x5_fwd_known"])
  apply (rule Let_val[where R="eqon x5_fwd_known"])
  apply (rule Let_val[where R="eqon x5_fwd_known"])
  apply (erule Let_set_byte[where R="eqon x5_fwd_known"], simp (no_asm), simp (no_asm))
  apply (erule Let_set_byte[where R="eqon x5_fwd_known"], simp (no_asm), simp (no_asm))
  apply (erule Let_set_byte[where R="eqon x5_fwd_known"], simp (no_asm), simp (no_asm))
  apply (erule Let_set_byte[where R="eqon x5_fwd_known"], simp (no_asm), simp (no_asm))
  apply (erule Let_set_byte[where R="eqon x5_fwd_known"], simp (no_asm), simp (no_asm))
  apply (erule Let_set_byte[where R="eqon x5_fwd_known"], simp (no_asm), simp (no_asm))
  apply (erule Let_set_byte[where R="eqon x5_fwd_known"], simp (no_asm), simp (no_asm))
  apply (erule Let_set_byte[where R="eqon x5_fwd_known"], simp (no_asm), simp (no_asm))
  apply (erule Let_set_byte[where R="eqon x5_fwd_known"], simp (no_asm), simp (no_asm))
  apply (erule Let_set_byte[where R="eqon x5_fwd_known"], simp (no_asm), simp (no_asm))
  apply (erule Let_set_byte[where R="eqon x5_fwd_known"], simp (no_asm), simp (no_asm))
  apply (erule Let_set_byte[where R="eqon x5_fwd_known"], simp (no_asm), simp (no_asm))
  apply (erule Let_set_byte[where R="eqon x5_fwd_known"], simp (no_asm), simp (no_asm))
  apply (erule Let_set_byte[where R="eqon x5_fwd_known"], simp (no_asm), simp (no_asm))
  apply (erule Let_set_byte[where R="eqon x5_fwd_known"], simp (no_asm), simp (no_asm))
  apply (erule Let_set_byte[where R="eqon x5_fwd_known"], simp (no_asm), simp (no_asm))
  apply (erule Let_set_byte[where R="eqon x5_fwd_known"], simp (no_asm), simp (no_asm))
  apply (erule Let_set_byte[where R="eqon x5_fwd_known"], simp (no_asm), simp (no_asm))
  apply (erule Let_set_byte[where R="eqon x5_fwd_known"], simp (no_asm), simp (no_asm))
  apply (erule Let_set_byte[where R="eqon x5_fwd_known"], simp (no_asm), simp (no_asm))
  apply (erule Let_set_byte[where R="eqon x5_fwd_known"], simp (no_asm), simp (no_asm))
  apply (erule Let_set_byte[where R="eqon x5_fwd_known"], simp (no_asm), simp (no_asm))
  apply (erule Let_set_byte[where R="eqon x5_fwd_known"], simp (no_asm), simp (no_asm))
  apply (erule Let_set_byte[where R="eqon x5_fwd_known"], simp (no_asm), simp (no_asm))
  apply (erule Let_set_byte[where R="eqon x5_fwd_known"], simp (no_asm), simp (no_asm))
  apply (erule Let_set_byte[where R="eqon x5_fwd_known"], simp (no_asm), simp (no_asm))
  apply (erule Let_set_byte[where R="eqon x5_fwd_known"], simp (no_asm), simp (no_asm))
  apply (erule Let_set_byte[where R="eqon x5_fwd_known"], simp (no_asm), simp (no_asm))
  apply (erule Let_set_byte[where R="eqon x5_fwd_known"], simp (no_asm), simp (no_asm))
  apply (erule Let_set_byte[where R="eqon x5_fwd_known"], simp (no_asm), simp (no_asm))
  apply (erule Let_set_byte[where R="eqon x5_fwd_known"], simp (no_asm), simp (no_asm))
  apply (erule Let_set_byte[where R="eqon x5_fwd_known"], simp (no_asm), simp (no_asm))
  apply (erule Let_aesenc_all[where R="eqon x5_fwd_known"])
  apply (erule Let_mix512[where R="eqon x5_fwd_known"])
  apply (erule Let_set_byte[where R="eqon x5_fwd_known"], simp (no_asm), simp (no_asm))
  apply (erule Let_set_byte[where R="eqon x5_fwd_known"], simp (no_asm), simp (no_asm))
  apply (erule Let_set_byte[where R="eqon x5_fwd_known"], simp (no_asm), simp (no_asm))
  apply (erule Let_set_byte[where R="eqon x5_fwd_known"], simp (no_asm), simp (no_asm))
  apply (erule Let_set_byte[where R="eqon x5_fwd_known"], simp (no_asm), simp (no_asm))
  apply (erule Let_set_byte[where R="eqon x5_fwd_known"], simp (no_asm), simp (no_asm))
  apply (erule Let_set_byte[where R="eqon x5_fwd_known"], simp (no_asm), simp (no_asm))
  apply (erule Let_set_byte[where R="eqon x5_fwd_known"], simp (no_asm), simp (no_asm))
  apply (erule Let_set_byte[where R="eqon x5_fwd_known"], simp (no_asm), simp (no_asm))
  apply (erule Let_set_byte[where R="eqon x5_fwd_known"], simp (no_asm), simp (no_asm))
  apply (erule Let_set_byte[where R="eqon x5_fwd_known"], simp (no_asm), simp (no_asm))
  apply (erule Let_set_byte[where R="eqon x5_fwd_known"], simp (no_asm), simp (no_asm))
  apply (erule Let_set_byte[where R="eqon x5_fwd_known"], simp (no_asm), simp (no_asm))
  apply (erule Let_set_byte[where R="eqon x5_fwd_known"], simp (no_asm), simp (no_asm))
  apply (erule Let_set_byte[where R="eqon x5_fwd_known"], simp (no_asm), simp (no_asm))
  apply (erule Let_set_byte[where R="eqon x5_fwd_known"], simp (no_asm), simp (no_asm))
  apply (erule Let_aesenc[where R="eqon x5_fwd_known"], simp (no_asm))
  apply (erule Let_aesenc[where R="eqon x5_fwd_known"], simp (no_asm))
  apply (erule Let_aesenc[where R="eqon x5_fwd_known"], simp (no_asm))
  apply (erule Let_set_byte[where R="eqon x5_fwd_known"], simp (no_asm), simp (no_asm))
  apply (erule Let_set_byte[where R="eqon x5_fwd_known"], simp (no_asm), simp (no_asm))
  apply (erule Let_set_byte[where R="eqon x5_fwd_known"], simp (no_asm), simp (no_asm))
  apply (erule Let_set_byte[where R="eqon x5_fwd_known"], simp (no_asm), simp (no_asm))
  apply (erule Let_set_byte[where R="eqon x5_fwd_known"], simp (no_asm), simp (no_asm))
  apply (erule Let_set_byte[where R="eqon x5_fwd_known"], simp (no_asm), simp (no_asm))
  apply (erule Let_set_byte[where R="eqon x5_fwd_known"], simp (no_asm), simp (no_asm))
  apply (erule Let_set_byte[where R="eqon x5_fwd_known"], simp (no_asm), simp (no_asm))
  apply (erule Let_set_byte[where R="eqon x5_fwd_known"], simp (no_asm), simp (no_asm))
  apply (erule Let_set_byte[where R="eqon x5_fwd_known"], simp (no_asm), simp (no_asm))
  apply (erule Let_set_byte[where R="eqon x5_fwd_known"], simp (no_asm), simp (no_asm))
  apply (erule Let_set_byte[where R="eqon x5_fwd_known"], simp (no_asm), simp (no_asm))
  apply (erule eqon_cong)
  apply (simp (no_asm) add: D_eval x5_fwd_known_def)
  done

lemma Let_computefwd_x5:
  assumes "hkstate_ok s0" and "hkstate_ok s0'"
    and "\<And>x x'. eqon x5_fwd_known x x' \<Longrightarrow> R (f x) (f' x')"
  shows "R (Let (computefwd_x5 s0 round2_match_through_mc x3_guesses x4_guesses x5_guesses dof) f)
    (Let (computefwd_x5 s0' round2_match_through_mc x3_guesses x4_guesses x5_guesses dof) f')"
  unfolding Let_def by (rule assms(3), rule computefwd_x5_eqon) fact+

text \<open>Claim C4. The forward evaluator \<^verbatim>\<open>computefwd\<close> is a function of the degrees of freedom,
  the guess vectors and \<^verbatim>\<open>round2_match_through_mc\<close> only: two calls with these arguments
  equal write the same four bytes to \<^verbatim>\<open>output_tuple\<close>, whatever the scratch states \<open>s\<close>
  they are given contain.\<close>

theorem computefwd_output_independent_of_scratch:
  assumes "hkstate_ok s0" and "hkstate_ok s0'"
  shows "snd (computefwd s0 round2_match_through_mc x3_guesses x4_guesses x5_guesses dof) =
         snd (computefwd s0' round2_match_through_mc x3_guesses x4_guesses x5_guesses dof)"
  unfolding computefwd_def
  apply (insert assms)
  apply (erule Let_computefwd_x5[where R="\<lambda>a b. snd a = snd b"], assumption)
  apply (erule Let_aesenc_all[where R="\<lambda>a b. snd a = snd b"])
  apply (erule Let_mix512[where R="\<lambda>a b. snd a = snd b"])
  apply (erule Let_aesenc[where R="\<lambda>a b. snd a = snd b"], simp (no_asm))
  apply (erule Let_aesenc[where R="\<lambda>a b. snd a = snd b"], simp (no_asm))
  apply (erule Let_aesenc[where R="\<lambda>a b. snd a = snd b"], simp (no_asm))
  apply (erule Let_aesenc[where R="\<lambda>a b. snd a = snd b"], simp (no_asm))
  apply (erule Let_aesenc[where R="\<lambda>a b. snd a = snd b"], simp (no_asm))
  apply (erule Let_aesenc[where R="\<lambda>a b. snd a = snd b"], simp (no_asm))
  apply (erule Let_mix512[where R="\<lambda>a b. snd a = snd b"])
  apply (erule Let_subbytes[where R="\<lambda>a b. snd a = snd b"], simp (no_asm))
  apply (erule Let_shiftrows[where R="\<lambda>a b. snd a = snd b"], simp (no_asm))
  apply (drule eqon_reads[where j=2 and ks="[0, 1, 2, 4, 5, 7, 8, 10, 11, 13, 14, 15]"])
    apply (simp (no_asm))
   apply (simp (no_asm) add: D_eval x5_fwd_known_def)
  apply simp
  done

theorem computefwd_output_independent_of_scratch_witness:
  "snd (computefwd (replicate 4 (replicate 16 0)) [1, 2, 3, 4, 5, 6, 7, 8]
      [20, 19, 18, 17, 16, 15, 14, 13, 12, 11, 10, 9, 8, 7, 6, 5, 4, 3, 2, 1]
      [16, 15, 14, 13, 12, 11, 10, 9, 8, 7, 6, 5, 4, 3, 2, 1]
      [12, 11, 10, 9, 8, 7, 6, 5, 4, 3, 2, 1] [171, 205, 239, 1]) =
   snd (computefwd (replicate 4 (replicate 16 255)) [1, 2, 3, 4, 5, 6, 7, 8]
      [20, 19, 18, 17, 16, 15, 14, 13, 12, 11, 10, 9, 8, 7, 6, 5, 4, 3, 2, 1]
      [16, 15, 14, 13, 12, 11, 10, 9, 8, 7, 6, 5, 4, 3, 2, 1]
      [12, 11, 10, 9, 8, 7, 6, 5, 4, 3, 2, 1] [171, 205, 239, 1])"
  using computefwd_output_independent_of_scratch[of "replicate 4 (replicate 16 0)"
      "replicate 4 (replicate 16 255)"]
  by (simp add: hkstate_ok_def list_all_iff)

text \<open>Claim C10. The backward evaluator \<^verbatim>\<open>computebwd\<close> is a function of the degrees of
  freedom, the guess vectors and \<^verbatim>\<open>round2_match_through_mc\<close> only: two calls with these
  arguments equal write the same four bytes to \<^verbatim>\<open>output_tuple\<close>, whatever the scratch
  states \<open>s\<close> they are given contain.\<close>

theorem computebwd_output_independent_of_scratch:
  assumes "hkstate_ok s0" and "hkstate_ok s0'"
  shows "snd (computebwd s0 round2_match_through_mc x3_guesses x4_guesses x5_guesses dof) =
         snd (computebwd s0' round2_match_through_mc x3_guesses x4_guesses x5_guesses dof)"
  unfolding computebwd_def
  apply (insert eqon_refl_none[OF assms])
  apply (erule Let_set_byte[where R="\<lambda>a b. snd a = snd b"], simp (no_asm), simp (no_asm))
  apply (erule Let_set_byte[where R="\<lambda>a b. snd a = snd b"], simp (no_asm), simp (no_asm))
  apply (erule Let_set_byte[where R="\<lambda>a b. snd a = snd b"], simp (no_asm), simp (no_asm))
  apply (erule Let_set_byte[where R="\<lambda>a b. snd a = snd b"], simp (no_asm), simp (no_asm))
  apply (erule Let_set_byte[where R="\<lambda>a b. snd a = snd b"], simp (no_asm), simp (no_asm))
  apply (erule Let_set_byte[where R="\<lambda>a b. snd a = snd b"], simp (no_asm), simp (no_asm))
  apply (erule Let_set_byte[where R="\<lambda>a b. snd a = snd b"], simp (no_asm), simp (no_asm))
  apply (erule Let_set_byte[where R="\<lambda>a b. snd a = snd b"], simp (no_asm), simp (no_asm))
  apply (erule Let_set_byte[where R="\<lambda>a b. snd a = snd b"], simp (no_asm), simp (no_asm))
  apply (erule Let_set_byte[where R="\<lambda>a b. snd a = snd b"], simp (no_asm), simp (no_asm))
  apply (erule Let_set_byte[where R="\<lambda>a b. snd a = snd b"], simp (no_asm), simp (no_asm))
  apply (erule Let_set_byte[where R="\<lambda>a b. snd a = snd b"], simp (no_asm), simp (no_asm))
  apply (erule Let_set_byte[where R="\<lambda>a b. snd a = snd b"], simp (no_asm), simp (no_asm))
  apply (erule Let_set_byte[where R="\<lambda>a b. snd a = snd b"], simp (no_asm), simp (no_asm))
  apply (erule Let_set_byte[where R="\<lambda>a b. snd a = snd b"], simp (no_asm), simp (no_asm))
  apply (erule Let_set_byte[where R="\<lambda>a b. snd a = snd b"], simp (no_asm), simp (no_asm))
  apply (erule Let_invaesenc[where R="\<lambda>a b. snd a = snd b"], simp (no_asm))
  apply (erule Let_set_byte[where R="\<lambda>a b. snd a = snd b"], simp (no_asm), simp (no_asm))
  apply (erule Let_set_byte[where R="\<lambda>a b. snd a = snd b"], simp (no_asm), simp (no_asm))
  apply (erule Let_set_byte[where R="\<lambda>a b. snd a = snd b"], simp (no_asm), simp (no_asm))
  apply (erule Let_set_byte[where R="\<lambda>a b. snd a = snd b"], simp (no_asm), simp (no_asm))
  apply (erule Let_set_byte[where R="\<lambda>a b. snd a = snd b"], simp (no_asm), simp (no_asm))
  apply (erule Let_set_byte[where R="\<lambda>a b. snd a = snd b"], simp (no_asm), simp (no_asm))
  apply (erule Let_set_byte[where R="\<lambda>a b. snd a = snd b"], simp (no_asm), simp (no_asm))
  apply (erule Let_set_byte[where R="\<lambda>a b. snd a = snd b"], simp (no_asm), simp (no_asm))
  apply (erule Let_set_byte[where R="\<lambda>a b. snd a = snd b"], simp (no_asm), simp (no_asm))
  apply (erule Let_set_byte[where R="\<lambda>a b. snd a = snd b"], simp (no_asm), simp (no_asm))
  apply (erule Let_set_byte[where R="\<lambda>a b. snd a = snd b"], simp (no_asm), simp (no_asm))
  apply (erule Let_set_byte[where R="\<lambda>a b. snd a = snd b"], simp (no_asm), simp (no_asm))
  apply (erule Let_set_byte[where R="\<lambda>a b. snd a = snd b"], simp (no_asm), simp (no_asm))
  apply (erule Let_set_byte[where R="\<lambda>a b. snd a = snd b"], simp (no_asm), simp (no_asm))
  apply (erule Let_set_byte[where R="\<lambda>a b. snd a = snd b"], simp (no_asm), simp (no_asm))
  apply (erule Let_set_byte[where R="\<lambda>a b. snd a = snd b"], simp (no_asm), simp (no_asm))
  apply (erule Let_invmix512[where R="\<lambda>a b. snd a = snd b"])
  apply (erule Let_invaesenc_all[where R="\<lambda>a b. snd a = snd b"])
  apply (erule Let_set_byte[where R="\<lambda>a b. snd a = snd b"], simp (no_asm), simp (no_asm))
  apply (erule Let_set_byte[where R="\<lambda>a b. snd a = snd b"], simp (no_asm), simp (no_asm))
  apply (erule Let_set_byte[where R="\<lambda>a b. snd a = snd b"], simp (no_asm), simp (no_asm))
  apply (erule Let_set_byte[where R="\<lambda>a b. snd a = snd b"], simp (no_asm), simp (no_asm))
  apply (erule Let_set_byte[where R="\<lambda>a b. snd a = snd b"], simp (no_asm), simp (no_asm))
  apply (erule Let_set_byte[where R="\<lambda>a b. snd a = snd b"], simp (no_asm), simp (no_asm))
  apply (erule Let_set_byte[where R="\<lambda>a b. snd a = snd b"], simp (no_asm), simp (no_asm))
  apply (erule Let_set_byte[where R="\<lambda>a b. snd a = snd b"], simp (no_asm), simp (no_asm))
  apply (erule Let_set_byte[where R="\<lambda>a b. snd a = snd b"], simp (no_asm), simp (no_asm))
  apply (erule Let_set_byte[where R="\<lambda>a b. snd a = snd b"], simp (no_asm), simp (no_asm))
  apply (erule Let_set_byte[where R="\<lambda>a b. snd a = snd b"], simp (no_asm), simp (no_asm))
  apply (erule Let_set_byte[where R="\<lambda>a b. snd a = snd b"], simp (no_asm), simp (no_asm))
  apply (erule Let_set_byte[where R="\<lambda>a b. snd a = snd b"], simp (no_asm), simp (no_asm))
  apply (erule Let_set_byte[where R="\<lambda>a b. snd a = snd b"], simp (no_asm), simp (no_asm))
  apply (erule Let_set_byte[where R="\<lambda>a b. snd a = snd b"], simp (no_asm), simp (no_asm))
  apply (erule Let_set_byte[where R="\<lambda>a b. snd a = snd b"], simp (no_asm), simp (no_asm))
  apply (erule Let_set_byte[where R="\<lambda>a b. snd a = snd b"], simp (no_asm), simp (no_asm))
  apply (erule Let_set_byte[where R="\<lambda>a b. snd a = snd b"], simp (no_asm), simp (no_asm))
  apply (erule Let_set_byte[where R="\<lambda>a b. snd a = snd b"], simp (no_asm), simp (no_asm))
  apply (erule Let_set_byte[where R="\<lambda>a b. snd a = snd b"], simp (no_asm), simp (no_asm))
  apply (erule Let_read[where R="\<lambda>a b. snd a = snd b"], simp (no_asm), simp (no_asm), simp (no_asm) add: D_eval)
  apply (erule Let_read[where R="\<lambda>a b. snd a = snd b"], simp (no_asm), simp (no_asm), simp (no_asm) add: D_eval)
  apply (erule Let_read[where R="\<lambda>a b. snd a = snd b"], simp (no_asm), simp (no_asm), simp (no_asm) add: D_eval)
  apply (erule Let_read[where R="\<lambda>a b. snd a = snd b"], simp (no_asm), simp (no_asm), simp (no_asm) add: D_eval)
  apply (erule Let_set_byte[where R="\<lambda>a b. snd a = snd b"], simp (no_asm), simp (no_asm))
  apply (erule Let_set_byte[where R="\<lambda>a b. snd a = snd b"], simp (no_asm), simp (no_asm))
  apply (erule Let_set_byte[where R="\<lambda>a b. snd a = snd b"], simp (no_asm), simp (no_asm))
  apply (erule Let_set_byte[where R="\<lambda>a b. snd a = snd b"], simp (no_asm), simp (no_asm))
  apply (erule Let_set_byte[where R="\<lambda>a b. snd a = snd b"], simp (no_asm), simp (no_asm))
  apply (erule Let_set_byte[where R="\<lambda>a b. snd a = snd b"], simp (no_asm), simp (no_asm))
  apply (erule Let_set_byte[where R="\<lambda>a b. snd a = snd b"], simp (no_asm), simp (no_asm))
  apply (erule Let_set_byte[where R="\<lambda>a b. snd a = snd b"], simp (no_asm), simp (no_asm))
  apply (erule Let_invsbsr[where R="\<lambda>a b. snd a = snd b"], simp (no_asm))
  apply (erule Let_invaesenc_123[where R="\<lambda>a b. snd a = snd b"])
  apply (erule Let_invmix512[where R="\<lambda>a b. snd a = snd b"])
  apply (erule Let_invaesenc[where R="\<lambda>a b. snd a = snd b"], simp (no_asm))
  apply (erule Let_invaesenc[where R="\<lambda>a b. snd a = snd b"], simp (no_asm))
  apply (erule Let_invaesenc[where R="\<lambda>a b. snd a = snd b"], simp (no_asm))
  apply (erule Let_invaesenc[where R="\<lambda>a b. snd a = snd b"], simp (no_asm))
  apply (erule Let_invmix512[where R="\<lambda>a b. snd a = snd b"])
  apply (erule Let_invaesenc[where R="\<lambda>a b. snd a = snd b"], simp (no_asm))
  apply (erule Let_xor_rcons[where R="\<lambda>a b. snd a = snd b"], simp (no_asm))
  apply (drule eqon_reads[where j=2 and ks="[2, 3, 4, 7, 8, 9, 13, 14]"])
    apply (simp (no_asm))
   apply (simp (no_asm) add: D_eval)
  apply simp
  done

theorem computebwd_output_independent_of_scratch_witness:
  "snd (computebwd (replicate 4 (replicate 16 0)) [1, 2, 3, 4, 5, 6, 7, 8]
      [20, 19, 18, 17, 16, 15, 14, 13, 12, 11, 10, 9, 8, 7, 6, 5, 4, 3, 2, 1]
      [16, 15, 14, 13, 12, 11, 10, 9, 8, 7, 6, 5, 4, 3, 2, 1]
      [12, 11, 10, 9, 8, 7, 6, 5, 4, 3, 2, 1] [171, 205, 239, 1]) =
   snd (computebwd (replicate 4 (replicate 16 255)) [1, 2, 3, 4, 5, 6, 7, 8]
      [20, 19, 18, 17, 16, 15, 14, 13, 12, 11, 10, 9, 8, 7, 6, 5, 4, 3, 2, 1]
      [16, 15, 14, 13, 12, 11, 10, 9, 8, 7, 6, 5, 4, 3, 2, 1]
      [12, 11, 10, 9, 8, 7, 6, 5, 4, 3, 2, 1] [171, 205, 239, 1])"
  using computebwd_output_independent_of_scratch[of "replicate 4 (replicate 16 0)"
      "replicate 4 (replicate 16 255)"]
  by (simp add: hkstate_ok_def list_all_iff)

section \<open>What the first step leaves in the table\<close>

lemma set_fold_push_record:
  "set (fold push_record buf t m0 m1 m2)
     \<subseteq> set (t m0 m1 m2) \<union> (\<lambda>v. [v ! 3, v ! 4, v ! 5, v ! 6, v ! 7]) ` set buf"
proof (induction buf arbitrary: t)
  case Nil
  show ?case by simp
next
  case (Cons v buf)
  have "set (push_record v t m0 m1 m2) \<subseteq> set (t m0 m1 m2) \<union> {[v ! 3, v ! 4, v ! 5, v ! 6, v ! 7]}"
    by (auto simp: push_record_def)
  with Cons.IH[of "push_record v t"] show ?case
    by auto
qed

lemma fwd_inv_mono: "fwd_inv t0 ind n w \<Longrightarrow> fwd_inv t0 ind (Suc n) w"
  unfolding fwd_inv_def by (meson less_Suc_eq)

lemma fwd_inv_body:
  assumes "fwd_inv t0 ind n w"
  shows "fwd_inv t0 ind (Suc n) (populatetable_body ind seed n w)"
proof (cases "n mod 4 = ind")
  case False
  with fwd_inv_mono[OF assms] show ?thesis
    by (simp add: populatetable_body_def)
next
  case True
  obtain fs res where cf: "computefwd (fwds w) [0, 0, 0, 0, 0, 0, 0, seed]
      [0, 0, 0, 0, 0, 0, 0, 0, 0, 0, 0, 0, 0, 0, 0, 0, 0, 0, 0, 0]
      [0, 0, 0, 0, 0, 0, 0, 0, 0, 0, 0, 0, 0, 0, 0, 0]
      [0, 0, 0, 0, 0, 0, 0, 0, 0, 0, 0, 0] (dof_of_index n) = (fs, res)"
    by (cases "computefwd (fwds w) [0, 0, 0, 0, 0, 0, 0, seed]
      [0, 0, 0, 0, 0, 0, 0, 0, 0, 0, 0, 0, 0, 0, 0, 0, 0, 0, 0, 0]
      [0, 0, 0, 0, 0, 0, 0, 0, 0, 0, 0, 0, 0, 0, 0, 0]
      [0, 0, 0, 0, 0, 0, 0, 0, 0, 0, 0, 0] (dof_of_index n)") auto
  define r where "r = [res ! 0, res ! 1, res ! 2, res ! 3,
     dof_of_index n ! 0, dof_of_index n ! 1, dof_of_index n ! 2, dof_of_index n ! 3]"
  have r: "[r ! 4, r ! 5, r ! 6, r ! 7] = dof_of_index n"
    by (simp add: r_def dof_of_index_def)
  have buf: "\<forall>v\<in>set (buffer w @ [r]). \<exists>i<Suc n. i mod 4 = ind
      \<and> [v ! 4, v ! 5, v ! 6, v ! 7] = dof_of_index i"
    using fwd_inv_mono[OF assms] True r unfolding fwd_inv_def by auto
  have tab: "\<forall>m0 m1 m2. \<forall>v\<in>set (fwdvecs w m0 m1 m2).
         v \<in> set (t0 m0 m1 m2) \<or> (\<exists>i<Suc n. i mod 4 = ind \<and> tl v = dof_of_index i)"
    using fwd_inv_mono[OF assms] unfolding fwd_inv_def by blast
  have body: "populatetable_body ind seed n w =
    (if bufsize w + 1 > 10000
     then w\<lparr>fwds := fs, fwd_calls := fwd_calls w @ [dof_of_index n],
            fwdvecs := fold push_record (buffer w @ [r]) (fwdvecs w), buffer := [], bufsize := 0\<rparr>
     else w\<lparr>fwds := fs, fwd_calls := fwd_calls w @ [dof_of_index n],
            buffer := buffer w @ [r], bufsize := bufsize w + 1\<rparr>)"
    using True by (simp add: populatetable_body_def Let_def cf r_def)
  show ?thesis
  proof (cases "bufsize w + 1 > 10000")
    case False
    with body buf tab show ?thesis
      by (simp add: fwd_inv_def)
  next
    case True
    have "v \<in> set (t0 m0 m1 m2) \<or> (\<exists>i<Suc n. i mod 4 = ind \<and> tl v = dof_of_index i)"
      if "v \<in> set (fold push_record (buffer w @ [r]) (fwdvecs w) m0 m1 m2)" for v m0 m1 m2
    proof -
      from that set_fold_push_record[of "buffer w @ [r]" "fwdvecs w" m0 m1 m2]
      consider "v \<in> set (fwdvecs w m0 m1 m2)"
        | u where "u \<in> set (buffer w @ [r])" "v = [u ! 3, u ! 4, u ! 5, u ! 6, u ! 7]"
        by blast
      then show ?thesis
      proof cases
        case 1
        with tab show ?thesis by blast
      next
        case 2
        with buf obtain i where "i < Suc n" "i mod 4 = ind"
          "[u ! 4, u ! 5, u ! 6, u ! 7] = dof_of_index i"
          by blast
        with 2 show ?thesis
          by auto
      qed
    qed
    with body True show ?thesis
      by (simp add: fwd_inv_def)
  qed
qed

lemma fwd_inv_fold:
  assumes "fwd_inv t0 ind 0 w"
  shows "fwd_inv t0 ind n (fold (populatetable_body ind seed) [0..<n] w)"
proof (induction n)
  case 0
  from assms show ?case by simp
next
  case (Suc n)
  from fwd_inv_body[OF Suc] show ?case by simp
qed

lemma fwd_inv_start:
  "fwd_inv t ind 0 \<lparr>fwdvecs = t, fwds = s, buffer = [], bufsize = 0, fwd_calls = []\<rparr>"
  by (simp add: fwd_inv_def)

text \<open>The thread 3 has \<open>n div 4\<close> turns among the indices below \<open>n\<close>, and empties its buffer
  at each 10001st of them.\<close>

lemma bufsize_body:
  assumes "bufsize w = (n div 4) mod 10001"
  shows "bufsize (populatetable_body 3 seed n w) = (Suc n div 4) mod 10001"
proof (cases "n mod 4 = 3")
  case False
  then have "Suc n div 4 = n div 4"
    by presburger
  with False assms show ?thesis
    by (simp add: populatetable_body_def)
next
  case True
  then have d: "Suc n div 4 = Suc (n div 4)"
    by presburger
  have "bufsize w < 10001"
    using assms by simp
  with True assms show ?thesis
    unfolding d mod_Suc
    by (auto simp: populatetable_body_def Let_def split: prod.split)
qed

lemma bufsize_fold:
  "bufsize (fold (populatetable_body 3 seed) [0..<n]
      \<lparr>fwdvecs = t, fwds = s, buffer = [], bufsize = 0, fwd_calls = []\<rparr>) = (n div 4) mod 10001"
proof (induction n)
  case 0
  show ?case by simp
next
  case (Suc n)
  from bufsize_body[OF Suc] show ?case by simp
qed

lemma fwdvecs_body_no_flush:
  assumes "bufsize w + 1 \<le> 10000"
  shows "fwdvecs (populatetable_body ind seed n w) = fwdvecs w"
  using assms by (simp add: populatetable_body_def Let_def split: prod.split)

lemma fold_upt_Suc: "fold f [0..<Suc n] w = f n (fold f [0..<n] w)"
  by simp

lemma size1_Suc: "size1 = Suc 536870911"
  by (simp add: size1_def)

lemma populatetable_3_last:
  "fwdvecs (populatetable t s 3 seed size1) =
   fwdvecs (fold (populatetable_body 3 seed) [0..<536870911]
      \<lparr>fwdvecs = t, fwds = s, buffer = [], bufsize = 0, fwd_calls = []\<rparr>)"
proof -
  have "bufsize (fold (populatetable_body 3 seed) [0..<536870911]
      \<lparr>fwdvecs = t, fwds = s, buffer = [], bufsize = 0, fwd_calls = []\<rparr>) + 1 \<le> 10000"
    unfolding bufsize_fold by simp
  then show ?thesis
    unfolding populatetable_def size1_Suc fold_upt_Suc by (rule fwdvecs_body_no_flush)
qed

lemma last_dof_differs:
  assumes "i < size1" and "i \<noteq> 536870911"
  shows "dof_of_index i \<noteq> dof_of_index 536870911"
proof
  assume "dof_of_index i = dof_of_index 536870911"
  moreover have "i < 2 ^ 32"
    using assms(1) by (simp add: size1_def)
  moreover have "(536870911::nat) < 2 ^ 32"
    by simp
  ultimately have "i = 536870911"
    by (rule dof_of_index_inj)
  with assms(2) show False
    by simp
qed

lemma populatetable_keeps_last_out:
  assumes "\<forall>m0 m1 m2. \<forall>v\<in>set (t m0 m1 m2). tl v \<noteq> dof_of_index 536870911" and "ind < 4"
  shows "\<forall>m0 m1 m2. \<forall>v\<in>set (fwdvecs (populatetable t s ind seed size1) m0 m1 m2).
     tl v \<noteq> dof_of_index 536870911"
proof (cases "ind = 3")
  case True
  have "fwd_inv t 3 536870911 (fold (populatetable_body 3 seed) [0..<536870911]
      \<lparr>fwdvecs = t, fwds = s, buffer = [], bufsize = 0, fwd_calls = []\<rparr>)"
    by (rule fwd_inv_fold[OF fwd_inv_start])
  then have "\<forall>m0 m1 m2. \<forall>v\<in>set (fwdvecs (populatetable t s 3 seed size1) m0 m1 m2).
      v \<in> set (t m0 m1 m2) \<or> (\<exists>i<536870911. tl v = dof_of_index i)"
    unfolding populatetable_3_last fwd_inv_def by blast
  moreover have "dof_of_index i \<noteq> dof_of_index 536870911" if "i < 536870911" for i
    using that by (intro last_dof_differs) (simp_all add: size1_def)
  ultimately show ?thesis
    using assms(1) True by metis
next
  case False
  have "fwd_inv t ind size1 (populatetable t s ind seed size1)"
    unfolding populatetable_def by (rule fwd_inv_fold[OF fwd_inv_start])
  then have "\<forall>m0 m1 m2. \<forall>v\<in>set (fwdvecs (populatetable t s ind seed size1) m0 m1 m2).
      v \<in> set (t m0 m1 m2) \<or> (\<exists>i < size1. i mod 4 = ind \<and> tl v = dof_of_index i)"
    unfolding fwd_inv_def by blast
  moreover have "dof_of_index i \<noteq> dof_of_index 536870911" if "i < size1" "i mod 4 = ind" for i
  proof (rule last_dof_differs[OF that(1)])
    have "(536870911::nat) mod 4 = 3"
      by simp
    with that(2) False show "i \<noteq> 536870911"
      by auto
  qed
  ultimately show ?thesis
    using assms(1) by metis
qed

text \<open>Claim C3 asks that, when the four threads of the first step have been joined, the
  table holds the array of every index below \<open>size1\<close>. A thread empties its buffer into
  the table only when the buffer holds more than 10000 arrays, and \<^verbatim>\<open>populatetable\<close> ends
  with its loop: each thread has \<open>2^27\<close> turns, 4308 more than a multiple of 10001, so its
  last 4308 arrays never reach the table. The last index \<open>size1 - 1 = 536870911\<close>, with the
  degrees of freedom \<open>ff ff ff 1f\<close>, is one of them: no vector of the table holds an array
  with these degrees of freedom, whatever its first byte and whatever the seed and the
  scratch states.\<close>

theorem populate_phase_loses_last_index:
  "m3 # dof_of_index (size1 - 1) \<notin> set (populate_phase scratch seed size1 m0 m1 m2)"
proof -
  have e: "\<forall>m0 m1 m2. \<forall>v\<in>set (empty_fwdvecs m0 m1 m2). tl v \<noteq> dof_of_index 536870911"
    by (simp add: empty_fwdvecs_def)
  note k = populatetable_keeps_last_out
  have "\<forall>m0 m1 m2. \<forall>v\<in>set (populate_phase scratch seed size1 m0 m1 m2).
      tl v \<noteq> dof_of_index 536870911"
    unfolding populate_phase_def fold_simps
    by (intro k e) simp_all
  moreover have "size1 - 1 = 536870911"
    by (simp add: size1_def)
  ultimately show ?thesis
    by fastforce
qed

section \<open>The AES-NI instructions and the byte-oriented round\<close>

text \<open>The tables of the source are the S-box and the products by 2 and 3 of FIPS-197.\<close>

lemma gf_mult_unroll:
  "gf_mult a b = gf_mult_loop (Suc (Suc (Suc (Suc (Suc (Suc (Suc (Suc 0)))))))) a b"
  by (simp add: gf_mult_def numeral_eq_Suc)

lemma take_bit_num_1_One: "take_bit_num 1 num.One = Some num.One"
  by (simp add: take_bit_num_def)

lemmas gf_eval = gf_mult_unroll gf_xtime_def gf_square_def gf_inverse_def rotl1_def
  aes_affine_def aes_sbox_nat_def aes_sbox_def gf_times_def take_bit_num_1_One

lemma gf_times_2_table: "map (gf_times 2) all_bytes = table2"
  unfolding table2_def all_bytes_def by (simp add: gf_eval del: One_nat_def)

lemma gf_times_3_table: "map (gf_times 3) all_bytes = table3"
  unfolding table3_def all_bytes_def by (simp add: gf_eval del: One_nat_def)

lemma sbox_chunk_0: "map aes_sbox (take 64 all_bytes) = take 64 sbox_table"
  unfolding sbox_table_def all_bytes_def by (simp add: gf_eval del: One_nat_def)

lemma sbox_chunk_1: "map aes_sbox (take 64 (drop 64 all_bytes)) = take 64 (drop 64 sbox_table)"
  unfolding sbox_table_def all_bytes_def by (simp add: gf_eval del: One_nat_def)

lemma sbox_chunk_2: "map aes_sbox (take 64 (drop 128 all_bytes)) = take 64 (drop 128 sbox_table)"
  unfolding sbox_table_def all_bytes_def by (simp add: gf_eval del: One_nat_def)

lemma sbox_chunk_3: "map aes_sbox (drop 192 all_bytes) = drop 192 sbox_table"
  unfolding sbox_table_def all_bytes_def by (simp add: gf_eval del: One_nat_def)

lemma four_chunks:
  "xs = take 64 xs @ take 64 (drop 64 xs) @ take 64 (drop 128 xs) @ drop 192 xs"
proof -
  have a: "take 64 (drop 128 xs) @ drop 192 xs = drop 128 xs"
    using append_take_drop_id[of 64 "drop 128 xs"] by simp
  have b: "take 64 (drop 64 xs) @ drop 128 xs = drop 64 xs"
    using append_take_drop_id[of 64 "drop 64 xs"] by simp
  show ?thesis
    unfolding a b by simp
qed

lemma sbox_table_aes: "map aes_sbox all_bytes = sbox_table"
proof -
  have "map aes_sbox all_bytes = map aes_sbox (take 64 all_bytes)
      @ map aes_sbox (take 64 (drop 64 all_bytes))
      @ map aes_sbox (take 64 (drop 128 all_bytes)) @ map aes_sbox (drop 192 all_bytes)"
    by (subst four_chunks[of all_bytes]) (simp only: map_append)
  also have "\<dots> = sbox_table"
    unfolding sbox_chunk_0 sbox_chunk_1 sbox_chunk_2 sbox_chunk_3
    by (rule four_chunks[symmetric])
  finally show ?thesis .
qed

lemma table_of_map:
  assumes "map f all_bytes = t"
  shows "t ! unat (b::uint8_t) = f b"
proof -
  have "t ! unat b = f (all_bytes ! unat b)"
    using unat_byte_less[of b] unfolding assms[symmetric]
    by (simp add: length_all_bytes)
  then show ?thesis
    by (simp add: nth_all_bytes)
qed

lemma aes_sbox_sbox: "aes_sbox b = sbox b"
  by (simp add: sbox_def table_of_map[OF sbox_table_aes])

lemma gf_times_2: "gf_times 2 b = times2 b"
  by (simp add: times2_def table_of_map[OF gf_times_2_table])

lemma gf_times_3: "gf_times 3 b = times3 b"
  by (simp add: times3_def table_of_map[OF gf_times_3_table])

text \<open>\<^verbatim>\<open>AESENC\<close> on a register is the round \<open>aesenc\<close> of the source on its bytes.\<close>

lemma aes_ShiftRows_explicit:
  "aes_ShiftRows [a0,a1,a2,a3,a4,a5,a6,a7,a8,a9,a10,a11,a12,a13,a14,a15] =
     [a0, a5, a10, a15, a4, a9, a14, a3, a8, a13, a2, a7, a12, a1, a6, a11]"
  by (simp add: aes_ShiftRows_def upt16)

lemma aes_MixColumns_explicit:
  "aes_MixColumns [a0,a1,a2,a3,a4,a5,a6,a7,a8,a9,a10,a11,a12,a13,a14,a15] =
     mixcolumns [a0,a1,a2,a3,a4,a5,a6,a7,a8,a9,a10,a11,a12,a13,a14,a15]"
  unfolding mixcolumns_explicit
  by (simp add: aes_MixColumns_def upt4 Let_def gf_times_2 gf_times_3)

lemma length_rcons_rows: "k < 40 \<Longrightarrow> length (haraka_rcons_table ! k) = 16"
proof -
  have "list_all (\<lambda>l. length l = 16) haraka_rcons_table"
    by (simp add: haraka_rcons_table_def)
  then show "k < 40 \<Longrightarrow> length (haraka_rcons_table ! k) = 16"
    by (simp add: list_all_length length_haraka_rcons_table)
qed

lemma value_to_state_main_rc:
  assumes "k < 40"
  shows "value_to_state (main_rc ! k) = haraka_rcons_table ! k"
proof -
  from assms have "map value_to_state main_rc ! k = value_to_state (main_rc ! k)"
    by (simp add: length_main_rc)
  then show ?thesis
    by (simp add: main_rc_bytes)
qed

lemma aesenc_register:
  assumes "r < 10" and "j < 4"
  shows "value_to_state (mm_aesenc_si128 v (main_rc ! (4 * r + j))) = aesenc (value_to_state v) r j"
proof -
  from assms have k: "4 * r + j < 40"
    by simp
  obtain a0 a1 a2 a3 a4 a5 a6 a7 a8 a9 a10 a11 a12 a13 a14 a15
    where v: "value_to_state v = [a0,a1,a2,a3,a4,a5,a6,a7,a8,a9,a10,a11,a12,a13,a14,a15]"
    using length_value_to_state[of v] by (elim len16E)
  obtain c0 c1 c2 c3 c4 c5 c6 c7 c8 c9 c10 c11 c12 c13 c14 c15
    where c: "haraka_rcons_table ! (4 * r + j) = [c0,c1,c2,c3,c4,c5,c6,c7,c8,c9,c10,c11,c12,c13,c14,c15]"
    using length_rcons_rows[OF k] by (elim len16E)
  have "length (aes_MixColumns (aes_SubBytes (aes_ShiftRows (value_to_state v)))) = 16"
    unfolding v aes_ShiftRows_explicit aes_SubBytes_def list.map aes_MixColumns_explicit
      mixcolumns_explicit by simp
  then show ?thesis
    unfolding mm_aesenc_si128_def value_to_state_xor value_to_state_main_rc[OF k]
    by (simp add: value_to_state_state_to_value)
      (simp add: v c aes_ShiftRows_explicit aes_SubBytes_def aes_MixColumns_explicit
        mixcolumns_explicit aesenc_def sbsr_explicit mcrc_explicit aes_sbox_sbox xor.assoc)
qed

text \<open>The two unpack instructions on the bytes of the registers.\<close>

lemma byte_of_lane32:
  assumes "i < 4" and "k < 4"
  shows "(ucast (drop_bit (8 * i) (lane32 a k)) :: uint8_t) = value_to_state a ! (4 * k + i)"
proof -
  have "(ucast (drop_bit (8 * i) (lane32 a k)) :: uint8_t) = ucast (drop_bit (8 * (4 * k + i)) a)"
  proof (rule bit_eqI)
    fix n
    assume "possible_bit TYPE(uint8_t) n"
    then have n: "n < 8"
      by (simp add: possible_bit_word)
    with assms have "8 * i + n < 32"
      by simp
    moreover have "32 * k + (8 * i + n) = 8 * (4 * k + i) + n"
      by simp
    ultimately show "bit (ucast (drop_bit (8 * i) (lane32 a k)) :: uint8_t) n
        \<longleftrightarrow> bit (ucast (drop_bit (8 * (4 * k + i)) a) :: uint8_t) n"
      using n by (simp add: bit_simps lane32_def add.assoc)
  qed
  moreover from assms have "4 * k + i < 16"
    by simp
  ultimately show ?thesis
    by (simp add: value_to_state_def del: upt_Suc)
qed

lemma bytes_of_lane32:
  assumes "k < 4"
  shows "(ucast (lane32 a k) :: uint8_t) = value_to_state a ! (4 * k)"
    and "(ucast (drop_bit 8 (lane32 a k)) :: uint8_t) = value_to_state a ! (4 * k + 1)"
    and "(ucast (drop_bit 16 (lane32 a k)) :: uint8_t) = value_to_state a ! (4 * k + 2)"
    and "(ucast (drop_bit 24 (lane32 a k)) :: uint8_t) = value_to_state a ! (4 * k + 3)"
  using byte_of_lane32[of 0 k a] byte_of_lane32[of 1 k a] byte_of_lane32[of 2 k a]
    byte_of_lane32[of 3 k a] assms
  by simp_all

lemma unpacklo_bytes:
  assumes "value_to_state a = [a0,a1,a2,a3,a4,a5,a6,a7,a8,a9,a10,a11,a12,a13,a14,a15]"
    and "value_to_state b = [b0,b1,b2,b3,b4,b5,b6,b7,b8,b9,b10,b11,b12,b13,b14,b15]"
  shows "value_to_state (mm_unpacklo_epi32 a b) =
     [a0,a1,a2,a3, b0,b1,b2,b3, a4,a5,a6,a7, b4,b5,b6,b7]"
  unfolding mm_unpacklo_epi32_def value_to_state_mm_set_epi32
  using bytes_of_lane32[of 0 a] bytes_of_lane32[of 1 a] bytes_of_lane32[of 0 b]
    bytes_of_lane32[of 1 b]
  by (simp add: assms)

lemma unpackhi_bytes:
  assumes "value_to_state a = [a0,a1,a2,a3,a4,a5,a6,a7,a8,a9,a10,a11,a12,a13,a14,a15]"
    and "value_to_state b = [b0,b1,b2,b3,b4,b5,b6,b7,b8,b9,b10,b11,b12,b13,b14,b15]"
  shows "value_to_state (mm_unpackhi_epi32 a b) =
     [a8,a9,a10,a11, b8,b9,b10,b11, a12,a13,a14,a15, b12,b13,b14,b15]"
  unfolding mm_unpackhi_epi32_def value_to_state_mm_set_epi32
  using bytes_of_lane32[of 2 a] bytes_of_lane32[of 3 a] bytes_of_lane32[of 2 b]
    bytes_of_lane32[of 3 b]
  by (simp add: assms)

text \<open>One round of \<open>haraka512pi_opt\<close> on the registers is one round of \<open>haraka512pi\<close> on
  their bytes.\<close>

lemma len4_explicit:
  assumes "length (s::'a list) = 4"
  obtains v0 v1 v2 v3 where "s = [v0, v1, v2, v3]"
  using assms by (rule len4E)

lemma aesenc_all_explicit:
  "aesenc_all [l0, l1, l2, l3] r = [aesenc l0 r 0, aesenc l1 r 1, aesenc l2 r 2, aesenc l3 r 3]"
  by (simp add: aesenc_all_def upt4 upd_num fold_simps del: fold.simps cong: fold_weak_cong)

lemma mix_registers:
  "map value_to_state
     [mm_unpackhi_epi32 (mm_unpackhi_epi32 v0 v1) (mm_unpackhi_epi32 v2 v3),
      mm_unpacklo_epi32 (mm_unpacklo_epi32 v2 v3) (mm_unpacklo_epi32 v0 v1),
      mm_unpackhi_epi32 (mm_unpacklo_epi32 v2 v3) (mm_unpacklo_epi32 v0 v1),
      mm_unpacklo_epi32 (mm_unpackhi_epi32 v0 v1) (mm_unpackhi_epi32 v2 v3)]
   = mix512 (map value_to_state [v0, v1, v2, v3])"
proof -
  obtain a0 a1 a2 a3 a4 a5 a6 a7 a8 a9 a10 a11 a12 a13 a14 a15
    where a: "value_to_state v0 = [a0,a1,a2,a3,a4,a5,a6,a7,a8,a9,a10,a11,a12,a13,a14,a15]"
    using length_value_to_state[of v0] by (elim len16E)
  obtain b0 b1 b2 b3 b4 b5 b6 b7 b8 b9 b10 b11 b12 b13 b14 b15
    where b: "value_to_state v1 = [b0,b1,b2,b3,b4,b5,b6,b7,b8,b9,b10,b11,b12,b13,b14,b15]"
    using length_value_to_state[of v1] by (elim len16E)
  obtain c0 c1 c2 c3 c4 c5 c6 c7 c8 c9 c10 c11 c12 c13 c14 c15
    where c: "value_to_state v2 = [c0,c1,c2,c3,c4,c5,c6,c7,c8,c9,c10,c11,c12,c13,c14,c15]"
    using length_value_to_state[of v2] by (elim len16E)
  obtain d0 d1 d2 d3 d4 d5 d6 d7 d8 d9 d10 d11 d12 d13 d14 d15
    where d: "value_to_state v3 = [d0,d1,d2,d3,d4,d5,d6,d7,d8,d9,d10,d11,d12,d13,d14,d15]"
    using length_value_to_state[of v3] by (elim len16E)
  note lo01 = unpacklo_bytes[OF a b] and hi01 = unpackhi_bytes[OF a b]
    and lo23 = unpacklo_bytes[OF c d] and hi23 = unpackhi_bytes[OF c d]
  show ?thesis
    unfolding list.map a b c d mix512_explicit
      unpackhi_bytes[OF hi01 hi23] unpacklo_bytes[OF lo23 lo01]
      unpackhi_bytes[OF lo23 lo01] unpacklo_bytes[OF hi01 hi23]
    by (rule refl)
qed

lemma round_registers:
  assumes "r < 10" and "length s = 4"
  shows "length ((let s = s[0 := mm_aesenc_si128 (s ! 0) (main_rc ! (4 * r))];
                s = s[1 := mm_aesenc_si128 (s ! 1) (main_rc ! (4 * r + 1))];
                s = s[2 := mm_aesenc_si128 (s ! 2) (main_rc ! (4 * r + 2))];
                s = s[3 := mm_aesenc_si128 (s ! 3) (main_rc ! (4 * r + 3))]
            in if r mod 2 = 1 then
                 (let tmp = mm_unpacklo_epi32 (s ! 0) (s ! 1);
                      s = s[0 := mm_unpackhi_epi32 (s ! 0) (s ! 1)];
                      s = s[1 := mm_unpacklo_epi32 (s ! 2) (s ! 3)];
                      s = s[2 := mm_unpackhi_epi32 (s ! 2) (s ! 3)];
                      s = s[3 := mm_unpacklo_epi32 (s ! 0) (s ! 2)];
                      s = s[0 := mm_unpackhi_epi32 (s ! 0) (s ! 2)];
                      s = s[2 := mm_unpackhi_epi32 (s ! 1) tmp];
                      s = s[1 := mm_unpacklo_epi32 (s ! 1) tmp]
                  in s)
               else s)) = 4
      \<and> map value_to_state
           (let s = s[0 := mm_aesenc_si128 (s ! 0) (main_rc ! (4 * r))];
                s = s[1 := mm_aesenc_si128 (s ! 1) (main_rc ! (4 * r + 1))];
                s = s[2 := mm_aesenc_si128 (s ! 2) (main_rc ! (4 * r + 2))];
                s = s[3 := mm_aesenc_si128 (s ! 3) (main_rc ! (4 * r + 3))]
            in if r mod 2 = 1 then
                 (let tmp = mm_unpacklo_epi32 (s ! 0) (s ! 1);
                      s = s[0 := mm_unpackhi_epi32 (s ! 0) (s ! 1)];
                      s = s[1 := mm_unpacklo_epi32 (s ! 2) (s ! 3)];
                      s = s[2 := mm_unpackhi_epi32 (s ! 2) (s ! 3)];
                      s = s[3 := mm_unpacklo_epi32 (s ! 0) (s ! 2)];
                      s = s[0 := mm_unpackhi_epi32 (s ! 0) (s ! 2)];
                      s = s[2 := mm_unpackhi_epi32 (s ! 1) tmp];
                      s = s[1 := mm_unpacklo_epi32 (s ! 1) tmp]
                  in s)
               else s)
        = (let hkstate = aesenc_all (map value_to_state s) r
           in if r mod 2 = 1 then mix512 hkstate else hkstate)"
proof -
  from assms(2) obtain v0 v1 v2 v3 where s: "s = [v0, v1, v2, v3]"
    by (rule len4_explicit)
  have e: "value_to_state (mm_aesenc_si128 v (main_rc ! (4 * r))) = aesenc (value_to_state v) r 0"
    for v
    using aesenc_register[OF assms(1), of 0 v] by simp
  note es = e aesenc_register[OF assms(1), of 1] aesenc_register[OF assms(1), of 2]
    aesenc_register[OF assms(1), of 3] aesenc_register[OF assms(1), of 1, simplified]
    aesenc_register[OF assms(1), of 2, simplified] aesenc_register[OF assms(1), of 3, simplified]
  show ?thesis
  proof (cases "r mod 2 = 1")
    case False
    then show ?thesis
      unfolding s by (simp add: exec_simps aesenc_all_explicit es cong: let_weak_cong)
  next
    case True
    have "mix512 (map value_to_state
        [mm_aesenc_si128 v0 (main_rc ! (4 * r)), mm_aesenc_si128 v1 (main_rc ! (4 * r + 1)),
         mm_aesenc_si128 v2 (main_rc ! (4 * r + 2)), mm_aesenc_si128 v3 (main_rc ! (4 * r + 3))])
      = mix512 (aesenc_all (map value_to_state [v0, v1, v2, v3]) r)"
      by (simp add: aesenc_all_explicit es)
    then show ?thesis
      unfolding s mix_registers[symmetric] using True
      by (simp add: exec_simps cong: let_weak_cong)
  qed
qed

lemma fold_registers:
  assumes "\<And>r s. r \<in> set rs \<Longrightarrow> length s = 4
      \<Longrightarrow> length (f r s) = 4 \<and> map value_to_state (f r s) = g r (map value_to_state s)"
    and "length (s::m128i list) = 4"
  shows "length (fold f rs s) = 4
     \<and> map value_to_state (fold f rs s) = fold g rs (map value_to_state s)"
  using assms
proof (induction rs arbitrary: s)
  case Nil
  then show ?case by simp
next
  case (Cons r rs)
  from Cons.prems(1)[of r s] Cons.prems(2)
  have 1: "length (f r s) = 4" "map value_to_state (f r s) = g r (map value_to_state s)"
    by simp_all
  from Cons.IH[of "f r s"] Cons.prems(1) 1 show ?case
    by simp
qed

lemma load_registers:
  assumes "length hkstate = 4"
  shows "fold (\<lambda>i s. s[i := state_to_value (hkstate ! i)]) [0..<4] (replicate 4 0)
     = map state_to_value hkstate"
proof -
  from assms obtain l0 l1 l2 l3 where "hkstate = [l0, l1, l2, l3]"
    by (rule len4_explicit)
  then show ?thesis
    by (simp add: upt4 upd_num numeral_eq_Suc)
qed

lemma store_registers:
  assumes "length hkstate = 4" and "length s = 4"
  shows "fold (\<lambda>i hk. hk[i := value_to_state (s ! i)]) [0..<4] hkstate = map value_to_state s"
proof -
  from assms(1) obtain l0 l1 l2 l3 where "hkstate = [l0, l1, l2, l3]"
    by (rule len4_explicit)
  moreover from assms(2) obtain v0 v1 v2 v3 where "s = [v0, v1, v2, v3]"
    by (rule len4_explicit)
  ultimately show ?thesis
    by (simp add: upt4 upd_num)
qed

text \<open>Claim C1. On every state of four blocks of 16 bytes, with the round constants that
  \<open>main\<close> builds, the permutation \<open>haraka512pi_opt\<close> written with the AES-NI instructions
  and the byte-oriented permutation \<open>haraka512pi\<close> give the same state after the 10
  rounds.\<close>

theorem haraka512pi_opt_is_haraka512pi:
  assumes "hkstate_ok hkstate"
  shows "haraka512pi_opt main_rc hkstate = haraka512pi hkstate"
proof -
  from assms have len: "length hkstate = 4" and lanes: "\<forall>l\<in>set hkstate. length l = 16"
    by (simp_all add: hkstate_ok_def list_all_iff)
  have bytes: "map value_to_state (map state_to_value hkstate) = hkstate"
    using lanes by (simp add: value_to_state_state_to_value map_idI)
  have "length (map state_to_value hkstate) = 4"
    using len by simp
  with round_registers have rounds: "length (fold (\<lambda>r s.
           (let s = s[0 := mm_aesenc_si128 (s ! 0) (main_rc ! (4 * r))];
                s = s[1 := mm_aesenc_si128 (s ! 1) (main_rc ! (4 * r + 1))];
                s = s[2 := mm_aesenc_si128 (s ! 2) (main_rc ! (4 * r + 2))];
                s = s[3 := mm_aesenc_si128 (s ! 3) (main_rc ! (4 * r + 3))]
            in if r mod 2 = 1 then
                 (let tmp = mm_unpacklo_epi32 (s ! 0) (s ! 1);
                      s = s[0 := mm_unpackhi_epi32 (s ! 0) (s ! 1)];
                      s = s[1 := mm_unpacklo_epi32 (s ! 2) (s ! 3)];
                      s = s[2 := mm_unpackhi_epi32 (s ! 2) (s ! 3)];
                      s = s[3 := mm_unpacklo_epi32 (s ! 0) (s ! 2)];
                      s = s[0 := mm_unpackhi_epi32 (s ! 0) (s ! 2)];
                      s = s[2 := mm_unpackhi_epi32 (s ! 1) tmp];
                      s = s[1 := mm_unpacklo_epi32 (s ! 1) tmp]
                  in s)
               else s)) [0..<10] (map state_to_value hkstate)) = 4
     \<and> map value_to_state (fold (\<lambda>r s.
           (let s = s[0 := mm_aesenc_si128 (s ! 0) (main_rc ! (4 * r))];
                s = s[1 := mm_aesenc_si128 (s ! 1) (main_rc ! (4 * r + 1))];
                s = s[2 := mm_aesenc_si128 (s ! 2) (main_rc ! (4 * r + 2))];
                s = s[3 := mm_aesenc_si128 (s ! 3) (main_rc ! (4 * r + 3))]
            in if r mod 2 = 1 then
                 (let tmp = mm_unpacklo_epi32 (s ! 0) (s ! 1);
                      s = s[0 := mm_unpackhi_epi32 (s ! 0) (s ! 1)];
                      s = s[1 := mm_unpacklo_epi32 (s ! 2) (s ! 3)];
                      s = s[2 := mm_unpackhi_epi32 (s ! 2) (s ! 3)];
                      s = s[3 := mm_unpacklo_epi32 (s ! 0) (s ! 2)];
                      s = s[0 := mm_unpackhi_epi32 (s ! 0) (s ! 2)];
                      s = s[2 := mm_unpackhi_epi32 (s ! 1) tmp];
                      s = s[1 := mm_unpacklo_epi32 (s ! 1) tmp]
                  in s)
               else s)) [0..<10] (map state_to_value hkstate))
      = fold (\<lambda>r hkstate. (let hkstate = aesenc_all hkstate r
           in if r mod 2 = 1 then mix512 hkstate else hkstate)) [0..<10]
          (map value_to_state (map state_to_value hkstate))"
    by (intro fold_registers) (simp_all del: upt_Suc)
  show ?thesis
    unfolding haraka512pi_opt_def haraka512pi_def load_registers[OF len]
    by (simp only: Let_def[of "map state_to_value hkstate"] Let_def[of "fold _ _ _"]
        store_registers[OF len conjunct1[OF rounds]] conjunct2[OF rounds] bytes)
qed

theorem haraka512pi_opt_is_haraka512pi_witness:
  "haraka512pi_opt main_rc (replicate 4 [0, 1, 2, 3, 4, 5, 6, 7, 8, 9, 10, 11, 12, 13, 14, 15])
   = haraka512pi (replicate 4 [0, 1, 2, 3, 4, 5, 6, 7, 8, 9, 10, 11, 12, 13, 14, 15])"
  using haraka512pi_opt_is_haraka512pi[of
      "replicate 4 [0, 1, 2, 3, 4, 5, 6, 7, 8, 9, 10, 11, 12, 13, 14, 15]"]
  by (simp add: hkstate_ok_def list_all_iff)

section \<open>A match gives an input whose image has the matched bytes\<close>

text \<open>The round and its inverse, the other way round.\<close>

lemma finite_states: "finite {l::state_t. length l = 16}"
proof -
  have "finite {l::state_t. set l \<subseteq> UNIV \<and> length l = 16}"
    by (rule finite_lists_length_eq) simp
  then show ?thesis
    by simp
qed

lemma right_inverse_of_left_inverse:
  assumes "finite A" and "\<And>x. x \<in> A \<Longrightarrow> f x \<in> A" and "\<And>x. x \<in> A \<Longrightarrow> g (f x) = x"
    and "y \<in> A"
  shows "f (g y) = y"
proof -
  have "inj_on f A"
    by (rule inj_on_inverseI[of A g f]) (rule assms(3))
  moreover have "f ` A \<subseteq> A"
    using assms(2) by blast
  ultimately have "f ` A = A"
    using assms(1) by (simp add: endo_inj_surj)
  with assms(4) obtain x where "x \<in> A" "y = f x"
    by blast
  with assms(3)[of x] show ?thesis
    by simp
qed

lemma aesenc_invaesenc:
  assumes "length s = 16"
  shows "aesenc (invaesenc s r j) r j = s"
proof (rule right_inverse_of_left_inverse[OF finite_states, of "\<lambda>l. aesenc l r j"])
  show "aesenc x r j \<in> {l. length l = 16}" if "x \<in> {l. length l = 16}" for x
    using that by (simp add: length_aesenc)
  show "invaesenc (aesenc x r j) r j = x" if "x \<in> {l. length l = 16}" for x
    using that by (simp add: invaesenc_aesenc)
  show "s \<in> {l. length l = 16}"
    using assms by simp
qed

lemma invaesenc_all_explicit:
  "invaesenc_all [l0, l1, l2, l3] r =
     [invaesenc l0 r 0, invaesenc l1 r 1, invaesenc l2 r 2, invaesenc l3 r 3]"
  by (simp add: invaesenc_all_def upt4 upd_num fold_simps del: fold.simps cong: fold_weak_cong)

lemma hkstate_ok_aesenc_all: "hkstate_ok s \<Longrightarrow> hkstate_ok (aesenc_all s r)"
  by (erule hkstate_okE) (simp add: aesenc_all_explicit hkstate_ok_def length_aesenc)

lemma hkstate_ok_invaesenc_all: "hkstate_ok s \<Longrightarrow> hkstate_ok (invaesenc_all s r)"
  by (erule hkstate_okE) (simp add: invaesenc_all_explicit hkstate_ok_def length_invaesenc)

lemma aesenc_all_invaesenc_all: "hkstate_ok s \<Longrightarrow> aesenc_all (invaesenc_all s r) r = s"
  by (erule hkstate_okE)
    (simp add: aesenc_all_explicit invaesenc_all_explicit aesenc_invaesenc)

lemma invaesenc_all_aesenc_all: "hkstate_ok s \<Longrightarrow> invaesenc_all (aesenc_all s r) r = s"
  by (erule hkstate_okE)
    (simp add: aesenc_all_explicit invaesenc_all_explicit invaesenc_aesenc)

text \<open>The ten rounds of \<open>haraka512pi\<close>, written out.\<close>

lemma upt10: "[0..<10] = [0, 1, 2, 3, 4, 5, 6, 7, 8, 9]"
  by code_simp

lemma haraka512pi_explicit:
  "haraka512pi s =
     mix512 (aesenc_all (aesenc_all (mix512 (aesenc_all (aesenc_all (mix512 (aesenc_all
       (aesenc_all (mix512 (aesenc_all (aesenc_all (mix512 (aesenc_all (aesenc_all s 0) 1)) 2)
         3)) 4) 5)) 6) 7)) 8) 9)"
  by (simp add: haraka512pi_def upt10 fold_simps Let_def del: fold.simps cong: fold_weak_cong)

lemma first_rounds_of_preimage:
  assumes "hkstate_ok x5"
  shows "aesenc_all (mix512 (aesenc_all (aesenc_all (mix512 (aesenc_all (aesenc_all
      (invaesenc_all (invaesenc_all (invmix512 (invaesenc_all (invaesenc_all (invmix512
         (invaesenc_all x5 4)) 3) 2)) 1) 0) 0) 1)) 2) 3)) 4 = x5"
proof -
  note ok = hkstate_ok_invaesenc_all length_invmix512
  note inv = aesenc_all_invaesenc_all mix512_invmix512_lemma
  have 4: "hkstate_ok (invaesenc_all x5 4)"
    by (intro ok assms)
  have 3: "hkstate_ok (invaesenc_all (invmix512 (invaesenc_all x5 4)) 3)"
    by (intro ok assms)
  have 2: "hkstate_ok (invaesenc_all (invaesenc_all (invmix512 (invaesenc_all x5 4)) 3) 2)"
    by (intro ok assms)
  have 1: "hkstate_ok (invaesenc_all (invmix512 (invaesenc_all (invaesenc_all (invmix512
      (invaesenc_all x5 4)) 3) 2)) 1)"
    by (intro ok assms)
  show ?thesis
    by (simp add: inv assms 1 2 3 4 ok)
qed

text \<open>The bytes of the match: \<^verbatim>\<open>computebwd\<close> reads after MC what \<^verbatim>\<open>computefwd\<close> reads
  before it.\<close>

lemma bwd_tuple_mixcolumns:
  assumes "length w = 16"
  shows "bwd_tuple (mixcolumns w) = fwd_tuple w"
proof -
  from assms obtain a0 a1 a2 a3 a4 a5 a6 a7 a8 a9 a10 a11 a12 a13 a14 a15
    where w: "w = [a0,a1,a2,a3,a4,a5,a6,a7,a8,a9,a10,a11,a12,a13,a14,a15]"
    by (rule len16E)
  show ?thesis
    unfolding w mixcolumns_explicit bwd_tuple_def fwd_tuple_def
    by (simp add: gf_simps xtime_xor xor.assoc xor.commute xor.left_commute xor_cancel_byte)
qed

lemma sbsr_shiftrows_subbytes:
  assumes "length w = 16"
  shows "shiftrows (subbytes w) = sbsr w"
proof -
  from assms obtain a0 a1 a2 a3 a4 a5 a6 a7 a8 a9 a10 a11 a12 a13 a14 a15
    where w: "w = [a0,a1,a2,a3,a4,a5,a6,a7,a8,a9,a10,a11,a12,a13,a14,a15]"
    by (rule len16E)
  show ?thesis
    unfolding w subbytes_explicit shiftrows_explicit sbsr_explicit by (rule refl)
qed

lemma output_fingerprint_of_rounds:
  assumes "hkstate_ok y"
  shows "output_fingerprint (mix512 (aesenc_all (aesenc_all y 8) 9))
     = fwd_tuple (shiftrows (subbytes (y ! 2)))"
proof -
  from assms obtain l0 l1 l2 l3 where y: "y = [l0, l1, l2, l3]"
    and l: "length l0 = 16" "length l1 = 16" "length l2 = 16" "length l3 = 16"
    by (rule hkstate_okE)
  have ok: "hkstate_ok (aesenc_all (aesenc_all y 8) 9)"
    by (intro hkstate_ok_aesenc_all assms)
  have a: "invaesenc (aesenc (aesenc l2 8 2) 9 2) 9 2 = aesenc l2 8 2"
    using l by (simp add: invaesenc_aesenc length_aesenc)
  have b: "aesenc l2 8 2 = xor_rcons (mixcolumns (sbsr l2)) 8 2"
    using l by (simp add: aesenc_def mcrc_eq length_sbsr)
  have "xor_rcons (aesenc l2 8 2) 8 2 = mixcolumns (sbsr l2)"
    unfolding b using l by (simp add: xor_rcons_twice length_mixcolumns length_sbsr)
  with a have "xor_rcons (invaesenc (aesenc (aesenc l2 8 2) 9 2) 9 2) 8 2 = mixcolumns (sbsr l2)"
    by simp
  then show ?thesis
    unfolding output_fingerprint_def invmix512_mix512_lemma[OF ok]
    using l by (simp add: y aesenc_all_explicit bwd_tuple_mixcolumns length_sbsr
        sbsr_shiftrows_subbytes)
qed


text \<open>The recombination: from the state \<open>x5\<close>, the inverse rounds give \<open>x0\<close> and the AES-NI
  rounds 5 to 9 give its image.\<close>

lemma regs_aes:
  assumes "r < 10"
    and "\<And>w0 w1 w2 w3. f w0 w1 w2 w3 = F (map value_to_state [w0, w1, w2, w3])"
  shows "(let s0 = mm_aesenc_si128 v0 (main_rc ! (4 * r));
              s1 = mm_aesenc_si128 v1 (main_rc ! (4 * r + 1));
              s2 = mm_aesenc_si128 v2 (main_rc ! (4 * r + 2));
              s3 = mm_aesenc_si128 v3 (main_rc ! (4 * r + 3))
          in f s0 s1 s2 s3) = F (aesenc_all (map value_to_state [v0, v1, v2, v3]) r)"
proof -
  have e: "value_to_state (mm_aesenc_si128 v (main_rc ! (4 * r))) = aesenc (value_to_state v) r 0"
    for v
    using aesenc_register[OF assms(1), of 0 v] by simp
  show ?thesis
    unfolding Let_def assms(2) list.map aesenc_all_explicit
    by (simp add: e aesenc_register[OF assms(1), of 1] aesenc_register[OF assms(1), of 2]
      aesenc_register[OF assms(1), of 3] aesenc_register[OF assms(1), of 1, simplified]
      aesenc_register[OF assms(1), of 2, simplified]
      aesenc_register[OF assms(1), of 3, simplified])
qed

lemma regs_mix:
  assumes "\<And>w0 w1 w2 w3. f w0 w1 w2 w3 = F (map value_to_state [w0, w1, w2, w3])"
  shows "(let tmp = mm_unpacklo_epi32 v0 v1; s0 = mm_unpackhi_epi32 v0 v1;
              s1 = mm_unpacklo_epi32 v2 v3; s2 = mm_unpackhi_epi32 v2 v3;
              s3 = mm_unpacklo_epi32 s0 s2; s0 = mm_unpackhi_epi32 s0 s2;
              s2 = mm_unpackhi_epi32 s1 tmp; s1 = mm_unpacklo_epi32 s1 tmp
          in f s0 s1 s2 s3) = F (mix512 (map value_to_state [v0, v1, v2, v3]))"
  unfolding Let_def assms mix_registers by (rule refl)

lemma recombination_from_x5:
  assumes "hkstate_ok x5" and "length pix0 = 4"
  shows "(let s0 = state_to_value (x5 ! 0);
         s1 = state_to_value (x5 ! 1);
         s2 = state_to_value (x5 ! 2);
         s3 = state_to_value (x5 ! 3);
         s = invaesenc_all x5 4;
         s = invmix512 s;
         s = invaesenc_all s 3;
         s = invaesenc_all s 2;
         s = invmix512 s;
         s = invaesenc_all s 1;
         s = invaesenc_all s 0;
         s0 = mm_aesenc_si128 s0 (main_rc ! (4 * 5)); s1 = mm_aesenc_si128 s1 (main_rc ! (4 * 5 + 1));
         s2 = mm_aesenc_si128 s2 (main_rc ! (4 * 5 + 2)); s3 = mm_aesenc_si128 s3 (main_rc ! (4 * 5 + 3));
         tmp = mm_unpacklo_epi32 s0 s1; s0 = mm_unpackhi_epi32 s0 s1;
         s1 = mm_unpacklo_epi32 s2 s3; s2 = mm_unpackhi_epi32 s2 s3;
         s3 = mm_unpacklo_epi32 s0 s2; s0 = mm_unpackhi_epi32 s0 s2;
         s2 = mm_unpackhi_epi32 s1 tmp; s1 = mm_unpacklo_epi32 s1 tmp;
         s0 = mm_aesenc_si128 s0 (main_rc ! (4 * 6)); s1 = mm_aesenc_si128 s1 (main_rc ! (4 * 6 + 1));
         s2 = mm_aesenc_si128 s2 (main_rc ! (4 * 6 + 2)); s3 = mm_aesenc_si128 s3 (main_rc ! (4 * 6 + 3));
         s0 = mm_aesenc_si128 s0 (main_rc ! (4 * 7)); s1 = mm_aesenc_si128 s1 (main_rc ! (4 * 7 + 1));
         s2 = mm_aesenc_si128 s2 (main_rc ! (4 * 7 + 2)); s3 = mm_aesenc_si128 s3 (main_rc ! (4 * 7 + 3));
         tmp = mm_unpacklo_epi32 s0 s1; s0 = mm_unpackhi_epi32 s0 s1;
         s1 = mm_unpacklo_epi32 s2 s3; s2 = mm_unpackhi_epi32 s2 s3;
         s3 = mm_unpacklo_epi32 s0 s2; s0 = mm_unpackhi_epi32 s0 s2;
         s2 = mm_unpackhi_epi32 s1 tmp; s1 = mm_unpacklo_epi32 s1 tmp;
         s0 = mm_aesenc_si128 s0 (main_rc ! (4 * 8)); s1 = mm_aesenc_si128 s1 (main_rc ! (4 * 8 + 1));
         s2 = mm_aesenc_si128 s2 (main_rc ! (4 * 8 + 2)); s3 = mm_aesenc_si128 s3 (main_rc ! (4 * 8 + 3));
         s0 = mm_aesenc_si128 s0 (main_rc ! (4 * 9)); s1 = mm_aesenc_si128 s1 (main_rc ! (4 * 9 + 1));
         s2 = mm_aesenc_si128 s2 (main_rc ! (4 * 9 + 2)); s3 = mm_aesenc_si128 s3 (main_rc ! (4 * 9 + 3));
         tmp = mm_unpacklo_epi32 s0 s1; s0 = mm_unpackhi_epi32 s0 s1;
         s1 = mm_unpacklo_epi32 s2 s3; s2 = mm_unpackhi_epi32 s2 s3;
         s3 = mm_unpacklo_epi32 s0 s2; s0 = mm_unpackhi_epi32 s0 s2;
         s2 = mm_unpackhi_epi32 s1 tmp; s1 = mm_unpacklo_epi32 s1 tmp;
         pix0 = pix0[0 := value_to_state s0];
         pix0 = pix0[1 := value_to_state s1];
         pix0 = pix0[2 := value_to_state s2];
         pix0 = pix0[3 := value_to_state s3]
          in (s, pix0))
     = (invaesenc_all (invaesenc_all (invmix512 (invaesenc_all (invaesenc_all (invmix512
       (invaesenc_all x5 4)) 3) 2)) 1) 0,
        mix512 (aesenc_all (aesenc_all (mix512 (aesenc_all (aesenc_all (mix512 (aesenc_all (x5) 5)) 6) 7)) 8) 9))"
proof -
  from assms(1) have bytes: "map value_to_state [state_to_value (x5 ! 0), state_to_value (x5 ! 1),
      state_to_value (x5 ! 2), state_to_value (x5 ! 3)] = x5"
    by (elim hkstate_okE) (simp add: value_to_state_state_to_value)
  from assms(2) obtain p0 p1 p2 p3 where pix0: "pix0 = [p0, p1, p2, p3]"
    by (rule len4_explicit)
  have "(let s0 = state_to_value (x5 ! 0);
         s1 = state_to_value (x5 ! 1);
         s2 = state_to_value (x5 ! 2);
         s3 = state_to_value (x5 ! 3);
         s = invaesenc_all x5 4;
         s = invmix512 s;
         s = invaesenc_all s 3;
         s = invaesenc_all s 2;
         s = invmix512 s;
         s = invaesenc_all s 1;
         s = invaesenc_all s 0;
         s0 = mm_aesenc_si128 s0 (main_rc ! (4 * 5)); s1 = mm_aesenc_si128 s1 (main_rc ! (4 * 5 + 1));
         s2 = mm_aesenc_si128 s2 (main_rc ! (4 * 5 + 2)); s3 = mm_aesenc_si128 s3 (main_rc ! (4 * 5 + 3));
         tmp = mm_unpacklo_epi32 s0 s1; s0 = mm_unpackhi_epi32 s0 s1;
         s1 = mm_unpacklo_epi32 s2 s3; s2 = mm_unpackhi_epi32 s2 s3;
         s3 = mm_unpacklo_epi32 s0 s2; s0 = mm_unpackhi_epi32 s0 s2;
         s2 = mm_unpackhi_epi32 s1 tmp; s1 = mm_unpacklo_epi32 s1 tmp;
         s0 = mm_aesenc_si128 s0 (main_rc ! (4 * 6)); s1 = mm_aesenc_si128 s1 (main_rc ! (4 * 6 + 1));
         s2 = mm_aesenc_si128 s2 (main_rc ! (4 * 6 + 2)); s3 = mm_aesenc_si128 s3 (main_rc ! (4 * 6 + 3));
         s0 = mm_aesenc_si128 s0 (main_rc ! (4 * 7)); s1 = mm_aesenc_si128 s1 (main_rc ! (4 * 7 + 1));
         s2 = mm_aesenc_si128 s2 (main_rc ! (4 * 7 + 2)); s3 = mm_aesenc_si128 s3 (main_rc ! (4 * 7 + 3));
         tmp = mm_unpacklo_epi32 s0 s1; s0 = mm_unpackhi_epi32 s0 s1;
         s1 = mm_unpacklo_epi32 s2 s3; s2 = mm_unpackhi_epi32 s2 s3;
         s3 = mm_unpacklo_epi32 s0 s2; s0 = mm_unpackhi_epi32 s0 s2;
         s2 = mm_unpackhi_epi32 s1 tmp; s1 = mm_unpacklo_epi32 s1 tmp;
         s0 = mm_aesenc_si128 s0 (main_rc ! (4 * 8)); s1 = mm_aesenc_si128 s1 (main_rc ! (4 * 8 + 1));
         s2 = mm_aesenc_si128 s2 (main_rc ! (4 * 8 + 2)); s3 = mm_aesenc_si128 s3 (main_rc ! (4 * 8 + 3));
         s0 = mm_aesenc_si128 s0 (main_rc ! (4 * 9)); s1 = mm_aesenc_si128 s1 (main_rc ! (4 * 9 + 1));
         s2 = mm_aesenc_si128 s2 (main_rc ! (4 * 9 + 2)); s3 = mm_aesenc_si128 s3 (main_rc ! (4 * 9 + 3));
         tmp = mm_unpacklo_epi32 s0 s1; s0 = mm_unpackhi_epi32 s0 s1;
         s1 = mm_unpacklo_epi32 s2 s3; s2 = mm_unpackhi_epi32 s2 s3;
         s3 = mm_unpacklo_epi32 s0 s2; s0 = mm_unpackhi_epi32 s0 s2;
         s2 = mm_unpackhi_epi32 s1 tmp; s1 = mm_unpacklo_epi32 s1 tmp;
         pix0 = pix0[0 := value_to_state s0];
         pix0 = pix0[1 := value_to_state s1];
         pix0 = pix0[2 := value_to_state s2];
         pix0 = pix0[3 := value_to_state s3]
          in (s, pix0))
     = (invaesenc_all (invaesenc_all (invmix512 (invaesenc_all (invaesenc_all (invmix512
       (invaesenc_all x5 4)) 3) 2)) 1) 0,
        mix512 (aesenc_all (aesenc_all (mix512 (aesenc_all (aesenc_all (mix512 (aesenc_all (map value_to_state [state_to_value (x5 ! 0), state_to_value (x5 ! 1), state_to_value (x5 ! 2), state_to_value (x5 ! 3)]) 5)) 6) 7)) 8) 9))"
  apply (simp only: Let_def[of "state_to_value _"] Let_def[of "invaesenc_all _ _"]
      Let_def[of "invmix512 _"])
  apply (rule regs_aes[where F="\<lambda>x. (invaesenc_all (invaesenc_all (invmix512 (invaesenc_all (invaesenc_all (invmix512 (invaesenc_all x5 4)) 3) 2)) 1) 0, mix512 (aesenc_all (aesenc_all (mix512 (aesenc_all (aesenc_all (mix512 (x)) 6) 7)) 8) 9))" and r=5], simp)
  apply (rule regs_mix[where F="\<lambda>x. (invaesenc_all (invaesenc_all (invmix512 (invaesenc_all (invaesenc_all (invmix512 (invaesenc_all x5 4)) 3) 2)) 1) 0, mix512 (aesenc_all (aesenc_all (mix512 (aesenc_all (aesenc_all (x) 6) 7)) 8) 9))"])
  apply (rule regs_aes[where F="\<lambda>x. (invaesenc_all (invaesenc_all (invmix512 (invaesenc_all (invaesenc_all (invmix512 (invaesenc_all x5 4)) 3) 2)) 1) 0, mix512 (aesenc_all (aesenc_all (mix512 (aesenc_all (x) 7)) 8) 9))" and r=6], simp)
  apply (rule regs_aes[where F="\<lambda>x. (invaesenc_all (invaesenc_all (invmix512 (invaesenc_all (invaesenc_all (invmix512 (invaesenc_all x5 4)) 3) 2)) 1) 0, mix512 (aesenc_all (aesenc_all (mix512 (x)) 8) 9))" and r=7], simp)
  apply (rule regs_mix[where F="\<lambda>x. (invaesenc_all (invaesenc_all (invmix512 (invaesenc_all (invaesenc_all (invmix512 (invaesenc_all x5 4)) 3) 2)) 1) 0, mix512 (aesenc_all (aesenc_all (x) 8) 9))"])
  apply (rule regs_aes[where F="\<lambda>x. (invaesenc_all (invaesenc_all (invmix512 (invaesenc_all (invaesenc_all (invmix512 (invaesenc_all x5 4)) 3) 2)) 1) 0, mix512 (aesenc_all (x) 9))" and r=8], simp)
  apply (rule regs_aes[where F="\<lambda>x. (invaesenc_all (invaesenc_all (invmix512 (invaesenc_all (invaesenc_all (invmix512 (invaesenc_all x5 4)) 3) 2)) 1) 0, mix512 (x))" and r=9], simp)
  apply (rule regs_mix[where F="\<lambda>x. (invaesenc_all (invaesenc_all (invmix512 (invaesenc_all (invaesenc_all (invmix512 (invaesenc_all x5 4)) 3) 2)) 1) 0, x)"])
  apply (simp add: pix0 upd_num)
  done
  then show ?thesis
    unfolding bytes .
qed


text \<open>The forward path from \<open>x5\<close> on: it leaves out the AES state 1 in the rounds 6 and 7 and
  does not know four bytes of \<open>x5\<close>, and still reads the bytes that the full rounds give.\<close>

lemma eqon_set_right:
  assumes "eqon D s s'" and "j < 4" and "k < 16" and "\<not> D ! j ! k"
  shows "eqon D s (set_byte s' j k v)"
proof -
  from assms(1) have ok: "hkstate_ok s" "hkstate_ok s'" and len: "length D = 4"
    and eq: "\<And>j k. j < 4 \<Longrightarrow> k < 16 \<Longrightarrow> D ! j ! k \<Longrightarrow> s ! j ! k = s' ! j ! k"
    by (simp_all add: eqon_def)
  have l: "length (s' ! j) = 16" "length s' = 4"
    using ok assms(2) by (simp_all add: hkstate_ok_lane) (simp_all add: hkstate_ok_def)
  have "hkstate_ok (set_byte s' j k v)"
    using ok l by (simp add: set_byte_def hkstate_ok_update)
  moreover have "s ! a ! b = set_byte s' j k v ! a ! b" if "a < 4" "b < 16" "D ! a ! b" for a b
  proof -
    from that assms(4) have "a \<noteq> j \<or> b \<noteq> k"
      by auto
    with eq[OF that] that l assms(2) show ?thesis
      by (cases "a = j") (auto simp: set_byte_def)
  qed
  ultimately show ?thesis
    using ok len by (simp add: eqon_def)
qed

lemma Let_skip_aesenc:
  assumes "eqon D s s'" and "j < 4"
    and "\<And>x'. eqon (D_clear D j) s x' \<Longrightarrow> R L (f' x')"
  shows "R L (Let (s'[j := aesenc (s' ! j) r j]) f')"
proof -
  from assms(1,2) have "length (aesenc (s' ! j) r j) = 16"
    by (simp add: eqon_def hkstate_ok_lane length_aesenc)
  from eqon_skip[OF assms(1,2) this] show ?thesis
    unfolding Let_def by (rule assms(3))
qed

lemma four_lanes:
  "(let s = s0[0 := aesenc (s0 ! 0) r 0]; s = s[1 := aesenc (s ! 1) r 1];
        s = s[2 := aesenc (s ! 2) r 2]; s = s[3 := aesenc (s ! 3) r 3] in f s)
     = (let s = aesenc_all s0 r in f s)"
  unfolding Let_def aesenc_all_def upt4 fold_simps by (rule refl)

lemma fwd_tuple_read:
  assumes "length y = 4"
  shows "snd (let s = y[2 := subbytes (y ! 2)]; s = s[2 := shiftrows (s ! 2)]
     in (s,
         [times7 (s ! 2 ! 0) XOR s ! 2 ! 1 XOR times7 (s ! 2 ! 2),
          s ! 2 ! 4 XOR times2 (s ! 2 ! 5) XOR times3 (s ! 2 ! 7),
          times7 (s ! 2 ! 8) XOR times7 (s ! 2 ! 10) XOR s ! 2 ! 11,
          times3 (s ! 2 ! 13) XOR s ! 2 ! 14 XOR times2 (s ! 2 ! 15)])) = fwd_tuple (shiftrows (subbytes (y ! 2)))"
  using assms by (simp add: Let_def fwd_tuple_def)

lemma computefwd_tail_is_full:
  assumes "eqon x5_fwd_known xp x5"
  shows "snd (let s = aesenc_all xp 5;
         s = mix512 s;
         s = s[0 := aesenc (s ! 0) 6 0];
         s = s[2 := aesenc (s ! 2) 6 2];
         s = s[3 := aesenc (s ! 3) 6 3];
         s = s[0 := aesenc (s ! 0) 7 0];
         s = s[2 := aesenc (s ! 2) 7 2];
         s = s[3 := aesenc (s ! 3) 7 3];
         s = mix512 s;
         s = s[2 := subbytes (s ! 2)];
         s = s[2 := shiftrows (s ! 2)]
     in (s,
         [times7 (s ! 2 ! 0) XOR s ! 2 ! 1 XOR times7 (s ! 2 ! 2),
          s ! 2 ! 4 XOR times2 (s ! 2 ! 5) XOR times3 (s ! 2 ! 7),
          times7 (s ! 2 ! 8) XOR times7 (s ! 2 ! 10) XOR s ! 2 ! 11,
          times3 (s ! 2 ! 13) XOR s ! 2 ! 14 XOR times2 (s ! 2 ! 15)]))
     = fwd_tuple (shiftrows (subbytes (mix512 (aesenc_all (aesenc_all (mix512 (aesenc_all x5 5)) 6) 7) ! 2)))"
proof -
  have "snd (let s = aesenc_all xp 5;
         s = mix512 s;
         s = s[0 := aesenc (s ! 0) 6 0];
         s = s[2 := aesenc (s ! 2) 6 2];
         s = s[3 := aesenc (s ! 3) 6 3];
         s = s[0 := aesenc (s ! 0) 7 0];
         s = s[2 := aesenc (s ! 2) 7 2];
         s = s[3 := aesenc (s ! 3) 7 3];
         s = mix512 s;
         s = s[2 := subbytes (s ! 2)];
         s = s[2 := shiftrows (s ! 2)]
     in (s,
         [times7 (s ! 2 ! 0) XOR s ! 2 ! 1 XOR times7 (s ! 2 ! 2),
          s ! 2 ! 4 XOR times2 (s ! 2 ! 5) XOR times3 (s ! 2 ! 7),
          times7 (s ! 2 ! 8) XOR times7 (s ! 2 ! 10) XOR s ! 2 ! 11,
          times3 (s ! 2 ! 13) XOR s ! 2 ! 14 XOR times2 (s ! 2 ! 15)]))
     = snd (let s = aesenc_all x5 5;
         s = mix512 s;
         s = s[0 := aesenc (s ! 0) 6 0];
         s = s[1 := aesenc (s ! 1) 6 1];
         s = s[2 := aesenc (s ! 2) 6 2];
         s = s[3 := aesenc (s ! 3) 6 3];
         s = s[0 := aesenc (s ! 0) 7 0];
         s = s[1 := aesenc (s ! 1) 7 1];
         s = s[2 := aesenc (s ! 2) 7 2];
         s = s[3 := aesenc (s ! 3) 7 3];
         s = mix512 s;
         s = s[2 := subbytes (s ! 2)];
         s = s[2 := shiftrows (s ! 2)]
     in (s,
         [times7 (s ! 2 ! 0) XOR s ! 2 ! 1 XOR times7 (s ! 2 ! 2),
          s ! 2 ! 4 XOR times2 (s ! 2 ! 5) XOR times3 (s ! 2 ! 7),
          times7 (s ! 2 ! 8) XOR times7 (s ! 2 ! 10) XOR s ! 2 ! 11,
          times3 (s ! 2 ! 13) XOR s ! 2 ! 14 XOR times2 (s ! 2 ! 15)]))"
    apply (insert assms)
    apply (erule Let_aesenc_all[where R="\<lambda>a b. snd a = snd b"])
    apply (erule Let_mix512[where R="\<lambda>a b. snd a = snd b"])
    apply (erule Let_aesenc[where R="\<lambda>a b. snd a = snd b"], simp (no_asm))
    apply (erule Let_skip_aesenc[where R="\<lambda>a b. snd a = snd b"], simp (no_asm))
    apply (erule Let_aesenc[where R="\<lambda>a b. snd a = snd b"], simp (no_asm))
    apply (erule Let_aesenc[where R="\<lambda>a b. snd a = snd b"], simp (no_asm))
    apply (erule Let_aesenc[where R="\<lambda>a b. snd a = snd b"], simp (no_asm))
    apply (erule Let_skip_aesenc[where R="\<lambda>a b. snd a = snd b"], simp (no_asm))
    apply (erule Let_aesenc[where R="\<lambda>a b. snd a = snd b"], simp (no_asm))
    apply (erule Let_aesenc[where R="\<lambda>a b. snd a = snd b"], simp (no_asm))
    apply (erule Let_mix512[where R="\<lambda>a b. snd a = snd b"])
    apply (erule Let_subbytes[where R="\<lambda>a b. snd a = snd b"], simp (no_asm))
    apply (erule Let_shiftrows[where R="\<lambda>a b. snd a = snd b"], simp (no_asm))
    apply (drule eqon_reads[where j=2 and ks="[0, 1, 2, 4, 5, 7, 8, 10, 11, 13, 14, 15]"])
      apply (simp (no_asm))
     apply (simp (no_asm) add: D_eval x5_fwd_known_def)
    apply simp
    done
  moreover have "hkstate_ok x5"
    using assms by (simp add: eqon_def)
  then have "hkstate_ok (mix512 (aesenc_all (aesenc_all (mix512 (aesenc_all x5 5)) 6) 7))"
    by (intro length_mix512 hkstate_ok_aesenc_all)
  then have "length (mix512 (aesenc_all (aesenc_all (mix512 (aesenc_all x5 5)) 6) 7)) = 4"
    by (simp add: hkstate_ok_def)
  then have "snd (let s = aesenc_all x5 5;
         s = mix512 s;
         s = s[0 := aesenc (s ! 0) 6 0];
         s = s[1 := aesenc (s ! 1) 6 1];
         s = s[2 := aesenc (s ! 2) 6 2];
         s = s[3 := aesenc (s ! 3) 6 3];
         s = s[0 := aesenc (s ! 0) 7 0];
         s = s[1 := aesenc (s ! 1) 7 1];
         s = s[2 := aesenc (s ! 2) 7 2];
         s = s[3 := aesenc (s ! 3) 7 3];
         s = mix512 s;
         s = s[2 := subbytes (s ! 2)];
         s = s[2 := shiftrows (s ! 2)]
     in (s,
         [times7 (s ! 2 ! 0) XOR s ! 2 ! 1 XOR times7 (s ! 2 ! 2),
          s ! 2 ! 4 XOR times2 (s ! 2 ! 5) XOR times3 (s ! 2 ! 7),
          times7 (s ! 2 ! 8) XOR times7 (s ! 2 ! 10) XOR s ! 2 ! 11,
          times3 (s ! 2 ! 13) XOR s ! 2 ! 14 XOR times2 (s ! 2 ! 15)]))
     = fwd_tuple (shiftrows (subbytes (mix512 (aesenc_all (aesenc_all (mix512 (aesenc_all x5 5)) 6) 7) ! 2)))"
    by (simp only: four_lanes Let_def[of "aesenc_all _ _"] Let_def[of "mix512 _"] fwd_tuple_read)
  ultimately show ?thesis
    by simp
qed

text \<open>A pair of degrees of freedom that match, for the guesses and the seed of the source.\<close>

lemma zero_state:
  "replicate 4 (replicate 16 (0::uint8_t)) =
    [[0, 0, 0, 0, 0, 0, 0, 0, 0, 0, 0, 0, 0, 0, 0, 0],
     [0, 0, 0, 0, 0, 0, 0, 0, 0, 0, 0, 0, 0, 0, 0, 0],
     [0, 0, 0, 0, 0, 0, 0, 0, 0, 0, 0, 0, 0, 0, 0, 0],
     [0, 0, 0, 0, 0, 0, 0, 0, 0, 0, 0, 0, 0, 0, 0, 0]]"
  by (simp add: numeral_eq_Suc)

lemma upt_Suc_0_4: "[Suc 0..<4] = [Suc 0, 2, 3]"
  by code_simp

lemmas table_defs = table2_def table3_def table7_def table9_def table11_def table13_def
  table14_def table68_def table71_def table201_def table203_def sbox_table_def
  invsbox_table_def haraka_rcons_table_def

lemmas times_defs = times2_def times3_def times7_def times9_def times11_def times13_def
  times14_def times68_def times71_def times201_def times203_def sbox_def invsbox_def rccon_def

lemmas run_simps = zero_state exec_simps table_defs times_defs aesenc_all_explicit
  invaesenc_all_explicit aesenc_explicit invaesenc_explicit mcrc_explicit xor_rcons_explicit
  invmixcolumns_explicit invsbsr_explicit mix512_explicit invmix512_explicit subbytes_explicit
  shiftrows_explicit upt_1_4 upt_Suc_0_4 fold_simps

lemma computefwd_example:
  "snd (computefwd (replicate 4 (replicate 16 0)) [0, 0, 0, 0, 0, 0, 0, 53]
      [0, 0, 0, 0, 0, 0, 0, 0, 0, 0, 0, 0, 0, 0, 0, 0, 0, 0, 0, 0]
      [0, 0, 0, 0, 0, 0, 0, 0, 0, 0, 0, 0, 0, 0, 0, 0]
      [0, 0, 0, 0, 0, 0, 0, 0, 0, 0, 0, 0] [27, 61, 0, 0]) = [181, 180, 249, 71]"
  by (simp add: computefwd_def computefwd_x5_def run_simps del: fold.simps
      cong: let_weak_cong fold_weak_cong)

lemma computebwd_example:
  "snd (computebwd (replicate 4 (replicate 16 0)) [0, 0, 0, 0, 0, 0, 0, 53]
      [0, 0, 0, 0, 0, 0, 0, 0, 0, 0, 0, 0, 0, 0, 0, 0, 0, 0, 0, 0]
      [0, 0, 0, 0, 0, 0, 0, 0, 0, 0, 0, 0, 0, 0, 0, 0]
      [0, 0, 0, 0, 0, 0, 0, 0, 0, 0, 0, 0] [177, 133, 0, 0]) = [181, 180, 249, 71]"
  by (simp add: computebwd_def run_simps del: fold.simps
      cong: let_weak_cong fold_weak_cong)

text \<open>Claim C2. Take degrees of freedom of the forward and of the backward path for which
  \<^verbatim>\<open>computefwd\<close> and \<^verbatim>\<open>computebwd\<close> write the same four bytes, with the same guesses and
  \<^verbatim>\<open>round2_match_through_mc\<close>, and let \<^verbatim>\<open>compute_x0_pix0_from_choices\<close> recombine them into
  \<open>x0\<close> and \<open>pix0\<close>. Then \<open>pix0\<close> is the image of \<open>x0\<close> under the full permutation
  \<open>haraka512pi\<close>, and this image has the four matched bytes at the place where the
  backward path reads them off the output: after the inverse of MIX and of round 9 on
  the AES state 2, with the constant of round 8 removed.\<close>

theorem match_is_reproduced_by_full_permutation:
  assumes "hkstate_ok fwds0" and "hkstate_ok x00" and "hkstate_ok pix00"
    and "snd (computefwd fwds0 round2_match_through_mc x3_guesses x4_guesses x5_guesses fwddof)
       = snd (computebwd bwds0 round2_match_through_mc x3_guesses x4_guesses x5_guesses bwddof)"
  shows "snd (compute_x0_pix0_from_choices main_rc x00 pix00 round2_match_through_mc
            x3_guesses x4_guesses x5_guesses fwddof bwddof)
       = haraka512pi (fst (compute_x0_pix0_from_choices main_rc x00 pix00
            round2_match_through_mc x3_guesses x4_guesses x5_guesses fwddof bwddof))
     \<and> output_fingerprint (haraka512pi (fst (compute_x0_pix0_from_choices main_rc x00 pix00
            round2_match_through_mc x3_guesses x4_guesses x5_guesses fwddof bwddof)))
       = snd (computebwd bwds0 round2_match_through_mc x3_guesses x4_guesses x5_guesses bwddof)"
proof -
  define xp where "xp = computefwd_x5 fwds0 round2_match_through_mc x3_guesses x4_guesses
    x5_guesses fwddof"
  define x5 where "x5 = set_byte (set_byte (set_byte (set_byte
      (computefwd_x5 x00 round2_match_through_mc x3_guesses x4_guesses x5_guesses fwddof)
      2 0 (bwddof ! 0)) 2 5 (bwddof ! 1)) 2 10 (bwddof ! 2)) 2 15 (bwddof ! 3)"
  define y where "y = mix512 (aesenc_all (aesenc_all (mix512 (aesenc_all x5 5)) 6) 7)"
  have "eqon x5_fwd_known xp (computefwd_x5 x00 round2_match_through_mc x3_guesses x4_guesses
      x5_guesses fwddof)"
    unfolding xp_def by (rule computefwd_x5_eqon) fact+
  then have e: "eqon x5_fwd_known xp x5"
    unfolding x5_def by (intro eqon_set_right) (simp_all add: x5_fwd_known_def)
  then have ok: "hkstate_ok x5"
    by (simp add: eqon_def)
  then have oky: "hkstate_ok y"
    unfolding y_def by (intro length_mix512 hkstate_ok_aesenc_all)
  from assms(3) have len: "length pix00 = 4"
    by (simp add: hkstate_ok_def)
  have rec: "compute_x0_pix0_from_choices main_rc x00 pix00 round2_match_through_mc
       x3_guesses x4_guesses x5_guesses fwddof bwddof
     = (invaesenc_all (invaesenc_all (invmix512 (invaesenc_all (invaesenc_all (invmix512
         (invaesenc_all x5 4)) 3) 2)) 1) 0,
        mix512 (aesenc_all (aesenc_all y 8) 9))"
    unfolding compute_x0_pix0_from_choices_def y_def x5_def
    by (simp only: Let_def[of "computefwd_x5 _ _ _ _ _ _"] Let_def[of "set_byte _ _ _ _"]
        recombination_from_x5[OF ok[unfolded x5_def] len])
  have pi: "haraka512pi (invaesenc_all (invaesenc_all (invmix512 (invaesenc_all (invaesenc_all
      (invmix512 (invaesenc_all x5 4)) 3) 2)) 1) 0) = mix512 (aesenc_all (aesenc_all y 8) 9)"
    unfolding haraka512pi_explicit first_rounds_of_preimage[OF ok] y_def by (rule refl)
  have "snd (computefwd fwds0 round2_match_through_mc x3_guesses x4_guesses x5_guesses fwddof)
      = fwd_tuple (shiftrows (subbytes (y ! 2)))"
    unfolding computefwd_def y_def
    by (simp only: Let_def[of "computefwd_x5 _ _ _ _ _ _"] Let_def[of xp] xp_def[symmetric]
        computefwd_tail_is_full[OF e])
  with assms(4) have "output_fingerprint (mix512 (aesenc_all (aesenc_all y 8) 9))
      = snd (computebwd bwds0 round2_match_through_mc x3_guesses x4_guesses x5_guesses bwddof)"
    by (simp add: output_fingerprint_of_rounds[OF oky])
  with pi show ?thesis
    unfolding rec by simp
qed

theorem match_is_reproduced_by_full_permutation_witness:
  "snd (compute_x0_pix0_from_choices main_rc (replicate 4 (replicate 16 0))
          (replicate 4 (replicate 16 0)) [0, 0, 0, 0, 0, 0, 0, 53]
          [0, 0, 0, 0, 0, 0, 0, 0, 0, 0, 0, 0, 0, 0, 0, 0, 0, 0, 0, 0]
          [0, 0, 0, 0, 0, 0, 0, 0, 0, 0, 0, 0, 0, 0, 0, 0]
          [0, 0, 0, 0, 0, 0, 0, 0, 0, 0, 0, 0] [27, 61, 0, 0] [177, 133, 0, 0])
     = haraka512pi (fst (compute_x0_pix0_from_choices main_rc (replicate 4 (replicate 16 0))
          (replicate 4 (replicate 16 0)) [0, 0, 0, 0, 0, 0, 0, 53]
          [0, 0, 0, 0, 0, 0, 0, 0, 0, 0, 0, 0, 0, 0, 0, 0, 0, 0, 0, 0]
          [0, 0, 0, 0, 0, 0, 0, 0, 0, 0, 0, 0, 0, 0, 0, 0]
          [0, 0, 0, 0, 0, 0, 0, 0, 0, 0, 0, 0] [27, 61, 0, 0] [177, 133, 0, 0]))
   \<and> output_fingerprint (haraka512pi (fst (compute_x0_pix0_from_choices main_rc
          (replicate 4 (replicate 16 0)) (replicate 4 (replicate 16 0))
          [0, 0, 0, 0, 0, 0, 0, 53]
          [0, 0, 0, 0, 0, 0, 0, 0, 0, 0, 0, 0, 0, 0, 0, 0, 0, 0, 0, 0]
          [0, 0, 0, 0, 0, 0, 0, 0, 0, 0, 0, 0, 0, 0, 0, 0]
          [0, 0, 0, 0, 0, 0, 0, 0, 0, 0, 0, 0] [27, 61, 0, 0] [177, 133, 0, 0])))
     = [181, 180, 249, 71]"
proof -
  have ok: "hkstate_ok (replicate 4 (replicate 16 0))"
    by (simp add: hkstate_ok_def list_all_iff)
  have m: "snd (computefwd (replicate 4 (replicate 16 0)) [0, 0, 0, 0, 0, 0, 0, 53]
      [0, 0, 0, 0, 0, 0, 0, 0, 0, 0, 0, 0, 0, 0, 0, 0, 0, 0, 0, 0]
      [0, 0, 0, 0, 0, 0, 0, 0, 0, 0, 0, 0, 0, 0, 0, 0]
      [0, 0, 0, 0, 0, 0, 0, 0, 0, 0, 0, 0] [27, 61, 0, 0])
    = snd (computebwd (replicate 4 (replicate 16 0)) [0, 0, 0, 0, 0, 0, 0, 53]
      [0, 0, 0, 0, 0, 0, 0, 0, 0, 0, 0, 0, 0, 0, 0, 0, 0, 0, 0, 0]
      [0, 0, 0, 0, 0, 0, 0, 0, 0, 0, 0, 0, 0, 0, 0, 0]
      [0, 0, 0, 0, 0, 0, 0, 0, 0, 0, 0, 0] [177, 133, 0, 0])"
    unfolding computefwd_example computebwd_example by (rule refl)
  from match_is_reproduced_by_full_permutation[OF ok ok ok m] show ?thesis
    unfolding computebwd_example .
qed

end
